theory Spec2Isabelle
  imports Complex_Main
begin

section \<open>Tensors, errors and broadcasting\<close>

text \<open>
  The decoder of \<^verbatim>\<open>examples/directml/llm/decoder_model.py\<close> is embedded as pure
  functions on nested lists. A tensor of rank \<open>n\<close> is an \<open>n\<close>-fold nested list of reals,
  outermost axis first. Floating-point numbers are idealised as reals, so rounding,
  overflow, NaN and the casts between precisions are not part of the model. A nested
  list cannot record the extent of an axis that lies below an axis of extent zero; where
  the source reads such an extent from \<^verbatim>\<open>shape\<close> the model takes it from the first
  element and uses 0 when there is none.

  Every raise of the source (and every shape error raised by the tensor library) is a
  value \<open>Inl e\<close>; a successful result is \<open>Inr v\<close>.
\<close>

type_synonym tensor1 = "real list"
type_synonym tensor2 = "real list list"
type_synonym tensor3 = "real list list list"
type_synonym tensor4 = "real list list list list"

datatype error = KeyError | ValueError | ZeroDivisionError | IndexError | RuntimeError | CreationError

definition rbind :: "error + 'a \<Rightarrow> ('a \<Rightarrow> error + 'b) \<Rightarrow> error + 'b" where
  "rbind m f = (case m of Inl e \<Rightarrow> Inl e | Inr v \<Rightarrow> f v)"

primrec traverse :: "('a \<Rightarrow> error + 'b) \<Rightarrow> 'a list \<Rightarrow> error + 'b list" where
  "traverse f [] = Inr []"
| "traverse f (x # xs) = rbind (f x) (\<lambda>y. rbind (traverse f xs) (\<lambda>ys. Inr (y # ys)))"

text \<open>
  Broadcasting of two operands along one axis: equal extents are paired, an extent of 1
  is repeated, anything else is the library's shape error. The in-place variant
  (\<^verbatim>\<open>+=\<close>) may only repeat the right operand, because the left one keeps its shape.
\<close>

definition broadcast2 :: "('a \<Rightarrow> 'b \<Rightarrow> error + 'c) \<Rightarrow> 'a list \<Rightarrow> 'b list \<Rightarrow> error + 'c list" where
  "broadcast2 f xs ys =
     (if length xs = length ys then traverse (\<lambda>(x, y). f x y) (zip xs ys)
      else if length ys = 1 then traverse (\<lambda>x. f x (hd ys)) xs
      else if length xs = 1 then traverse (\<lambda>y. f (hd xs) y) ys
      else Inl RuntimeError)"

definition broadcast_into :: "('a \<Rightarrow> 'b \<Rightarrow> error + 'a) \<Rightarrow> 'a list \<Rightarrow> 'b list \<Rightarrow> error + 'a list" where
  "broadcast_into f xs ys =
     (if length xs = length ys then traverse (\<lambda>(x, y). f x y) (zip xs ys)
      else if length ys = 1 then traverse (\<lambda>x. f x (hd ys)) xs
      else Inl RuntimeError)"

definition map3 :: "(real \<Rightarrow> real) \<Rightarrow> tensor3 \<Rightarrow> tensor3" where
  "map3 f = map (map (map f))"

definition map4 :: "(real \<Rightarrow> real) \<Rightarrow> tensor4 \<Rightarrow> tensor4" where
  "map4 f = map (map (map (map f)))"

definition mul1 :: "tensor1 \<Rightarrow> tensor1 \<Rightarrow> error + tensor1" where
  "mul1 = broadcast2 (\<lambda>a b. Inr (a * b))"

definition add1 :: "tensor1 \<Rightarrow> tensor1 \<Rightarrow> error + tensor1" where
  "add1 = broadcast2 (\<lambda>a b. Inr (a + b))"

definition mul3 :: "tensor3 \<Rightarrow> tensor3 \<Rightarrow> error + tensor3" where
  "mul3 = broadcast2 (broadcast2 mul1)"

definition add3 :: "tensor3 \<Rightarrow> tensor3 \<Rightarrow> error + tensor3" where
  "add3 = broadcast2 (broadcast2 add1)"

definition mul4 :: "tensor4 \<Rightarrow> tensor4 \<Rightarrow> error + tensor4" where
  "mul4 = broadcast2 (broadcast2 (broadcast2 mul1))"

definition add4 :: "tensor4 \<Rightarrow> tensor4 \<Rightarrow> error + tensor4" where
  "add4 = broadcast2 (broadcast2 (broadcast2 add1))"

definition iadd4 :: "tensor4 \<Rightarrow> tensor4 \<Rightarrow> error + tensor4" where
  "iadd4 = broadcast_into (broadcast_into (broadcast_into (broadcast_into (\<lambda>a b. Inr (a + b)))))"

definition dim1 :: "'a list list \<Rightarrow> nat" where
  "dim1 x = (case x of [] \<Rightarrow> 0 | m # _ \<Rightarrow> length m)"

definition last_dim4 :: "tensor4 \<Rightarrow> nat" where
  "last_dim4 x = (case concat (concat x) of [] \<Rightarrow> 0 | r # _ \<Rightarrow> length r)"

definition flatten3 :: "tensor3 \<Rightarrow> real list" where
  "flatten3 x = concat (concat x)"

definition flatten4 :: "tensor4 \<Rightarrow> real list" where
  "flatten4 x = concat (concat (concat x))"

text \<open>A tensor has shape \<open>(a, b, ...)\<close> when every nested list has the extent of its axis.\<close>

definition is_tensor2 :: "nat \<Rightarrow> nat \<Rightarrow> 'a list list \<Rightarrow> bool" where
  "is_tensor2 a b t = (length t = a \<and> list_all (\<lambda>r. length r = b) t)"

definition is_tensor3 :: "nat \<Rightarrow> nat \<Rightarrow> nat \<Rightarrow> 'a list list list \<Rightarrow> bool" where
  "is_tensor3 a b c t = (length t = a \<and> list_all (is_tensor2 b c) t)"

definition is_tensor4 :: "nat \<Rightarrow> nat \<Rightarrow> nat \<Rightarrow> nat \<Rightarrow> 'a list list list list \<Rightarrow> bool" where
  "is_tensor4 a b c d t = (length t = a \<and> list_all (is_tensor3 b c d) t)"

text \<open>\<^verbatim>\<open>reshape\<close> keeps the row-major order of the elements and fails unless their number fits.\<close>

definition reshape3 :: "nat \<Rightarrow> nat \<Rightarrow> nat \<Rightarrow> real list \<Rightarrow> error + tensor3" where
  "reshape3 a b c flat =
     (if length flat = a * b * c
      then Inr (map (\<lambda>i. map (\<lambda>j. map (\<lambda>k. flat ! ((i * b + j) * c + k)) [0..<c]) [0..<b]) [0..<a])
      else Inl RuntimeError)"

definition reshape4 :: "nat \<Rightarrow> nat \<Rightarrow> nat \<Rightarrow> nat \<Rightarrow> real list \<Rightarrow> error + tensor4" where
  "reshape4 a b c d flat =
     (if length flat = a * b * c * d
      then Inr (map (\<lambda>i. map (\<lambda>j. map (\<lambda>k. map (\<lambda>l. flat ! (((i * b + j) * c + k) * d + l))
              [0..<d]) [0..<c]) [0..<b]) [0..<a])
      else Inl RuntimeError)"

text \<open>
  \<^verbatim>\<open>t.transpose(1, 2)\<close> of a tensor of shape \<open>(batch, seq, n, d)\<close>; the extent \<open>n\<close>
  of the axis that moves forward is passed explicitly.
\<close>

definition transpose12 :: "nat \<Rightarrow> tensor4 \<Rightarrow> tensor4" where
  "transpose12 n t = map (\<lambda>rows. map (\<lambda>h. map (\<lambda>row. row ! h) rows) [0..<n]) t"

definition dot :: "real list \<Rightarrow> real list \<Rightarrow> real" where
  "dot v w = sum_list (map2 (*) v w)"

section \<open>Linear layers, embedding, normalisation\<close>

record Linear =
  in_features :: nat
  out_features :: nat
  lin_weight :: tensor2

text \<open>\<^verbatim>\<open>torch.nn.Linear(..., bias=False)\<close>: every feature vector is multiplied with the
  transposed weight; a vector of the wrong length is a shape error.\<close>

definition Linear_forward :: "Linear \<Rightarrow> tensor3 \<Rightarrow> error + tensor3" where
  "Linear_forward l x =
     traverse (traverse (\<lambda>v. if length v = in_features l
                              then Inr (map (\<lambda>w. dot v w) (lin_weight l))
                              else Inl RuntimeError)) x"

text \<open>\<^verbatim>\<open>torch.nn.Embedding\<close>: a token id outside \<open>[0, vocab)\<close> is an index error.\<close>

definition Embedding_forward :: "tensor2 \<Rightarrow> int list list \<Rightarrow> error + tensor3" where
  "Embedding_forward w tokens =
     traverse (traverse (\<lambda>t. if 0 \<le> t \<and> t < int (length w) then Inr (w ! nat t)
                              else Inl IndexError)) tokens"

datatype Norm =
    LayerNorm (eps: real) (weight: "real list") (bias: "real list")
  | RMSNorm (eps: real) (weight: "real list")

definition mean :: "real list \<Rightarrow> real" where
  "mean v = sum_list v / real (length v)"

definition RMSNorm_row :: "real \<Rightarrow> real list \<Rightarrow> real list \<Rightarrow> error + real list" where
  "RMSNorm_row e w hidden_states =
     (let variance = mean (map (\<lambda>a. a ^ 2) hidden_states);
          hidden_states = map (\<lambda>a. a * (1 / sqrt (variance + e))) hidden_states
      in mul1 w hidden_states)"

definition LayerNorm_row :: "real \<Rightarrow> real list \<Rightarrow> real list \<Rightarrow> real list \<Rightarrow> error + real list" where
  "LayerNorm_row e w b hidden_states =
     (let diff = map (\<lambda>a. a - mean hidden_states) hidden_states;
          variance = mean (map (\<lambda>a. a ^ 2) diff);
          hidden_states = map (\<lambda>a. a / sqrt (variance + e)) diff
      in rbind (mul1 w hidden_states) (\<lambda>scaled. add1 scaled b))"

fun Norm_forward :: "Norm \<Rightarrow> tensor3 \<Rightarrow> error + tensor3" where
  "Norm_forward (RMSNorm e w) x = traverse (traverse (RMSNorm_row e w)) x"
| "Norm_forward (LayerNorm e w b) x = traverse (traverse (LayerNorm_row e w b)) x"

section \<open>Rotary position embedding\<close>

definition rotary_mat :: "nat \<Rightarrow> nat \<Rightarrow> nat \<Rightarrow> real \<Rightarrow> real \<Rightarrow> error + (tensor2 \<times> tensor2)" where
  "rotary_mat hidden_size' num_heads' max_seq_len theta head_scale =
     (if num_heads' = 0 then Inl ZeroDivisionError
      else
        let head_dim' = head_scale * real hidden_size' / real num_heads';
            pos = map (\<lambda>i. 2 * real i) [0..<nat \<lceil>head_dim' / 2\<rceil>];
            freqs = map (\<lambda>p. 1 / (theta powr (p / head_dim'))) pos;
            freqs = map (\<lambda>idx. map (\<lambda>f. real idx * f) freqs) [0..<max_seq_len];
            freqs = map (\<lambda>row. row @ row) freqs
        in Inr (map (map cos) freqs, map (map sin) freqs))"

definition rotate_half_row :: "real list \<Rightarrow> real list" where
  "rotate_half_row x =
     (let half_dim = length x div 2; x1 = take half_dim x; x2 = drop half_dim x
      in map uminus x2 @ x1)"

definition rotate_half :: "tensor4 \<Rightarrow> tensor4" where
  "rotate_half x = map (map (map rotate_half_row)) x"

text \<open>Indexing a table with a tensor of integer positions; as in Python, a negative
  position counts from the end and a position outside the table is an index error.\<close>

definition index_rows :: "tensor2 \<Rightarrow> int list list \<Rightarrow> error + tensor3" where
  "index_rows tab ids =
     traverse (traverse (\<lambda>p. let n = int (length tab) in
                              if - n \<le> p \<and> p < n then Inr (tab ! nat (if p < 0 then p + n else p))
                              else Inl IndexError)) ids"

definition unsqueeze1 :: "tensor3 \<Rightarrow> tensor4" where
  "unsqueeze1 t = map (\<lambda>m. [m]) t"

definition apply_rope :: "tensor4 \<Rightarrow> tensor2 \<Rightarrow> tensor2 \<Rightarrow> int list list \<Rightarrow> error + tensor4" where
  "apply_rope x cos_t sin_t position_ids =
     (let head_dim' = last_dim4 x;
          cos_t = map (take head_dim') cos_t;
          sin_t = map (take head_dim') sin_t
      in rbind (index_rows cos_t position_ids) (\<lambda>cos_g.
         rbind (index_rows sin_t position_ids) (\<lambda>sin_g.
         rbind (mul4 x (unsqueeze1 cos_g)) (\<lambda>a.
         rbind (mul4 (rotate_half x) (unsqueeze1 sin_g)) (\<lambda>b.
         add4 a b)))))"

section \<open>Attention mask\<close>

definition masked_fill :: "real \<Rightarrow> real" where
  "masked_fill v = (if v \<noteq> 0 then - 10000 else v)"

definition tril_ones :: "nat \<Rightarrow> tensor2" where
  "tril_ones n = map (\<lambda>r. map (\<lambda>c. if c \<le> r then 1 else 0) [0..<n]) [0..<n]"

text \<open>The Python slice \<^verbatim>\<open>xs[-n:]\<close>: the last \<open>n\<close> elements, all of them when \<open>n\<close> is 0
  or exceeds the length.\<close>

definition slice_last :: "nat \<Rightarrow> 'a list \<Rightarrow> 'a list" where
  "slice_last n xs = (if n = 0 then xs else drop (length xs - n) xs)"

definition expand_heads :: "nat \<Rightarrow> tensor4 \<Rightarrow> tensor4" where
  "expand_heads n t = map (\<lambda>heads. replicate n (hd heads)) t"

definition ApplyMask_forward :: "bool \<Rightarrow> tensor4 \<Rightarrow> tensor2 \<Rightarrow> nat \<Rightarrow> nat \<Rightarrow> error + tensor4" where
  "ApplyMask_forward use_cache score attn_mask seq_len num_heads' =
     (let expanded_mask = map (\<lambda>row. [replicate seq_len row]) attn_mask;
          inverted_mask = map4 (\<lambda>m. 1 - m) expanded_mask;
          mask_score = map4 masked_fill inverted_mask
      in rbind (if \<not> use_cache then
                  (let batch_size = length attn_mask;
                       max_seq_len = dim1 attn_mask;
                       causal_mask = replicate batch_size [tril_ones max_seq_len];
                       causal_mask = map (map (slice_last seq_len)) causal_mask;
                       inverted_causal_mask = map4 (\<lambda>m. 1 - m) causal_mask
                   in iadd4 mask_score (map4 masked_fill inverted_causal_mask))
                else Inr mask_score)
          (\<lambda>mask_score. add4 score (expand_heads num_heads' mask_score)))"

text \<open>
  The bias as the specification words it, entry by entry: a mask value \<open>m\<close> is inverted to
  \<open>1 - m\<close> and a nonzero result becomes \<open>-10000\<close>; the causal mask is lower triangular, and
  row \<open>i\<close> of its last \<open>seq_len\<close> rows is row \<open>total_len - seq_len + i\<close> of the full mask.
\<close>

definition spec_bias_of :: "real \<Rightarrow> real" where
  "spec_bias_of m = (if 1 - m \<noteq> 0 then - 10000 else 0)"

definition spec_attention_bias :: "bool \<Rightarrow> tensor2 \<Rightarrow> nat \<Rightarrow> nat \<Rightarrow> nat \<Rightarrow> nat \<Rightarrow> real" where
  "spec_attention_bias use_cache attn_mask seq_len b i j =
     (let total_len = dim1 attn_mask;
          padding = spec_bias_of (attn_mask ! b ! j);
          causal = spec_bias_of (if j \<le> total_len - seq_len + i then 1 else 0)
      in if use_cache then padding else padding + causal)"

section \<open>Self-attention\<close>

definition broadcast_key_value :: "tensor4 \<Rightarrow> nat \<Rightarrow> tensor4" where
  "broadcast_key_value hidden_states n_rep =
     map (\<lambda>heads. concat (map (\<lambda>head. replicate n_rep head) heads)) hidden_states"

text \<open>\<^verbatim>\<open>torch.cat((a, b), dim=2)\<close>: all other axes have to agree.\<close>

definition cat_dim2 :: "tensor4 \<Rightarrow> tensor4 \<Rightarrow> error + tensor4" where
  "cat_dim2 a b =
     (if length a \<noteq> length b then Inl RuntimeError
      else traverse (\<lambda>(ha, hb).
             if length ha \<noteq> length hb then Inl RuntimeError
             else traverse (\<lambda>(ra, rb).
                    if \<exists>u \<in> set ra. \<exists>v \<in> set rb. length u \<noteq> length v then Inl RuntimeError
                    else Inr (ra @ rb)) (zip ha hb)) (zip a b))"

text \<open>\<^verbatim>\<open>torch.matmul(query, key.permute([0, 1, 3, 2]))\<close>: entry \<open>(i, j)\<close> of each head is
  the dot product of query row \<open>i\<close> with key row \<open>j\<close>; batch and head axes broadcast.\<close>

definition matmul_nt :: "tensor4 \<Rightarrow> tensor4 \<Rightarrow> error + tensor4" where
  "matmul_nt q k =
     broadcast2 (broadcast2 (\<lambda>qm km.
       traverse (\<lambda>qi. traverse (\<lambda>kj. if length qi = length kj then Inr (dot qi kj)
                                       else Inl RuntimeError) km) qm)) q k"

text \<open>\<^verbatim>\<open>torch.matmul(prob, value)\<close>.\<close>

definition matmul :: "tensor4 \<Rightarrow> tensor4 \<Rightarrow> error + tensor4" where
  "matmul p v =
     broadcast2 (broadcast2 (\<lambda>pm vm.
       traverse (\<lambda>pr. if length pr = length vm
                       then Inr (map (\<lambda>d. sum_list (map2 (\<lambda>pj vj. pj * vj ! d) pr vm)) [0..<dim1 vm])
                       else Inl RuntimeError) pm)) p v"

definition softmax :: "real list \<Rightarrow> real list" where
  "softmax v = map (\<lambda>a. exp a / sum_list (map exp v)) v"

record SelfAttention =
  head_dim :: nat
  q_proj :: Linear
  k_proj :: Linear
  v_proj :: Linear
  o_proj :: Linear
  hidden_size :: nat
  num_heads :: nat
  num_key_value_heads :: nat
  scale :: real

definition SelfAttention_forward ::
  "SelfAttention \<Rightarrow> bool \<Rightarrow> tensor3 \<Rightarrow> int list list \<Rightarrow> tensor2 \<Rightarrow> tensor2 \<Rightarrow> tensor2 \<Rightarrow>
   tensor4 \<Rightarrow> tensor4 \<Rightarrow> error + (tensor3 \<times> tensor4 \<times> tensor4)" where
  "SelfAttention_forward self use_cache x position_ids attn_mask cos_t sin_t k_cache v_cache =
     rbind (Linear_forward (q_proj self) x) (\<lambda>query.
     rbind (Linear_forward (k_proj self) x) (\<lambda>key.
     rbind (Linear_forward (v_proj self) x) (\<lambda>value.
     let batch_size = length x; seq_len = dim1 x in
     rbind (reshape4 batch_size seq_len (num_heads self) (head_dim self) (flatten3 query)) (\<lambda>query.
     rbind (reshape4 batch_size seq_len (num_key_value_heads self) (head_dim self) (flatten3 key)) (\<lambda>key.
     rbind (reshape4 batch_size seq_len (num_key_value_heads self) (head_dim self) (flatten3 value)) (\<lambda>value.
     let query = transpose12 (num_heads self) query;
         key = transpose12 (num_key_value_heads self) key;
         value = transpose12 (num_key_value_heads self) value in
     rbind (apply_rope query cos_t sin_t position_ids) (\<lambda>query.
     rbind (apply_rope key cos_t sin_t position_ids) (\<lambda>key.
     rbind (cat_dim2 k_cache key) (\<lambda>k_cache.
     rbind (cat_dim2 v_cache value) (\<lambda>v_cache.
     rbind (if num_heads self \<noteq> num_key_value_heads self then
              (if num_key_value_heads self = 0 then Inl ZeroDivisionError
               else let n_reps = num_heads self div num_key_value_heads self
                    in Inr (broadcast_key_value k_cache n_reps, broadcast_key_value v_cache n_reps))
            else Inr (k_cache, v_cache)) (\<lambda>(key, value).
     rbind (matmul_nt query key) (\<lambda>score.
     let score = map4 (\<lambda>s. s / scale self) score in
     rbind (ApplyMask_forward use_cache score attn_mask seq_len (num_heads self)) (\<lambda>score.
     let prob = map (map (map softmax)) score in
     rbind (matmul prob value) (\<lambda>attn.
     rbind (reshape3 batch_size seq_len (hidden_size self) (flatten4 (map transpose attn))) (\<lambda>attn.
     rbind (Linear_forward (o_proj self) attn) (\<lambda>out.
     Inr (out, k_cache, v_cache)))))))))))))))))"

text \<open>
  The grouped path, for comparison: the same forward pass with the key/value broadcast
  applied whatever the head counts are.
\<close>

definition SelfAttention_forward_grouped ::
  "SelfAttention \<Rightarrow> bool \<Rightarrow> tensor3 \<Rightarrow> int list list \<Rightarrow> tensor2 \<Rightarrow> tensor2 \<Rightarrow> tensor2 \<Rightarrow>
   tensor4 \<Rightarrow> tensor4 \<Rightarrow> error + (tensor3 \<times> tensor4 \<times> tensor4)" where
  "SelfAttention_forward_grouped self use_cache x position_ids attn_mask cos_t sin_t k_cache v_cache =
     rbind (Linear_forward (q_proj self) x) (\<lambda>query.
     rbind (Linear_forward (k_proj self) x) (\<lambda>key.
     rbind (Linear_forward (v_proj self) x) (\<lambda>value.
     let batch_size = length x; seq_len = dim1 x in
     rbind (reshape4 batch_size seq_len (num_heads self) (head_dim self) (flatten3 query)) (\<lambda>query.
     rbind (reshape4 batch_size seq_len (num_key_value_heads self) (head_dim self) (flatten3 key)) (\<lambda>key.
     rbind (reshape4 batch_size seq_len (num_key_value_heads self) (head_dim self) (flatten3 value)) (\<lambda>value.
     let query = transpose12 (num_heads self) query;
         key = transpose12 (num_key_value_heads self) key;
         value = transpose12 (num_key_value_heads self) value in
     rbind (apply_rope query cos_t sin_t position_ids) (\<lambda>query.
     rbind (apply_rope key cos_t sin_t position_ids) (\<lambda>key.
     rbind (cat_dim2 k_cache key) (\<lambda>k_cache.
     rbind (cat_dim2 v_cache value) (\<lambda>v_cache.
     rbind (if num_key_value_heads self = 0 then Inl ZeroDivisionError
            else let n_reps = num_heads self div num_key_value_heads self
                 in Inr (broadcast_key_value k_cache n_reps, broadcast_key_value v_cache n_reps))
       (\<lambda>(key, value).
     rbind (matmul_nt query key) (\<lambda>score.
     let score = map4 (\<lambda>s. s / scale self) score in
     rbind (ApplyMask_forward use_cache score attn_mask seq_len (num_heads self)) (\<lambda>score.
     let prob = map (map (map softmax)) score in
     rbind (matmul prob value) (\<lambda>attn.
     rbind (reshape3 batch_size seq_len (hidden_size self) (flatten4 (map transpose attn))) (\<lambda>attn.
     rbind (Linear_forward (o_proj self) attn) (\<lambda>out.
     Inr (out, k_cache, v_cache)))))))))))))))))"

section \<open>Gated MLP, transformer layer, model\<close>

record ProjLayerSiluMatMul =
  gate_proj :: Linear
  down_proj :: Linear
  up_proj :: Linear

definition sigmoid :: "real \<Rightarrow> real" where
  "sigmoid z = 1 / (1 + exp (- z))"

definition ProjLayerSiluMatMul_forward :: "ProjLayerSiluMatMul \<Rightarrow> tensor3 \<Rightarrow> error + tensor3" where
  "ProjLayerSiluMatMul_forward self x =
     rbind (Linear_forward (gate_proj self) x) (\<lambda>w1x.
     rbind (mul3 w1x (map3 sigmoid w1x)) (\<lambda>gated.
     rbind (Linear_forward (up_proj self) x) (\<lambda>up.
     rbind (mul3 gated up) (\<lambda>prod.
     Linear_forward (down_proj self) prod))))"

record TransformerLayer =
  input_layernorm :: Norm
  post_attention_layernorm :: Norm
  cos_tab :: tensor2
  sin_tab :: tensor2
  self_attn :: SelfAttention
  mlp :: ProjLayerSiluMatMul

definition TransformerLayer_forward ::
  "TransformerLayer \<Rightarrow> bool \<Rightarrow> tensor3 \<Rightarrow> int list list \<Rightarrow> tensor2 \<Rightarrow> tensor4 \<Rightarrow> tensor4 \<Rightarrow>
   error + (tensor3 \<times> tensor4 \<times> tensor4)" where
  "TransformerLayer_forward self use_cache x position_ids attn_mask k_cache v_cache =
     rbind (Norm_forward (input_layernorm self) x) (\<lambda>normed.
     rbind (SelfAttention_forward (self_attn self) use_cache normed position_ids attn_mask
              (cos_tab self) (sin_tab self) k_cache v_cache) (\<lambda>(h, k_out, v_out).
     rbind (add3 x h) (\<lambda>h.
     rbind (Norm_forward (post_attention_layernorm self) h) (\<lambda>normed.
     rbind (ProjLayerSiluMatMul_forward (mlp self) normed) (\<lambda>m.
     rbind (add3 h m) (\<lambda>out.
     Inr (out, k_out, v_out)))))))"

record cache_entry =
  cache_key :: tensor4
  cache_value :: tensor4

record Model =
  embed_tokens :: tensor2
  final_norm :: Norm
  layers :: "TransformerLayer list"

text \<open>The loop of \<^verbatim>\<open>Model.forward\<close> over \<^verbatim>\<open>enumerate(self.layers)\<close>. The clone of a
  cache tensor has the value of the tensor, and the model is about values.\<close>

primrec Model_layers ::
  "TransformerLayer list \<Rightarrow> nat \<Rightarrow> bool \<Rightarrow> tensor3 \<Rightarrow> int list list \<Rightarrow> tensor2 \<Rightarrow> cache_entry list \<Rightarrow>
   tensor4 list \<Rightarrow> tensor4 list \<Rightarrow> error + (tensor3 \<times> tensor4 list \<times> tensor4 list)" where
  "Model_layers [] layer_idx use_cache x position_ids attn_mask cache k_caches v_caches =
     Inr (x, k_caches, v_caches)"
| "Model_layers (layer # rest) layer_idx use_cache x position_ids attn_mask cache k_caches v_caches =
     (if length cache \<le> layer_idx then Inl IndexError
      else
        let k_cache = cache_key (cache ! layer_idx);
            v_cache = cache_value (cache ! layer_idx)
        in rbind (TransformerLayer_forward layer use_cache x position_ids attn_mask k_cache v_cache)
             (\<lambda>(x, k_cache, v_cache).
                Model_layers rest (Suc layer_idx) use_cache x position_ids attn_mask cache
                  (k_caches @ [k_cache]) (v_caches @ [v_cache])))"

definition Model_forward ::
  "Model \<Rightarrow> bool \<Rightarrow> int list list \<Rightarrow> int list list \<Rightarrow> tensor2 \<Rightarrow> cache_entry list \<Rightarrow>
   error + (tensor3 \<times> tensor4 list \<times> tensor4 list)" where
  "Model_forward self use_cache tokens position_ids attn_mask cache =
     rbind (Embedding_forward (embed_tokens self) tokens) (\<lambda>x.
     rbind (Model_layers (layers self) 0 use_cache x position_ids attn_mask cache [] [])
       (\<lambda>(x, k_caches, v_caches).
     rbind (Norm_forward (final_norm self) x) (\<lambda>normed.
     Inr (normed, k_caches, v_caches))))"

record DecoderModel =
  model :: Model
  lm_head :: Linear

text \<open>The returned Python list \<^verbatim>\<open>[logits, k_0, v_0, k_1, v_1, ...]\<close> is the pair of the
  logits and the list of the cache tensors in that order.\<close>

definition forward_common ::
  "DecoderModel \<Rightarrow> bool \<Rightarrow> int list list \<Rightarrow> int list list \<Rightarrow> tensor2 \<Rightarrow> cache_entry list \<Rightarrow>
   error + (tensor3 \<times> tensor4 list)" where
  "forward_common self use_cache tokens position_ids_increment attn_mask cache =
     rbind (Model_forward (model self) use_cache tokens position_ids_increment attn_mask cache)
       (\<lambda>(hidden_states, k_caches, v_caches).
     rbind (Linear_forward (lm_head self) hidden_states) (\<lambda>logits.
     Inr (logits, concat (map (\<lambda>(k_cache, v_cache). [k_cache, v_cache]) (zip k_caches v_caches)))))"

definition forward_no_cache ::
  "DecoderModel \<Rightarrow> int list list \<Rightarrow> int list list \<Rightarrow> tensor2 \<Rightarrow> cache_entry list \<Rightarrow>
   error + (tensor3 \<times> tensor4 list)" where
  "forward_no_cache self tokens position_ids attn_mask cache =
     forward_common self False tokens position_ids attn_mask cache"

definition forward_use_cache ::
  "DecoderModel \<Rightarrow> int list list \<Rightarrow> int list list \<Rightarrow> tensor2 \<Rightarrow> cache_entry list \<Rightarrow>
   error + (tensor3 \<times> tensor4 list)" where
  "forward_use_cache self tokens_increment position_ids_increment attn_mask cache =
     forward_common self True tokens_increment position_ids_increment attn_mask cache"

section \<open>Construction\<close>

text \<open>
  The sizes of the source are natural numbers here: a negative size is outside the model.
  The freshly initialised weights of a linear layer or an embedding are random in the
  source; the constructors take them from a parameter \<open>init\<close>, a function from a slot
  number, a row and a column to the initial value.

  Creating a tensor can fail: the tensor library refuses an extent that is no 64-bit
  integer and a tensor for which it finds no memory. Which shapes it can create depends
  on the machine, so this is a parameter \<open>creatable\<close> of the constructors, a predicate on
  shapes. \<open>CreationError\<close> stands for the error the library raises then. The tensors a
  module keeps (weights and rotary tables) are created this way; in the forward pass the
  creation of a tensor is not modelled as failing.
\<close>

definition create :: "(nat list \<Rightarrow> bool) \<Rightarrow> nat list \<Rightarrow> 'a \<Rightarrow> error + 'a" where
  "create creatable shape t = (if creatable shape then Inr t else Inl CreationError)"

text \<open>\<^verbatim>\<open>torch.nn.Linear(in_features, out_features, bias=False)\<close>: the weight has shape
  \<open>(out_features, in_features)\<close>.\<close>

definition Linear_init ::
  "(nat list \<Rightarrow> bool) \<Rightarrow> (nat \<Rightarrow> nat \<Rightarrow> real) \<Rightarrow> nat \<Rightarrow> nat \<Rightarrow> error + Linear" where
  "Linear_init creatable init in_features' out_features' =
     rbind (create creatable [out_features', in_features']
              (map (\<lambda>r. map (\<lambda>c. init r c) [0..<in_features']) [0..<out_features'])) (\<lambda>w.
     Inr \<lparr>in_features = in_features', out_features = out_features', lin_weight = w\<rparr>)"

definition LayerNorm_init :: "(nat list \<Rightarrow> bool) \<Rightarrow> nat \<Rightarrow> real \<Rightarrow> error + Norm" where
  "LayerNorm_init creatable dim' e =
     rbind (create creatable [dim'] (replicate dim' 1)) (\<lambda>w.
     rbind (create creatable [dim'] (replicate dim' 0)) (\<lambda>b.
     Inr (LayerNorm e w b)))"

definition RMSNorm_init :: "(nat list \<Rightarrow> bool) \<Rightarrow> nat \<Rightarrow> real \<Rightarrow> error + Norm" where
  "RMSNorm_init creatable dim' e =
     rbind (create creatable [dim'] (replicate dim' 1)) (\<lambda>w.
     Inr (RMSNorm e w))"

text \<open>The dictionary literal indexed by the normalization kind: both entries are built,
  then an unknown kind is a \<^verbatim>\<open>KeyError\<close>.\<close>

definition select_norm :: "(nat list \<Rightarrow> bool) \<Rightarrow> string \<Rightarrow> nat \<Rightarrow> real \<Rightarrow> error + Norm" where
  "select_norm creatable normalization_type dim' e =
     rbind (LayerNorm_init creatable dim' e) (\<lambda>layer_norm.
     rbind (RMSNorm_init creatable dim' e) (\<lambda>rms.
     case map_of [(''layer_norm'', layer_norm), (''rms'', rms)] normalization_type of
       None \<Rightarrow> Inl KeyError
     | Some n \<Rightarrow> Inr n))"

text \<open>The projections are created before the score-scale kind is looked at.\<close>

definition SelfAttention_init ::
  "(nat list \<Rightarrow> bool) \<Rightarrow> (nat \<Rightarrow> nat \<Rightarrow> nat \<Rightarrow> real) \<Rightarrow> nat \<Rightarrow> nat \<Rightarrow> nat \<Rightarrow> string \<Rightarrow>
   error + SelfAttention" where
  "SelfAttention_init creatable init hidden_size' num_heads' num_key_value_heads' scale_type =
     (if num_heads' = 0 then Inl ZeroDivisionError
      else
        let head_dim' = hidden_size' div num_heads';
            key_value_hidden_size = num_key_value_heads' * head_dim'
        in rbind (Linear_init creatable (init 0) hidden_size' hidden_size') (\<lambda>q_proj'.
           rbind (Linear_init creatable (init 1) hidden_size' key_value_hidden_size) (\<lambda>k_proj'.
           rbind (Linear_init creatable (init 2) hidden_size' key_value_hidden_size) (\<lambda>v_proj'.
           rbind (Linear_init creatable (init 3) hidden_size' hidden_size') (\<lambda>o_proj'.
           let self = \<lparr>head_dim = head_dim',
                       q_proj = q_proj', k_proj = k_proj', v_proj = v_proj', o_proj = o_proj',
                       hidden_size = hidden_size',
                       num_heads = num_heads',
                       num_key_value_heads = num_key_value_heads',
                       scale = 0\<rparr>
           in if scale_type = ''HeadDim'' then Inr (self\<lparr>scale := real head_dim'\<rparr>)
              else if scale_type = ''SquareRootHeadDim''
              then Inr (self\<lparr>scale := sqrt (real head_dim')\<rparr>)
              else Inl ValueError)))))"

definition ProjLayerSiluMatMul_init ::
  "(nat list \<Rightarrow> bool) \<Rightarrow> (nat \<Rightarrow> nat \<Rightarrow> nat \<Rightarrow> real) \<Rightarrow> nat \<Rightarrow> nat \<Rightarrow>
   error + ProjLayerSiluMatMul" where
  "ProjLayerSiluMatMul_init creatable init hidden_size' intermediate_size =
     rbind (Linear_init creatable (init 4) hidden_size' intermediate_size) (\<lambda>gate_proj'.
     rbind (Linear_init creatable (init 5) intermediate_size hidden_size') (\<lambda>down_proj'.
     rbind (Linear_init creatable (init 6) hidden_size' intermediate_size) (\<lambda>up_proj'.
     Inr \<lparr>gate_proj = gate_proj', down_proj = down_proj', up_proj = up_proj'\<rparr>)))"

text \<open>The two tables that \<^verbatim>\<open>rotary_mat\<close> returns have 4096 rows; the layer keeps them.\<close>

definition TransformerLayer_init ::
  "(nat list \<Rightarrow> bool) \<Rightarrow> (nat \<Rightarrow> nat \<Rightarrow> nat \<Rightarrow> real) \<Rightarrow> nat \<Rightarrow> nat \<Rightarrow> nat \<Rightarrow> nat \<Rightarrow> string \<Rightarrow>
   string \<Rightarrow> real \<Rightarrow> error + TransformerLayer" where
  "TransformerLayer_init creatable init hidden_size' intermediate_size num_heads'
       num_key_value_heads' scale_type normalization_type epsilon =
     rbind (select_norm creatable normalization_type hidden_size' epsilon) (\<lambda>input_layernorm'.
     rbind (select_norm creatable normalization_type hidden_size' epsilon) (\<lambda>post_attention_layernorm'.
     rbind (rotary_mat hidden_size' num_heads' 4096 10000 1) (\<lambda>tables.
     rbind (create creatable [4096, dim1 (fst tables)] tables) (\<lambda>(cos_t, sin_t).
     rbind (SelfAttention_init creatable init hidden_size' num_heads' num_key_value_heads' scale_type)
       (\<lambda>self_attn'.
     rbind (ProjLayerSiluMatMul_init creatable init hidden_size' intermediate_size) (\<lambda>mlp'.
     Inr \<lparr>input_layernorm = input_layernorm',
          post_attention_layernorm = post_attention_layernorm',
          cos_tab = cos_t, sin_tab = sin_t,
          self_attn = self_attn',
          mlp = mlp'\<rparr>))))))"

text \<open>The weight of \<^verbatim>\<open>torch.nn.Embedding(vocab_size, hidden_size)\<close> has shape
  \<open>(vocab_size, hidden_size)\<close> and is created first.\<close>

definition Model_init ::
  "(nat list \<Rightarrow> bool) \<Rightarrow> (nat \<Rightarrow> nat \<Rightarrow> nat \<Rightarrow> nat \<Rightarrow> real) \<Rightarrow> nat \<Rightarrow> nat \<Rightarrow> nat \<Rightarrow> nat \<Rightarrow> nat \<Rightarrow> nat \<Rightarrow>
   string \<Rightarrow> string \<Rightarrow> real \<Rightarrow> error + Model" where
  "Model_init creatable init n_layers vocab_size hidden_size' intermediate_size num_heads'
       num_key_value_heads' scale_type normalization_type epsilon =
     rbind (create creatable [vocab_size, hidden_size']
              (map (\<lambda>r. map (\<lambda>c. init 0 0 r c) [0..<hidden_size']) [0..<vocab_size])) (\<lambda>embed_tokens'.
     rbind (select_norm creatable normalization_type hidden_size' (1 / 100000)) (\<lambda>norm'.
     rbind (traverse (\<lambda>i. TransformerLayer_init creatable (init (Suc i)) hidden_size'
                             intermediate_size num_heads' num_key_value_heads' scale_type
                             normalization_type epsilon)
              [0..<n_layers]) (\<lambda>layers'.
     Inr \<lparr>embed_tokens = embed_tokens', final_norm = norm', layers = layers'\<rparr>)))"

definition DecoderModel_init ::
  "(nat list \<Rightarrow> bool) \<Rightarrow> (nat \<Rightarrow> nat \<Rightarrow> nat \<Rightarrow> nat \<Rightarrow> real) \<Rightarrow> nat \<Rightarrow> nat \<Rightarrow> nat \<Rightarrow> nat \<Rightarrow> nat \<Rightarrow> nat \<Rightarrow>
   string \<Rightarrow> string \<Rightarrow> real \<Rightarrow> error + DecoderModel" where
  "DecoderModel_init creatable init n_layers vocab_size hidden_size' intermediate_size num_heads'
       num_key_value_heads' scale_type normalization_type epsilon =
     rbind (Model_init creatable init n_layers vocab_size hidden_size' intermediate_size num_heads'
              num_key_value_heads' scale_type normalization_type epsilon) (\<lambda>model'.
     rbind (Linear_init creatable (init 0 1) hidden_size' vocab_size) (\<lambda>lm_head'.
     Inr \<lparr>model = model', lm_head = lm_head'\<rparr>))"

text \<open>
  The shapes of the tensors that a model of the given sizes keeps: the embedding and the
  output projection, the normalization weights and, when there is a layer, the rotary
  tables, the attention projections and the projections of the gated MLP.
\<close>

definition model_shapes :: "nat \<Rightarrow> nat \<Rightarrow> nat \<Rightarrow> nat \<Rightarrow> nat \<Rightarrow> nat \<Rightarrow> nat list list" where
  "model_shapes n_layers vocab_size hidden_size' intermediate_size num_heads' num_key_value_heads' =
     [[vocab_size, hidden_size'], [hidden_size']] @
     (if n_layers = 0 then []
      else [[4096, 2 * nat \<lceil>real hidden_size' / real num_heads' / 2\<rceil>],
            [hidden_size', hidden_size'],
            [num_key_value_heads' * (hidden_size' div num_heads'), hidden_size'],
            [intermediate_size, hidden_size'],
            [hidden_size', intermediate_size]])"

section \<open>Well-formed models and inputs\<close>

text \<open>
  Well-formed parameters: every weight has the shape its constructor gives it. The
  predicates say nothing about the values of the weights, so they also hold after weights
  of the same shapes have been loaded.
\<close>

definition wf_Linear :: "nat \<Rightarrow> nat \<Rightarrow> Linear \<Rightarrow> bool" where
  "wf_Linear i out l = (in_features l = i \<and> out_features l = out \<and> is_tensor2 out i (lin_weight l))"

definition wf_Norm :: "nat \<Rightarrow> Norm \<Rightarrow> bool" where
  "wf_Norm d n = (case n of LayerNorm e w b \<Rightarrow> length w = d \<and> length b = d
                          | RMSNorm e w \<Rightarrow> length w = d)"

definition wf_SelfAttention :: "SelfAttention \<Rightarrow> bool" where
  "wf_SelfAttention sa =
     (0 < num_key_value_heads sa \<and> num_key_value_heads sa dvd num_heads sa \<and> 0 < num_heads sa \<and>
      hidden_size sa = num_heads sa * head_dim sa \<and>
      wf_Linear (hidden_size sa) (hidden_size sa) (q_proj sa) \<and>
      wf_Linear (hidden_size sa) (num_key_value_heads sa * head_dim sa) (k_proj sa) \<and>
      wf_Linear (hidden_size sa) (num_key_value_heads sa * head_dim sa) (v_proj sa) \<and>
      wf_Linear (hidden_size sa) (hidden_size sa) (o_proj sa))"

definition wf_ProjLayerSiluMatMul :: "nat \<Rightarrow> ProjLayerSiluMatMul \<Rightarrow> bool" where
  "wf_ProjLayerSiluMatMul h p =
     (wf_Linear h (out_features (gate_proj p)) (gate_proj p) \<and>
      wf_Linear (out_features (gate_proj p)) h (down_proj p) \<and>
      wf_Linear h (out_features (gate_proj p)) (up_proj p))"

definition wf_TransformerLayer :: "nat \<Rightarrow> nat \<Rightarrow> nat \<Rightarrow> TransformerLayer \<Rightarrow> bool" where
  "wf_TransformerLayer h kv d l =
     (wf_SelfAttention (self_attn l) \<and> hidden_size (self_attn l) = h \<and>
      num_key_value_heads (self_attn l) = kv \<and> head_dim (self_attn l) = d \<and>
      wf_Norm h (input_layernorm l) \<and> wf_Norm h (post_attention_layernorm l) \<and>
      is_tensor2 4096 (dim1 (cos_tab l)) (cos_tab l) \<and>
      is_tensor2 4096 (dim1 (cos_tab l)) (sin_tab l) \<and>
      d \<le> dim1 (cos_tab l) \<and>
      wf_ProjLayerSiluMatMul h (mlp l))"

definition wf_DecoderModel :: "nat \<Rightarrow> nat \<Rightarrow> nat \<Rightarrow> nat \<Rightarrow> DecoderModel \<Rightarrow> bool" where
  "wf_DecoderModel vocab h kv d m =
     (is_tensor2 vocab h (embed_tokens (model m)) \<and>
      wf_Norm h (final_norm (model m)) \<and>
      list_all (wf_TransformerLayer h kv d) (layers (model m)) \<and>
      wf_Linear h vocab (lm_head m))"

text \<open>Well-formed inputs of a forward call with batch size \<open>a\<close>, \<open>n\<close> new positions and \<open>l\<close>
  cached positions.\<close>

definition valid_tokens :: "nat \<Rightarrow> nat \<Rightarrow> nat \<Rightarrow> int list list \<Rightarrow> bool" where
  "valid_tokens vocab a n tokens =
     (is_tensor2 a n tokens \<and> list_all (list_all (\<lambda>t. 0 \<le> t \<and> t < int vocab)) tokens)"

definition valid_position_ids :: "nat \<Rightarrow> nat \<Rightarrow> int list list \<Rightarrow> bool" where
  "valid_position_ids a n position_ids =
     (is_tensor2 a n position_ids \<and> list_all (list_all (\<lambda>p. - 4096 \<le> p \<and> p < 4096)) position_ids)"

definition valid_cache :: "nat \<Rightarrow> nat \<Rightarrow> nat \<Rightarrow> nat \<Rightarrow> nat \<Rightarrow> cache_entry list \<Rightarrow> bool" where
  "valid_cache n_layers a kv l d cache =
     (length cache = n_layers \<and>
      list_all (\<lambda>c. is_tensor4 a kv l d (cache_key c) \<and> is_tensor4 a kv l d (cache_value c)) cache)"

text \<open>
  The scenario of the cache-length claim: consecutive calls in use-cache mode, each given
  the caches that the previous call returned (regrouped from the returned list
  \<^verbatim>\<open>[k_0, v_0, k_1, v_1, ...]\<close> into one entry per layer).
\<close>

fun regroup_cache :: "tensor4 list \<Rightarrow> cache_entry list" where
  "regroup_cache (k # v # rest) = \<lparr>cache_key = k, cache_value = v\<rparr> # regroup_cache rest"
| "regroup_cache _ = []"

fun run_use_cache_steps ::
  "DecoderModel \<Rightarrow> (int list list \<times> int list list \<times> tensor2) list \<Rightarrow> cache_entry list \<Rightarrow>
   error + cache_entry list" where
  "run_use_cache_steps self [] cache = Inr cache"
| "run_use_cache_steps self ((tokens, position_ids, attn_mask) # rest) cache =
     rbind (forward_use_cache self tokens position_ids attn_mask cache)
       (\<lambda>(logits, outs). run_use_cache_steps self rest (regroup_cache outs))"

fun valid_steps :: "nat \<Rightarrow> nat \<Rightarrow> nat \<Rightarrow> (int list list \<times> int list list \<times> tensor2) list \<Rightarrow> bool" where
  "valid_steps vocab a l [] = True"
| "valid_steps vocab a l ((tokens, position_ids, attn_mask) # rest) =
     (valid_tokens vocab a 1 tokens \<and> valid_position_ids a 1 position_ids \<and>
      is_tensor2 a (l + 1) attn_mask \<and> valid_steps vocab a (l + 1) rest)"

section \<open>The forward pass over an explicit tensor store\<close>

text \<open>
  To follow which tensor objects a forward call writes, the rank-4 tensors of the attention path
  (the cache tensors, queries, keys, values, scores and mask biases) are kept in a store: a list
  of tensor values, an object being its index. A computation takes the store and returns an
  error or a result together with the new store. Creating a tensor appends a cell; an operation
  of the source that returns a new tensor (\<^verbatim>\<open>clone\<close>, \<^verbatim>\<open>torch.cat\<close>, \<^verbatim>\<open>masked_fill\<close>,
  arithmetic, \<^verbatim>\<open>matmul\<close>, \<^verbatim>\<open>softmax\<close>) reads its operands and appends its result. The views of
  the source (\<^verbatim>\<open>transpose\<close>, \<^verbatim>\<open>expand\<close>, slicing, \<^verbatim>\<open>detach\<close>) are only read from in these
  functions, or are views of a tensor created in the same call, and are kept as cells of their
  own. The one in-place operation of the source, \<^verbatim>\<open>mask_score += ...\<close> in
  \<^verbatim>\<open>ApplyMask.forward\<close>, overwrites the cell of its left operand. The rank-3 activations and
  the weights are never written and stay plain values.
\<close>

type_synonym store = "tensor4 list"
type_synonym 'a st = "store \<Rightarrow> (error + 'a) \<times> store"

definition sreturn :: "'a \<Rightarrow> 'a st" where
  "sreturn x = (\<lambda>h. (Inr x, h))"

definition sbind :: "'a st \<Rightarrow> ('a \<Rightarrow> 'b st) \<Rightarrow> 'b st" where
  "sbind m f = (\<lambda>h. case m h of (Inl e, h') \<Rightarrow> (Inl e, h') | (Inr x, h') \<Rightarrow> f x h')"

definition slift :: "error + 'a \<Rightarrow> 'a st" where
  "slift r = (\<lambda>h. (r, h))"

definition new_tensor :: "tensor4 \<Rightarrow> nat st" where
  "new_tensor v = (\<lambda>h. (Inr (length h), h @ [v]))"

definition read_tensor :: "nat \<Rightarrow> tensor4 st" where
  "read_tensor a = (\<lambda>h. if a < length h then (Inr (h ! a), h) else (Inl RuntimeError, h))"

definition write_tensor :: "nat \<Rightarrow> tensor4 \<Rightarrow> unit st" where
  "write_tensor a v = (\<lambda>h. if a < length h then (Inr (), h[a := v]) else (Inl RuntimeError, h))"

definition op1 :: "(tensor4 \<Rightarrow> tensor4) \<Rightarrow> nat \<Rightarrow> nat st" where
  "op1 f a = sbind (read_tensor a) (\<lambda>v. new_tensor (f v))"

definition op1r :: "(tensor4 \<Rightarrow> error + tensor4) \<Rightarrow> nat \<Rightarrow> nat st" where
  "op1r f a = sbind (read_tensor a) (\<lambda>v. sbind (slift (f v)) new_tensor)"

definition op2r :: "(tensor4 \<Rightarrow> tensor4 \<Rightarrow> error + tensor4) \<Rightarrow> nat \<Rightarrow> nat \<Rightarrow> nat st" where
  "op2r f a b = sbind (read_tensor a) (\<lambda>u. sbind (read_tensor b) (\<lambda>v. sbind (slift (f u v)) new_tensor))"

definition iop2r :: "(tensor4 \<Rightarrow> tensor4 \<Rightarrow> error + tensor4) \<Rightarrow> nat \<Rightarrow> nat \<Rightarrow> unit st" where
  "iop2r f a b = sbind (read_tensor a) (\<lambda>u. sbind (read_tensor b) (\<lambda>v. sbind (slift (f u v)) (write_tensor a)))"

text \<open>\<^verbatim>\<open>ApplyMask.forward\<close>, with the in-place addition of the causal bias in no-cache mode.\<close>

definition ApplyMask_forward_st :: "bool \<Rightarrow> nat \<Rightarrow> tensor2 \<Rightarrow> nat \<Rightarrow> nat \<Rightarrow> nat st" where
  "ApplyMask_forward_st use_cache score attn_mask seq_len num_heads' =
     sbind (new_tensor (map (\<lambda>row. [replicate seq_len row]) attn_mask)) (\<lambda>expanded_mask.
     sbind (op1 (map4 (\<lambda>m. 1 - m)) expanded_mask) (\<lambda>inverted_mask.
     sbind (op1 (map4 masked_fill) inverted_mask) (\<lambda>mask_score.
     sbind (if \<not> use_cache then
              (let batch_size = length attn_mask; max_seq_len = dim1 attn_mask in
               sbind (new_tensor (replicate batch_size [tril_ones max_seq_len])) (\<lambda>causal_mask.
               sbind (op1 (map (map (slice_last seq_len))) causal_mask) (\<lambda>causal_mask.
               sbind (op1 (map4 (\<lambda>m. 1 - m)) causal_mask) (\<lambda>inverted_causal_mask.
               sbind (op1 (map4 masked_fill) inverted_causal_mask) (\<lambda>filled.
               iop2r iadd4 mask_score filled)))))
            else sreturn ()) (\<lambda>_.
     sbind (op1 (expand_heads num_heads') mask_score) (\<lambda>mask_score.
     op2r add4 score mask_score)))))"

text \<open>\<^verbatim>\<open>SelfAttention.forward\<close>; \<^verbatim>\<open>k_cache\<close> and \<^verbatim>\<open>v_cache\<close> are the objects passed in, the
  returned ones are the results of \<^verbatim>\<open>torch.cat\<close>.\<close>

definition SelfAttention_forward_st ::
  "SelfAttention \<Rightarrow> bool \<Rightarrow> tensor3 \<Rightarrow> int list list \<Rightarrow> tensor2 \<Rightarrow> tensor2 \<Rightarrow> tensor2 \<Rightarrow>
   nat \<Rightarrow> nat \<Rightarrow> (tensor3 \<times> nat \<times> nat) st" where
  "SelfAttention_forward_st self use_cache x position_ids attn_mask cos_t sin_t k_cache v_cache =
     sbind (slift (Linear_forward (q_proj self) x)) (\<lambda>query.
     sbind (slift (Linear_forward (k_proj self) x)) (\<lambda>key.
     sbind (slift (Linear_forward (v_proj self) x)) (\<lambda>value.
     let batch_size = length x; seq_len = dim1 x in
     sbind (slift (reshape4 batch_size seq_len (num_heads self) (head_dim self) (flatten3 query))) (\<lambda>query.
     sbind (new_tensor (transpose12 (num_heads self) query)) (\<lambda>query.
     sbind (slift (reshape4 batch_size seq_len (num_key_value_heads self) (head_dim self) (flatten3 key))) (\<lambda>key.
     sbind (new_tensor (transpose12 (num_key_value_heads self) key)) (\<lambda>key.
     sbind (slift (reshape4 batch_size seq_len (num_key_value_heads self) (head_dim self) (flatten3 value))) (\<lambda>value.
     sbind (new_tensor (transpose12 (num_key_value_heads self) value)) (\<lambda>value.
     sbind (op1r (\<lambda>t. apply_rope t cos_t sin_t position_ids) query) (\<lambda>query.
     sbind (op1r (\<lambda>t. apply_rope t cos_t sin_t position_ids) key) (\<lambda>key.
     sbind (op2r cat_dim2 k_cache key) (\<lambda>k_cache.
     sbind (op2r cat_dim2 v_cache value) (\<lambda>v_cache.
     sbind (if num_heads self \<noteq> num_key_value_heads self then
              (if num_key_value_heads self = 0 then slift (Inl ZeroDivisionError)
               else let n_reps = num_heads self div num_key_value_heads self in
                    sbind (op1 (\<lambda>t. broadcast_key_value t n_reps) k_cache) (\<lambda>key.
                    sbind (op1 (\<lambda>t. broadcast_key_value t n_reps) v_cache) (\<lambda>value.
                    sreturn (key, value))))
            else sreturn (k_cache, v_cache)) (\<lambda>(key, value).
     sbind (op2r matmul_nt query key) (\<lambda>score.
     sbind (op1 (map4 (\<lambda>s. s / scale self)) score) (\<lambda>score.
     sbind (ApplyMask_forward_st use_cache score attn_mask seq_len (num_heads self)) (\<lambda>score.
     sbind (op1 (map (map (map softmax))) score) (\<lambda>prob.
     sbind (op2r matmul prob value) (\<lambda>attn.
     sbind (read_tensor attn) (\<lambda>attn.
     sbind (slift (reshape3 batch_size seq_len (hidden_size self) (flatten4 (map transpose attn)))) (\<lambda>attn.
     sbind (slift (Linear_forward (o_proj self) attn)) (\<lambda>out.
     sreturn (out, k_cache, v_cache)))))))))))))))))))))))"

definition TransformerLayer_forward_st ::
  "TransformerLayer \<Rightarrow> bool \<Rightarrow> tensor3 \<Rightarrow> int list list \<Rightarrow> tensor2 \<Rightarrow> nat \<Rightarrow> nat \<Rightarrow>
   (tensor3 \<times> nat \<times> nat) st" where
  "TransformerLayer_forward_st self use_cache x position_ids attn_mask k_cache v_cache =
     sbind (slift (Norm_forward (input_layernorm self) x)) (\<lambda>normed.
     sbind (SelfAttention_forward_st (self_attn self) use_cache normed position_ids attn_mask
              (cos_tab self) (sin_tab self) k_cache v_cache) (\<lambda>(h, k_out, v_out).
     sbind (slift (add3 x h)) (\<lambda>h.
     sbind (slift (Norm_forward (post_attention_layernorm self) h)) (\<lambda>normed.
     sbind (slift (ProjLayerSiluMatMul_forward (mlp self) normed)) (\<lambda>m.
     sbind (slift (add3 h m)) (\<lambda>out.
     sreturn (out, k_out, v_out)))))))"

text \<open>The caller's cache: for every layer the objects of its key and of its value tensor.
  \<open>deref_cache\<close> reads the values they hold in a store.\<close>

record cache_ref =
  key_ref :: nat
  value_ref :: nat

definition deref_cache :: "store \<Rightarrow> cache_ref list \<Rightarrow> cache_entry list" where
  "deref_cache h cache = map (\<lambda>c. \<lparr>cache_key = h ! key_ref c, cache_value = h ! value_ref c\<rparr>) cache"

text \<open>The loop of \<^verbatim>\<open>Model.forward\<close>: each layer works on \<^verbatim>\<open>.clone().detach()\<close> of the caller's
  tensors.\<close>

primrec Model_layers_st ::
  "TransformerLayer list \<Rightarrow> nat \<Rightarrow> bool \<Rightarrow> tensor3 \<Rightarrow> int list list \<Rightarrow> tensor2 \<Rightarrow> cache_ref list \<Rightarrow>
   nat list \<Rightarrow> nat list \<Rightarrow> (tensor3 \<times> nat list \<times> nat list) st" where
  "Model_layers_st [] layer_idx use_cache x position_ids attn_mask cache k_caches v_caches =
     sreturn (x, k_caches, v_caches)"
| "Model_layers_st (layer # rest) layer_idx use_cache x position_ids attn_mask cache k_caches v_caches =
     (if length cache \<le> layer_idx then slift (Inl IndexError)
      else
        sbind (op1 (\<lambda>t. t) (key_ref (cache ! layer_idx))) (\<lambda>k_cache.
        sbind (op1 (\<lambda>t. t) (value_ref (cache ! layer_idx))) (\<lambda>v_cache.
        sbind (TransformerLayer_forward_st layer use_cache x position_ids attn_mask k_cache v_cache)
          (\<lambda>(x, k_cache, v_cache).
             Model_layers_st rest (Suc layer_idx) use_cache x position_ids attn_mask cache
               (k_caches @ [k_cache]) (v_caches @ [v_cache])))))"

definition Model_forward_st ::
  "Model \<Rightarrow> bool \<Rightarrow> int list list \<Rightarrow> int list list \<Rightarrow> tensor2 \<Rightarrow> cache_ref list \<Rightarrow>
   (tensor3 \<times> nat list \<times> nat list) st" where
  "Model_forward_st self use_cache tokens position_ids attn_mask cache =
     sbind (slift (Embedding_forward (embed_tokens self) tokens)) (\<lambda>x.
     sbind (Model_layers_st (layers self) 0 use_cache x position_ids attn_mask cache [] [])
       (\<lambda>(x, k_caches, v_caches).
     sbind (slift (Norm_forward (final_norm self) x)) (\<lambda>normed.
     sreturn (normed, k_caches, v_caches))))"

definition forward_common_st ::
  "DecoderModel \<Rightarrow> bool \<Rightarrow> int list list \<Rightarrow> int list list \<Rightarrow> tensor2 \<Rightarrow> cache_ref list \<Rightarrow>
   (tensor3 \<times> nat list) st" where
  "forward_common_st self use_cache tokens position_ids_increment attn_mask cache =
     sbind (Model_forward_st (model self) use_cache tokens position_ids_increment attn_mask cache)
       (\<lambda>(hidden_states, k_caches, v_caches).
     sbind (slift (Linear_forward (lm_head self) hidden_states)) (\<lambda>logits.
     sreturn (logits, concat (map (\<lambda>(k_cache, v_cache). [k_cache, v_cache]) (zip k_caches v_caches)))))"

text \<open>A store computation started in \<open>h\<close> simulates a pure computation \<open>p\<close>: it leaves every
  cell of \<open>h\<close> as it was, only appending cells, fails exactly when \<open>p\<close> fails and with the same
  error, and otherwise its result is related to the result of \<open>p\<close> in the final store.\<close>

definition sim :: "store \<Rightarrow> 'a st \<Rightarrow> error + 'b \<Rightarrow> ('a \<Rightarrow> 'b \<Rightarrow> store \<Rightarrow> bool) \<Rightarrow> bool" where
  "sim h m p R =
     (\<exists>cells. snd (m h) = h @ cells \<and>
        (case fst (m h) of Inl e \<Rightarrow> p = Inl e
                         | Inr r \<Rightarrow> (\<exists>v. p = Inr v \<and> R r v (h @ cells))))"

section \<open>A concrete configuration\<close>

text \<open>A small configuration for concrete runs: a machine that creates every tensor of at most
  1048576 elements, one layer, every size 1, every initial weight 1, and an epsilon that
  differs from the \<open>1e-5\<close> of the final normalisation. \<open>wide_model\<close> has rows of two
  features, either kind of normalisation and the epsilon \<open>1/2\<close>.\<close>

definition small_shape :: "nat list \<Rightarrow> bool" where
  "small_shape shape = (prod_list shape \<le> 1048576)"

definition toy_init :: "nat \<Rightarrow> nat \<Rightarrow> nat \<Rightarrow> nat \<Rightarrow> real" where
  "toy_init slot param r c = 1"

definition toy_model :: "error + DecoderModel" where
  "toy_model = DecoderModel_init small_shape toy_init 1 1 1 1 1 1 ''HeadDim'' ''rms'' (1 / 1000000)"

definition wide_model :: "string \<Rightarrow> error + DecoderModel" where
  "wide_model normalization_type =
     DecoderModel_init small_shape toy_init 1 1 2 1 1 1 ''HeadDim'' normalization_type (1 / 2)"

section \<open>Properties\<close>

subsection \<open>The error monad and broadcasting\<close>

lemma rbind_Inr [simp]: "rbind (Inr x) f = f x"
  by (simp add: rbind_def)

lemma rbind_Inl [simp]: "rbind (Inl e) f = Inl e"
  by (simp add: rbind_def)

lemma rbind_eq_Inr_iff: "rbind m f = Inr y \<longleftrightarrow> (\<exists>x. m = Inr x \<and> f x = Inr y)"
  by (cases m) simp_all

lemma traverse_Inr_map:
  "(\<And>x. x \<in> set xs \<Longrightarrow> f x = Inr (g x)) \<Longrightarrow> traverse f xs = Inr (map g xs)"
  by (induction xs) simp_all

lemma broadcast2_left_map:
  assumes len: "length ys = length xs \<or> length ys = 1"
    and f: "\<And>x y. x \<in> set xs \<Longrightarrow> y \<in> set ys \<Longrightarrow> f x y = Inr (g x)"
  shows "broadcast2 f xs ys = Inr (map g xs)"
proof (cases "length xs = length ys")
  case True
  have "traverse (\<lambda>(x, y). f x y) (zip xs ys) = Inr (map (\<lambda>(x, y). g x) (zip xs ys))"
    by (rule traverse_Inr_map) (auto intro!: f dest: set_zip_leftD set_zip_rightD)
  moreover have "map (\<lambda>(x, y). g x) (zip xs ys) = map g xs"
    using True by (induction xs ys rule: list_induct2) simp_all
  ultimately show ?thesis using True by (simp add: broadcast2_def)
next
  case False
  with len have one: "length ys = 1" by simp
  then have "hd ys \<in> set ys" by (cases ys) simp_all
  then have "traverse (\<lambda>x. f x (hd ys)) xs = Inr (map g xs)"
    by (intro traverse_Inr_map) (simp add: f)
  with False one show ?thesis by (simp add: broadcast2_def)
qed

lemma broadcast2_left_id:
  assumes "length ys = length xs \<or> length ys = 1"
    and "\<And>x y. x \<in> set xs \<Longrightarrow> y \<in> set ys \<Longrightarrow> f x y = Inr x"
  shows "broadcast2 f xs ys = Inr xs"
  using broadcast2_left_map [of ys xs f "\<lambda>x. x"] assms by simp

lemma mul1_ones: "length v = n \<Longrightarrow> mul1 v (replicate n 1) = Inr v"
  unfolding mul1_def by (rule broadcast2_left_id) auto

lemma mul1_zeros: "length v = n \<Longrightarrow> mul1 v (replicate n 0) = Inr (replicate n 0)"
proof -
  assume n: "length v = n"
  have "mul1 v (replicate n 0) = Inr (map (\<lambda>_. 0) v)"
    unfolding mul1_def by (rule broadcast2_left_map) (auto simp: n)
  then show ?thesis by (simp add: map_replicate_const n)
qed

lemma add1_zeros: "length v = n \<Longrightarrow> add1 v (replicate n 0) = Inr v"
  unfolding add1_def by (rule broadcast2_left_id) auto

lemma is_tensor4_iff:
  "is_tensor4 a b c d t \<longleftrightarrow>
     length t = a \<and> (\<forall>m \<in> set t. length m = b \<and> (\<forall>r \<in> set m. length r = c \<and> (\<forall>v \<in> set r. length v = d)))"
  by (auto simp: is_tensor4_def is_tensor3_def is_tensor2_def list_all_iff)

lemma traverse_replicate: "f x = Inr y \<Longrightarrow> traverse f (replicate n x) = Inr (replicate n y)"
  by (induction n) simp_all

lemma index_rows_zero:
  "0 < length tab \<Longrightarrow>
   index_rows tab (replicate b (replicate s 0)) = Inr (replicate b (replicate s (tab ! 0)))"
  unfolding index_rows_def by (intro traverse_replicate) simp

lemma rotary_mat_row0:
  assumes "rotary_mat hidden_size' num_heads' max_seq_len theta head_scale = Inr (cos_t, sin_t)"
    and "0 < max_seq_len"
  shows "length cos_t = max_seq_len \<and> length sin_t = max_seq_len \<and>
         cos_t ! 0 = replicate (dim1 cos_t) 1 \<and> sin_t ! 0 = replicate (dim1 cos_t) 0 \<and>
         dim1 cos_t = 2 * nat \<lceil>head_scale * real hidden_size' / real num_heads' / 2\<rceil>"
proof -
  define freqs where "freqs = map (\<lambda>p. 1 / (theta powr (p / (head_scale * real hidden_size' / real num_heads'))))
      (map (\<lambda>i. 2 * real i) [0..<nat \<lceil>head_scale * real hidden_size' / real num_heads' / 2\<rceil>])"
  define tab where "tab = map (\<lambda>row. row @ row) (map (\<lambda>idx. map (\<lambda>f. real idx * f) freqs) [0..<max_seq_len])"
  from assms(1) have nz: "num_heads' \<noteq> 0"
    by (auto simp: rotary_mat_def split: if_splits)
  have "rotary_mat hidden_size' num_heads' max_seq_len theta head_scale
          = Inr (map (map cos) tab, map (map sin) tab)"
    unfolding rotary_mat_def Let_def tab_def freqs_def using nz by (simp only: if_False)
  with assms(1) have c: "cos_t = map (map cos) tab" and s: "sin_t = map (map sin) tab"
    by simp_all
  have len: "length tab = max_seq_len" by (simp add: tab_def)
  have z: "map ((*) (0::real)) freqs = replicate (length freqs) 0"
    by (induction freqs) simp_all
  have row0: "tab ! 0 = replicate (2 * length freqs) 0"
    using assms(2) by (simp add: tab_def z replicate_add [symmetric] mult_2)
  have d: "dim1 cos_t = 2 * length freqs"
    using assms(2) len row0 by (cases tab) (simp_all add: c dim1_def)
  have "length freqs = nat \<lceil>head_scale * real hidden_size' / real num_heads' / 2\<rceil>"
    by (simp add: freqs_def)
  then show ?thesis
    using assms(2) len row0 d by (simp add: c s)
qed

lemma rotary_mat_Inr:
  "num_heads' \<noteq> 0 \<Longrightarrow>
   rotary_mat hidden_size' num_heads' max_seq_len theta head_scale =
     Inr (fst (projr (rotary_mat hidden_size' num_heads' max_seq_len theta head_scale)),
          snd (projr (rotary_mat hidden_size' num_heads' max_seq_len theta head_scale)))"
  by (simp add: rotary_mat_def Let_def)

lemma last_dim4_shape:
  assumes "is_tensor4 a b c d x"
  shows "is_tensor4 a b c (last_dim4 x) x \<and> last_dim4 x \<le> d"
proof (cases "concat (concat x)")
  case Nil
  then have e: "\<forall>m \<in> set x. \<forall>r \<in> set m. r = []" by auto
  have l: "last_dim4 x = 0" unfolding last_dim4_def Nil by simp
  from e have "\<And>m r. m \<in> set x \<Longrightarrow> r \<in> set m \<Longrightarrow> set r = {}" by simp
  with assms show ?thesis unfolding l
    by (fastforce simp: is_tensor4_iff)
next
  case (Cons v vs)
  then have "v \<in> set (concat (concat x))" by simp
  with assms have "length v = d" by (auto simp: is_tensor4_iff)
  moreover have "last_dim4 x = length v" unfolding last_dim4_def Cons by simp
  ultimately show ?thesis using assms by simp
qed

lemma broadcast2_tensor4:
  assumes x: "is_tensor4 b h s d x"
    and leaf: "\<And>v. length v = d \<Longrightarrow> f v w = Inr (g v)"
  shows "broadcast2 (broadcast2 (broadcast2 f)) x (unsqueeze1 (replicate b (replicate s w)))
           = Inr (map (map (map g)) x)"
proof (rule broadcast2_left_map)
  show "length (unsqueeze1 (replicate b (replicate s w))) = length x \<or>
        length (unsqueeze1 (replicate b (replicate s w))) = 1"
    using x by (simp add: unsqueeze1_def is_tensor4_iff)
next
  fix m y
  assume m: "m \<in> set x" and "y \<in> set (unsqueeze1 (replicate b (replicate s w)))"
  then have y: "y = [replicate s w]" by (auto simp: unsqueeze1_def)
  show "broadcast2 (broadcast2 f) m y = Inr (map (map g) m)"
  proof (rule broadcast2_left_map)
    show "length y = length m \<or> length y = 1" by (simp add: y)
  next
    fix r z
    assume r: "r \<in> set m" and "z \<in> set y"
    then have z: "z = replicate s w" by (simp add: y)
    show "broadcast2 f r z = Inr (map g r)"
    proof (rule broadcast2_left_map)
      show "length z = length r \<or> length z = 1"
        using x m r by (auto simp: z is_tensor4_iff)
    next
      fix v u
      assume "v \<in> set r" and "u \<in> set z"
      then have "length v = d" and "u = w"
        using x m r by (auto simp: z is_tensor4_iff)
      then show "f v u = Inr (g v)" by (simp add: leaf)
    qed
  qed
qed

lemma rotate_half_row_length: "length (rotate_half_row v) = length v"
  by (simp add: rotate_half_row_def Let_def)

lemma rotate_half_shape: "is_tensor4 b h s d x \<Longrightarrow> is_tensor4 b h s d (rotate_half x)"
  by (auto simp: is_tensor4_iff rotate_half_def rotate_half_row_length)

lemma add4_zeros:
  assumes x: "is_tensor4 b h s d x" and y: "is_tensor4 b h s d (y :: tensor4)"
  shows "add4 x (map (map (map (\<lambda>v. replicate d (0::real)))) y) = Inr x"
  unfolding add4_def
proof (rule broadcast2_left_id)
  show "length (map (map (map (\<lambda>v. replicate d (0::real)))) y) = length x \<or>
        length (map (map (map (\<lambda>v. replicate d (0::real)))) y) = 1"
    using x y by (simp add: is_tensor4_iff)
next
  fix m n
  assume m: "m \<in> set x" and "n \<in> set (map (map (map (\<lambda>v. replicate d (0::real)))) y)"
  then obtain n' where n': "n' \<in> set y" and n: "n = map (map (\<lambda>v. replicate d (0::real))) n'" by auto
  show "broadcast2 (broadcast2 add1) m n = Inr m"
  proof (rule broadcast2_left_id)
    show "length n = length m \<or> length n = 1"
      using x y m n' by (auto simp: n is_tensor4_iff)
  next
    fix r q
    assume r: "r \<in> set m" and "q \<in> set n"
    then obtain q' where q': "q' \<in> set n'" and q: "q = map (\<lambda>v. replicate d (0::real)) q'"
      by (auto simp: n)
    show "broadcast2 add1 r q = Inr r"
    proof (rule broadcast2_left_id)
      show "length q = length r \<or> length q = 1"
        using x y m n' r q' by (auto simp: q is_tensor4_iff)
    next
      fix v u
      assume "v \<in> set r" and "u \<in> set q"
      then have "length v = d" and "u = replicate d (0::real)"
        using x m r by (auto simp: q is_tensor4_iff)
      then show "add1 v u = Inr v" by (simp add: add1_zeros)
    qed
  qed
qed

lemma apply_rope_zero:
  assumes tabs: "rotary_mat hidden_size' num_heads' max_seq_len theta head_scale = Inr (cos_t, sin_t)"
    and pos: "0 < max_seq_len"
    and x: "is_tensor4 b h s d x"
    and d: "d \<le> dim1 cos_t"
  shows "apply_rope x cos_t sin_t (replicate b (replicate s 0)) = Inr x"
proof -
  define e where "e = last_dim4 x"
  from last_dim4_shape [OF x] have xe: "is_tensor4 b h s e x" and ed: "e \<le> d"
    by (simp_all add: e_def)
  from rotary_mat_row0 [OF tabs pos]
  have lc: "length cos_t = max_seq_len" and ls: "length sin_t = max_seq_len"
    and c0: "cos_t ! 0 = replicate (dim1 cos_t) 1" and s0: "sin_t ! 0 = replicate (dim1 cos_t) 0"
    by simp_all
  have c: "index_rows (map (take e) cos_t) (replicate b (replicate s 0))
             = Inr (replicate b (replicate s (replicate e 1)))"
    using pos lc c0 ed d by (simp add: index_rows_zero min_def)
  have sn: "index_rows (map (take e) sin_t) (replicate b (replicate s 0))
             = Inr (replicate b (replicate s (replicate e 0)))"
    using pos ls s0 ed d by (simp add: index_rows_zero min_def)
  have m1: "mul4 x (unsqueeze1 (replicate b (replicate s (replicate e 1)))) = Inr (map (map (map (\<lambda>v. v))) x)"
    unfolding mul4_def by (rule broadcast2_tensor4 [OF xe]) (simp add: mul1_ones)
  have m2: "mul4 (rotate_half x) (unsqueeze1 (replicate b (replicate s (replicate e 0))))
              = Inr (map (map (map (\<lambda>v. replicate e 0))) (rotate_half x))"
    unfolding mul4_def
    by (rule broadcast2_tensor4 [OF rotate_half_shape [OF xe]]) (simp add: mul1_zeros)
  show ?thesis
    unfolding apply_rope_def Let_def e_def [symmetric]
    by (simp add: c sn m1 m2 add4_zeros [OF xe rotate_half_shape [OF xe]])
qed


lemma traverse_nth:
  "(\<And>i. i < length xs \<Longrightarrow> f (xs ! i) = Inr (g i)) \<Longrightarrow> traverse f xs = Inr (map g [0..<length xs])"
proof (induction xs arbitrary: g)
  case Nil
  then show ?case by simp
next
  case (Cons x xs)
  have "f x = Inr (g 0)" using Cons.prems [of 0] by simp
  moreover have "traverse f xs = Inr (map (\<lambda>i. g (Suc i)) [0..<length xs])"
  proof (rule Cons.IH)
    fix i assume "i < length xs"
    then show "f (xs ! i) = Inr (g (Suc i))" using Cons.prems [of "Suc i"] by simp
  qed
  moreover have "map g [0..<length (x # xs)] = g 0 # map (\<lambda>i. g (Suc i)) [0..<length xs]"
    by (simp add: upt_conv_Cons map_Suc_upt [symmetric] del: upt_Suc)
  ultimately show ?case by simp
qed

lemma broadcast2_nth:
  assumes "length xs = n" "length ys = n"
    and "\<And>i. i < n \<Longrightarrow> f (xs ! i) (ys ! i) = Inr (g i)"
  shows "broadcast2 f xs ys = Inr (map g [0..<n])"
proof -
  have "traverse (\<lambda>(x, y). f x y) (zip xs ys) = Inr (map g [0..<length (zip xs ys)])"
    by (rule traverse_nth) (use assms in auto)
  with assms(1,2) show ?thesis by (simp add: broadcast2_def)
qed

lemma broadcast_into_nth:
  assumes "length xs = n" "length ys = n"
    and "\<And>i. i < n \<Longrightarrow> f (xs ! i) (ys ! i) = Inr (g i)"
  shows "broadcast_into f xs ys = Inr (map g [0..<n])"
proof -
  have "traverse (\<lambda>(x, y). f x y) (zip xs ys) = Inr (map g [0..<length (zip xs ys)])"
    by (rule traverse_nth) (use assms in auto)
  with assms(1,2) show ?thesis by (simp add: broadcast_into_def)
qed

lemma slice_last_tril:
  assumes "0 < s" "s \<le> t"
  shows "slice_last s (tril_ones t)
           = map (\<lambda>i. map (\<lambda>c. if c \<le> t - s + i then 1 else 0) [0..<t]) [0..<s]"
proof -
  have "drop (t - s) (tril_ones t) = map (\<lambda>r. map (\<lambda>c. if c \<le> r then 1 else 0) [0..<t]) [t - s..<t]"
    by (simp add: tril_ones_def drop_map)
  also have "[t - s..<t] = map (\<lambda>i. t - s + i) [0..<s]"
    by (rule nth_equalityI) (use assms in auto)
  finally show ?thesis using assms by (simp add: slice_last_def tril_ones_def o_def)
qed

lemma is_tensor2_iff: "is_tensor2 a b t \<longleftrightarrow> length t = a \<and> (\<forall>r \<in> set t. length r = b)"
  by (simp add: is_tensor2_def list_all_iff)

lemma is_tensor2_dim1: "is_tensor2 a b t \<Longrightarrow> 0 < a \<Longrightarrow> dim1 t = b"
  by (cases t) (auto simp: is_tensor2_iff dim1_def)

lemma is_tensor4_nth1: "is_tensor4 a b c d t \<Longrightarrow> i < a \<Longrightarrow> length (t ! i) = b"
  by (auto simp: is_tensor4_iff all_set_conv_all_nth)

lemma is_tensor4_nth2: "is_tensor4 a b c d t \<Longrightarrow> i < a \<Longrightarrow> j < b \<Longrightarrow> length (t ! i ! j) = c"
  by (auto simp: is_tensor4_iff all_set_conv_all_nth)

lemma is_tensor4_nth3:
  "is_tensor4 a b c d t \<Longrightarrow> i < a \<Longrightarrow> j < b \<Longrightarrow> k < c \<Longrightarrow> length (t ! i ! j ! k) = d"
  by (auto simp: is_tensor4_iff all_set_conv_all_nth)

lemma add4_nth:
  assumes x: "is_tensor4 a b c d x" and y: "is_tensor4 a b c d y"
  shows "add4 x y = Inr (map (\<lambda>i. map (\<lambda>j. map (\<lambda>k. map (\<lambda>l.
            x ! i ! j ! k ! l + y ! i ! j ! k ! l) [0..<d]) [0..<c]) [0..<b]) [0..<a])"
  unfolding add4_def add1_def
proof (rule broadcast2_nth)
  show "length x = a" "length y = a" using x y by (simp_all add: is_tensor4_iff)
next
  fix i assume i: "i < a"
  show "broadcast2 (broadcast2 (broadcast2 (\<lambda>a b. Inr (a + b)))) (x ! i) (y ! i)
          = Inr (map (\<lambda>j. map (\<lambda>k. map (\<lambda>l. x ! i ! j ! k ! l + y ! i ! j ! k ! l) [0..<d]) [0..<c]) [0..<b])"
  proof (rule broadcast2_nth)
    show "length (x ! i) = b" "length (y ! i) = b"
      using x y i by (auto simp: is_tensor4_iff)
  next
    fix j assume j: "j < b"
    show "broadcast2 (broadcast2 (\<lambda>a b. Inr (a + b))) (x ! i ! j) (y ! i ! j)
            = Inr (map (\<lambda>k. map (\<lambda>l. x ! i ! j ! k ! l + y ! i ! j ! k ! l) [0..<d]) [0..<c])"
    proof (rule broadcast2_nth)
      show "length (x ! i ! j) = c" "length (y ! i ! j) = c"
        using is_tensor4_nth2 [OF x i j] is_tensor4_nth2 [OF y i j] by simp_all
    next
      fix k assume k: "k < c"
      show "broadcast2 (\<lambda>a b. Inr (a + b)) (x ! i ! j ! k) (y ! i ! j ! k)
              = Inr (map (\<lambda>l. x ! i ! j ! k ! l + y ! i ! j ! k ! l) [0..<d])"
      proof (rule broadcast2_nth)
        show "length (x ! i ! j ! k) = d" "length (y ! i ! j ! k) = d"
          using is_tensor4_nth3 [OF x i j k] is_tensor4_nth3 [OF y i j k] by simp_all
      qed simp
    qed
  qed
qed

lemma ApplyMask_forward_spec:
  assumes m: "is_tensor2 batch total_len attn_mask"
    and sc: "is_tensor4 batch num_heads' seq_len total_len score"
    and nc: "use_cache \<or> (0 < seq_len \<and> seq_len \<le> total_len)"
  shows "ApplyMask_forward use_cache score attn_mask seq_len num_heads' =
           Inr (map (\<lambda>b. map (\<lambda>h. map (\<lambda>i. map (\<lambda>j.
                  score ! b ! h ! i ! j + spec_attention_bias use_cache attn_mask seq_len b i j)
                [0..<total_len]) [0..<seq_len]) [0..<num_heads']) [0..<batch])"
proof -
  define pad where "pad = (\<lambda>b j. spec_bias_of (attn_mask ! b ! j))"
  define bias where "bias = (\<lambda>b i j. spec_attention_bias use_cache attn_mask seq_len b i j)"
  have lm: "length attn_mask = batch" and lr: "\<And>b. b < batch \<Longrightarrow> length (attn_mask ! b) = total_len"
    using m by (auto simp: is_tensor2_iff)
  have fill: "\<And>v. masked_fill (1 - v) = spec_bias_of v"
    by (simp add: masked_fill_def spec_bias_of_def)
  have ms0: "map4 masked_fill (map4 (\<lambda>m. 1 - m) (map (\<lambda>row. [replicate seq_len row]) attn_mask))
               = map (\<lambda>b. [replicate seq_len (map (pad b) [0..<total_len])]) [0..<batch]"
    by (rule nth_equalityI) (auto simp: map4_def lm lr pad_def fill o_def intro!: nth_equalityI)
  have ms: "(if \<not> use_cache then
               iadd4 (map (\<lambda>b. [replicate seq_len (map (pad b) [0..<total_len])]) [0..<batch])
                    (map4 masked_fill (map4 (\<lambda>m. 1 - m) (map (map (slice_last seq_len))
                       (replicate (length attn_mask) [tril_ones (dim1 attn_mask)]))))
            else Inr (map (\<lambda>b. [replicate seq_len (map (pad b) [0..<total_len])]) [0..<batch]))
          = Inr (map (\<lambda>b. [map (\<lambda>i. map (bias b i) [0..<total_len]) [0..<seq_len]]) [0..<batch])"
  proof (cases use_cache)
    case True
    then show ?thesis
      by (auto simp: bias_def pad_def spec_attention_bias_def Let_def map_replicate_const
               intro!: nth_equalityI)
  next
    case False
    with nc have s: "0 < seq_len" "seq_len \<le> total_len" by simp_all
    show ?thesis
    proof (cases "batch = 0")
      case True
      with False lm show ?thesis by (simp add: iadd4_def broadcast_into_def map4_def)
    next
      case nz: False
      then have d: "dim1 attn_mask = total_len" using m by (simp add: is_tensor2_dim1)
      have c: "map4 masked_fill (map4 (\<lambda>m. 1 - m)
                 (map (map (slice_last seq_len)) (replicate batch [tril_ones total_len])))
               = replicate batch [map (\<lambda>i. map (\<lambda>j. spec_bias_of (if j \<le> total_len - seq_len + i then 1 else 0))
                    [0..<total_len]) [0..<seq_len]]"
        by (simp add: map4_def slice_last_tril [OF s] o_def fill)
      have "iadd4 (map (\<lambda>b. [replicate seq_len (map (pad b) [0..<total_len])]) [0..<batch])
              (replicate batch [map (\<lambda>i. map (\<lambda>j. spec_bias_of (if j \<le> total_len - seq_len + i then 1 else 0))
                    [0..<total_len]) [0..<seq_len]])
            = Inr (map (\<lambda>b. [map (\<lambda>i. map (bias b i) [0..<total_len]) [0..<seq_len]]) [0..<batch])"
        unfolding iadd4_def
        apply (rule broadcast_into_nth; simp)
        apply (rule broadcast_into_nth [where n = 1, simplified]; simp)
        apply (rule broadcast_into_nth; simp)
        apply (rule broadcast_into_nth; simp)
        apply (simp add: bias_def pad_def spec_attention_bias_def Let_def d False)
        done
      then show ?thesis
        unfolding lm d c using False by (simp only: not_False_eq_True if_True)
    qed
  qed
  have ex: "expand_heads num_heads' (map (\<lambda>b. [map (\<lambda>i. map (bias b i) [0..<total_len]) [0..<seq_len]]) [0..<batch])
              = map (\<lambda>b. replicate num_heads' (map (\<lambda>i. map (bias b i) [0..<total_len]) [0..<seq_len])) [0..<batch]"
    by (simp add: expand_heads_def o_def)
  have add: "add4 score (map (\<lambda>b. replicate num_heads' (map (\<lambda>i. map (bias b i) [0..<total_len]) [0..<seq_len])) [0..<batch])
            = Inr (map (\<lambda>b. map (\<lambda>h. map (\<lambda>i. map (\<lambda>j. score ! b ! h ! i ! j + bias b i j)
                [0..<total_len]) [0..<seq_len]) [0..<num_heads']) [0..<batch])"
  proof -
    have "is_tensor4 batch num_heads' seq_len total_len
            (map (\<lambda>b. replicate num_heads' (map (\<lambda>i. map (bias b i) [0..<total_len]) [0..<seq_len])) [0..<batch])"
      by (auto simp: is_tensor4_iff)
    from add4_nth [OF sc this] show ?thesis by simp
  qed
  have "ApplyMask_forward use_cache score attn_mask seq_len num_heads' =
          Inr (map (\<lambda>b. map (\<lambda>h. map (\<lambda>i. map (\<lambda>j. score ! b ! h ! i ! j + bias b i j)
                [0..<total_len]) [0..<seq_len]) [0..<num_heads']) [0..<batch])"
    unfolding ApplyMask_forward_def Let_def ms0
    by (simp only: ms rbind_Inr ex add)
  then show ?thesis by (simp only: bias_def)
qed

subsection \<open>The claims about single operations\<close>

lemma rbind_cong: "m = m' \<Longrightarrow> (\<And>v. m' = Inr v \<Longrightarrow> f v = g v) \<Longrightarrow> rbind m f = rbind m' g"
  by (cases m') simp_all

lemma broadcast_key_value_id: "broadcast_key_value t (Suc 0) = t"
  by (simp add: broadcast_key_value_def)

text \<open>
  C6. With equal numbers of query heads and key/value heads the grouped-query broadcast
  is a no-op: \<open>broadcast_key_value\<close> with repeat factor 1 returns its input tensor, and
  the self-attention (which skips the call in that case) returns what the grouped path
  returns.
\<close>

theorem broadcast_key_value_noop:
  "broadcast_key_value hidden_states 1 = hidden_states \<and>
   (num_heads self = num_key_value_heads self \<longrightarrow> 0 < num_heads self \<longrightarrow>
      SelfAttention_forward self use_cache x position_ids attn_mask cos_t sin_t k_cache v_cache =
      SelfAttention_forward_grouped self use_cache x position_ids attn_mask cos_t sin_t k_cache v_cache)"
  by (simp add: SelfAttention_forward_def SelfAttention_forward_grouped_def broadcast_key_value_id
        cong: rbind_cong)

theorem broadcast_key_value_noop_witness:
  "broadcast_key_value [[[[1, 2], [3, 4]], [[5, 6], [7, 8]]]] 1 = [[[[1, 2], [3, 4]], [[5, 6], [7, 8]]]] \<and>
   SelfAttention_forward
     \<lparr>head_dim = 1,
      q_proj = \<lparr>in_features = 1, out_features = 1, lin_weight = [[1]]\<rparr>,
      k_proj = \<lparr>in_features = 1, out_features = 1, lin_weight = [[1]]\<rparr>,
      v_proj = \<lparr>in_features = 1, out_features = 1, lin_weight = [[1]]\<rparr>,
      o_proj = \<lparr>in_features = 1, out_features = 1, lin_weight = [[1]]\<rparr>,
      hidden_size = 1, num_heads = 1, num_key_value_heads = 1, scale = 1\<rparr>
     False [[[1]]] [[0]] [[1]] [[1]] [[0]] [[[]]] [[[]]] =
   SelfAttention_forward_grouped
     \<lparr>head_dim = 1,
      q_proj = \<lparr>in_features = 1, out_features = 1, lin_weight = [[1]]\<rparr>,
      k_proj = \<lparr>in_features = 1, out_features = 1, lin_weight = [[1]]\<rparr>,
      v_proj = \<lparr>in_features = 1, out_features = 1, lin_weight = [[1]]\<rparr>,
      o_proj = \<lparr>in_features = 1, out_features = 1, lin_weight = [[1]]\<rparr>,
      hidden_size = 1, num_heads = 1, num_key_value_heads = 1, scale = 1\<rparr>
     False [[[1]]] [[0]] [[1]] [[1]] [[0]] [[[]]] [[[]]]"
  using broadcast_key_value_noop
    [of "[[[[1, 2], [3, 4]], [[5, 6], [7, 8]]]]"
        "\<lparr>head_dim = 1,
      q_proj = \<lparr>in_features = 1, out_features = 1, lin_weight = [[1]]\<rparr>,
      k_proj = \<lparr>in_features = 1, out_features = 1, lin_weight = [[1]]\<rparr>,
      v_proj = \<lparr>in_features = 1, out_features = 1, lin_weight = [[1]]\<rparr>,
      o_proj = \<lparr>in_features = 1, out_features = 1, lin_weight = [[1]]\<rparr>,
      hidden_size = 1, num_heads = 1, num_key_value_heads = 1, scale = 1\<rparr>"
        False "[[[1]]]" "[[0]]" "[[1]]" "[[1]]" "[[0]]" "[[[]]]" "[[[]]]"]
  by simp

text \<open>
  C5. For a padding mask of shape \<open>(batch, total_len)\<close> and raw scores of shape
  \<open>(batch, num_heads, seq_len, total_len)\<close> the mask module returns the scores plus a bias
  that is the same for every head: the padding bias \<open>-10000\<close> wherever \<open>1 - mask\<close> is
  nonzero, plus, in no-cache mode only, the bias of the inverted lower-triangular causal
  mask cut to its last \<open>seq_len\<close> rows. In use-cache mode there is no causal term.
\<close>

theorem ApplyMask_forward_bias:
  assumes "is_tensor2 batch total_len attn_mask"
    and "is_tensor4 batch num_heads' seq_len total_len score"
    and "use_cache \<or> (0 < seq_len \<and> seq_len \<le> total_len)"
  shows "ApplyMask_forward use_cache score attn_mask seq_len num_heads' =
           Inr (map (\<lambda>b. map (\<lambda>h. map (\<lambda>i. map (\<lambda>j.
                  score ! b ! h ! i ! j + spec_attention_bias use_cache attn_mask seq_len b i j)
                [0..<total_len]) [0..<seq_len]) [0..<num_heads']) [0..<batch])"
  using assms by (rule ApplyMask_forward_spec)

theorem ApplyMask_forward_bias_witness:
  "is_tensor2 1 2 [[1, 0 :: real]] \<and>
   is_tensor4 1 1 2 2 [[[[3, 4], [5, 6 :: real]]]] \<and>
   0 < (2 :: nat) \<and> (2 :: nat) \<le> 2 \<and>
   ApplyMask_forward False [[[[3, 4], [5, 6]]]] [[1, 0]] 2 1 = Inr [[[[3, - 19996], [5, - 9994]]]] \<and>
   ApplyMask_forward True [[[[3, 4], [5, 6]]]] [[1, 0]] 2 1 = Inr [[[[3, - 9996], [5, - 9994]]]]"
  using ApplyMask_forward_bias [of 1 2 "[[1, 0]]" 1 2 "[[[[3, 4], [5, 6]]]]" False]
        ApplyMask_forward_bias [of 1 2 "[[1, 0]]" 1 2 "[[[[3, 4], [5, 6]]]]" True]
  by (simp add: is_tensor2_def is_tensor3_def is_tensor4_def spec_attention_bias_def
        spec_bias_of_def dim1_def upt_conv_Cons)

text \<open>
  C7. Row 0 of the cosine table is all ones and row 0 of the sine table is all zeros, so
  rotary embedding with every position id equal to 0 returns its input unchanged (exactly,
  over the reals), for every input tensor whose last axis fits the table.
\<close>

theorem apply_rope_position_zero:
  assumes "rotary_mat hidden_size' num_heads' max_seq_len theta head_scale = Inr (cos_t, sin_t)"
    and "0 < max_seq_len"
    and "is_tensor4 b h s d x"
    and "d \<le> dim1 cos_t"
  shows "cos_t ! 0 = replicate (dim1 cos_t) 1 \<and> sin_t ! 0 = replicate (dim1 cos_t) 0 \<and>
         apply_rope x cos_t sin_t (replicate b (replicate s 0)) = Inr x"
  using rotary_mat_row0 [OF assms(1,2)] apply_rope_zero [OF assms] by simp

theorem apply_rope_position_zero_witness:
  "rotary_mat 2 1 4096 10000 1 =
     Inr (fst (projr (rotary_mat 2 1 4096 10000 1)), snd (projr (rotary_mat 2 1 4096 10000 1))) \<and>
   is_tensor4 1 1 1 2 [[[[3, 4 :: real]]]] \<and>
   apply_rope [[[[3, 4]]]] (fst (projr (rotary_mat 2 1 4096 10000 1)))
     (snd (projr (rotary_mat 2 1 4096 10000 1))) [[0]] = Inr [[[[3, 4]]]]"
proof -
  have t: "rotary_mat 2 1 4096 10000 1 =
     Inr (fst (projr (rotary_mat 2 1 4096 10000 1)), snd (projr (rotary_mat 2 1 4096 10000 1)))"
    by (rule rotary_mat_Inr) simp
  have x: "is_tensor4 1 1 1 2 [[[[3, 4 :: real]]]]"
    by (simp add: is_tensor4_def is_tensor3_def is_tensor2_def)
  have w: "2 \<le> dim1 (fst (projr (rotary_mat 2 1 4096 10000 1)))"
    using rotary_mat_row0 [OF t] by simp
  from apply_rope_position_zero [OF t _ x w] t x show ?thesis by simp
qed

subsection \<open>Construction\<close>

lemma rbind_isl_iff: "isl (rbind m f) \<longleftrightarrow> isl m \<or> (\<exists>v. m = Inr v \<and> isl (f v))"
  by (cases m) simp_all

lemma traverse_eq_Inr_iff: "traverse f xs = Inr ys \<longleftrightarrow> list_all2 (\<lambda>x y. f x = Inr y) xs ys"
proof (induction xs arbitrary: ys)
  case Nil
  then show ?case by auto
next
  case (Cons x xs)
  show ?case
    by (cases ys) (auto simp: rbind_eq_Inr_iff Cons.IH)
qed

lemma traverse_isl_iff: "isl (traverse f xs) \<longleftrightarrow> (\<exists>x \<in> set xs. isl (f x))"
  by (induction xs) (auto simp: rbind_isl_iff sum.disc_eq_case split: sum.splits)

lemma create_eq_Inr_iff [simp]: "create creatable shape t = Inr v \<longleftrightarrow> creatable shape \<and> v = t"
  by (auto simp: create_def)

lemma create_isl_iff [simp]: "isl (create creatable shape t) \<longleftrightarrow> \<not> creatable shape"
  by (simp add: create_def)

lemma create_Inl_iff [simp]: "create creatable shape t = Inl e \<longleftrightarrow> \<not> creatable shape \<and> e = CreationError"
  by (auto simp: create_def)

lemma Linear_init_eq_Inr_iff:
  "Linear_init creatable f i out = Inr l \<longleftrightarrow>
   creatable [out, i] \<and>
   l = \<lparr>in_features = i, out_features = out,
        lin_weight = map (\<lambda>r. map (\<lambda>c. f r c) [0..<i]) [0..<out]\<rparr>"
  by (auto simp: Linear_init_def rbind_eq_Inr_iff)

lemma Linear_init_isl: "isl (Linear_init creatable f i out) \<longleftrightarrow> \<not> creatable [out, i]"
  by (simp add: Linear_init_def rbind_isl_iff)

lemma select_norm_cases:
  "select_norm creatable normalization_type dim' e =
     (if \<not> creatable [dim'] then Inl CreationError
      else if normalization_type = ''layer_norm''
      then Inr (LayerNorm e (replicate dim' 1) (replicate dim' 0))
      else if normalization_type = ''rms'' then Inr (RMSNorm e (replicate dim' 1))
      else Inl KeyError)"
  by (simp add: select_norm_def LayerNorm_init_def RMSNorm_init_def create_def)

lemma select_norm_isl:
  "isl (select_norm creatable normalization_type dim' e) \<longleftrightarrow>
   \<not> creatable [dim'] \<or> normalization_type \<notin> {''layer_norm'', ''rms''}"
  by (simp add: select_norm_cases)

lemma select_norm_eps: "select_norm creatable normalization_type dim' e = Inr n \<Longrightarrow> eps n = e"
  by (auto simp: select_norm_cases split: if_splits)

lemma SelfAttention_init_isl:
  "isl (SelfAttention_init creatable init hidden_size' num_heads' num_key_value_heads' scale_type) \<longleftrightarrow>
   num_heads' = 0 \<or> \<not> creatable [hidden_size', hidden_size'] \<or>
   \<not> creatable [num_key_value_heads' * (hidden_size' div num_heads'), hidden_size'] \<or>
   scale_type \<notin> {''HeadDim'', ''SquareRootHeadDim''}"
  by (auto simp: SelfAttention_init_def Let_def rbind_isl_iff Linear_init_isl Linear_init_eq_Inr_iff)

lemma ProjLayerSiluMatMul_init_isl:
  "isl (ProjLayerSiluMatMul_init creatable init hidden_size' intermediate_size) \<longleftrightarrow>
   \<not> creatable [intermediate_size, hidden_size'] \<or> \<not> creatable [hidden_size', intermediate_size]"
  by (auto simp: ProjLayerSiluMatMul_init_def rbind_isl_iff Linear_init_isl Linear_init_eq_Inr_iff)

lemma rotary_mat_isl:
  "isl (rotary_mat hidden_size' num_heads' max_seq_len theta head_scale) \<longleftrightarrow> num_heads' = 0"
  by (simp add: rotary_mat_def Let_def)

lemma rbind_isl_projr: "isl (rbind m f) \<longleftrightarrow> isl m \<or> isl (f (projr m))"
  by (cases m) simp_all

lemma projr_create: "creatable shape \<Longrightarrow> projr (create creatable shape t) = t"
  by (simp add: create_def)

lemma TransformerLayer_init_isl:
  "isl (TransformerLayer_init creatable init hidden_size' intermediate_size num_heads'
          num_key_value_heads' scale_type normalization_type epsilon) \<longleftrightarrow>
   \<not> creatable [hidden_size'] \<or> normalization_type \<notin> {''layer_norm'', ''rms''} \<or> num_heads' = 0 \<or>
   \<not> creatable [4096, 2 * nat \<lceil>real hidden_size' / real num_heads' / 2\<rceil>] \<or>
   \<not> creatable [hidden_size', hidden_size'] \<or>
   \<not> creatable [num_key_value_heads' * (hidden_size' div num_heads'), hidden_size'] \<or>
   scale_type \<notin> {''HeadDim'', ''SquareRootHeadDim''} \<or>
   \<not> creatable [intermediate_size, hidden_size'] \<or> \<not> creatable [hidden_size', intermediate_size]"
proof -
  have w: "dim1 (fst (projr (rotary_mat hidden_size' num_heads' 4096 10000 1))) =
             2 * nat \<lceil>real hidden_size' / real num_heads' / 2\<rceil>" if "num_heads' \<noteq> 0"
    using rotary_mat_row0 [OF rotary_mat_Inr [OF that, of hidden_size' 4096 10000 1]] by simp
  have "isl (TransformerLayer_init creatable init hidden_size' intermediate_size num_heads'
          num_key_value_heads' scale_type normalization_type epsilon) \<longleftrightarrow>
        isl (select_norm creatable normalization_type hidden_size' epsilon) \<or> num_heads' = 0 \<or>
        \<not> creatable [4096, dim1 (fst (projr (rotary_mat hidden_size' num_heads' 4096 10000 1)))] \<or>
        isl (SelfAttention_init creatable init hidden_size' num_heads' num_key_value_heads' scale_type) \<or>
        isl (ProjLayerSiluMatMul_init creatable init hidden_size' intermediate_size)"
    unfolding TransformerLayer_init_def
    by (auto simp: rbind_isl_projr rotary_mat_isl projr_create split_beta)
  then show ?thesis
    using w by (auto simp: select_norm_isl SelfAttention_init_isl ProjLayerSiluMatMul_init_isl)
qed

lemma TransformerLayer_init_Inr:
  assumes "TransformerLayer_init creatable init hidden_size' intermediate_size num_heads'
          num_key_value_heads' scale_type normalization_type epsilon = Inr l"
  shows "select_norm creatable normalization_type hidden_size' epsilon = Inr (input_layernorm l) \<and>
         select_norm creatable normalization_type hidden_size' epsilon = Inr (post_attention_layernorm l) \<and>
         rotary_mat hidden_size' num_heads' 4096 10000 1 = Inr (cos_tab l, sin_tab l) \<and>
         SelfAttention_init creatable init hidden_size' num_heads' num_key_value_heads' scale_type =
           Inr (self_attn l) \<and>
         ProjLayerSiluMatMul_init creatable init hidden_size' intermediate_size = Inr (mlp l)"
  using assms
  by (auto simp: TransformerLayer_init_def rbind_eq_Inr_iff)

lemma TransformerLayer_init_eps:
  assumes "TransformerLayer_init creatable init hidden_size' intermediate_size num_heads'
          num_key_value_heads' scale_type normalization_type epsilon = Inr l"
  shows "eps (input_layernorm l) = epsilon \<and> eps (post_attention_layernorm l) = epsilon"
  using TransformerLayer_init_Inr [OF assms]
  by (blast dest: select_norm_eps)

lemma Model_init_isl:
  "isl (Model_init creatable init n_layers vocab_size hidden_size' intermediate_size num_heads'
          num_key_value_heads' scale_type normalization_type epsilon) \<longleftrightarrow>
   \<not> creatable [vocab_size, hidden_size'] \<or> \<not> creatable [hidden_size'] \<or>
   normalization_type \<notin> {''layer_norm'', ''rms''} \<or>
   (0 < n_layers \<and>
      (num_heads' = 0 \<or> scale_type \<notin> {''HeadDim'', ''SquareRootHeadDim''} \<or>
       \<not> creatable [4096, 2 * nat \<lceil>real hidden_size' / real num_heads' / 2\<rceil>] \<or>
       \<not> creatable [hidden_size', hidden_size'] \<or>
       \<not> creatable [num_key_value_heads' * (hidden_size' div num_heads'), hidden_size'] \<or>
       \<not> creatable [intermediate_size, hidden_size'] \<or> \<not> creatable [hidden_size', intermediate_size]))"
  unfolding Model_init_def rbind_isl_projr traverse_isl_iff TransformerLayer_init_isl select_norm_isl
    create_isl_iff
  by auto

lemma DecoderModel_init_isl:
  "isl (DecoderModel_init creatable init n_layers vocab_size hidden_size' intermediate_size num_heads'
          num_key_value_heads' scale_type normalization_type epsilon) \<longleftrightarrow>
   \<not> list_all creatable (model_shapes n_layers vocab_size hidden_size' intermediate_size num_heads'
                           num_key_value_heads') \<or>
   normalization_type \<notin> {''layer_norm'', ''rms''} \<or>
   (0 < n_layers \<and> (num_heads' = 0 \<or> scale_type \<notin> {''HeadDim'', ''SquareRootHeadDim''}))"
  unfolding DecoderModel_init_def rbind_isl_projr Model_init_isl Linear_init_isl model_shapes_def
  by auto


lemma Model_init_Inr:
  assumes "Model_init creatable init n_layers vocab_size hidden_size' intermediate_size num_heads'
          num_key_value_heads' scale_type normalization_type epsilon = Inr m"
  shows "select_norm creatable normalization_type hidden_size' (1 / 100000) = Inr (final_norm m) \<and>
         embed_tokens m = map (\<lambda>r. map (\<lambda>c. init 0 0 r c) [0..<hidden_size']) [0..<vocab_size] \<and>
         list_all2 (\<lambda>i l. TransformerLayer_init creatable (init (Suc i)) hidden_size' intermediate_size
                            num_heads' num_key_value_heads' scale_type normalization_type epsilon = Inr l)
           [0..<n_layers] (layers m)"
  using assms
  by (auto simp: Model_init_def rbind_eq_Inr_iff traverse_eq_Inr_iff)

lemma DecoderModel_init_Inr:
  assumes "DecoderModel_init creatable init n_layers vocab_size hidden_size' intermediate_size num_heads'
          num_key_value_heads' scale_type normalization_type epsilon = Inr m"
  shows "Model_init creatable init n_layers vocab_size hidden_size' intermediate_size num_heads'
          num_key_value_heads' scale_type normalization_type epsilon = Inr (model m) \<and>
         Linear_init creatable (init 0 1) hidden_size' vocab_size = Inr (lm_head m)"
  using assms by (auto simp: DecoderModel_init_def rbind_eq_Inr_iff)

lemma small_shapes_toy: "list_all small_shape (model_shapes 1 1 1 1 1 1)"
  by (simp add: model_shapes_def small_shape_def)

lemma toy_model_Inr: "toy_model = Inr (projr toy_model)"
proof -
  have "\<not> isl toy_model" using small_shapes_toy by (simp add: toy_model_def DecoderModel_init_isl)
  then show ?thesis by (cases toy_model) simp_all
qed

lemma wide_model_Inr:
  assumes "normalization_type = ''rms'' \<or> normalization_type = ''layer_norm''"
  shows "wide_model normalization_type = Inr (projr (wide_model normalization_type))"
proof -
  have "list_all small_shape (model_shapes 1 1 2 1 1 1)"
    by (simp add: model_shapes_def small_shape_def)
  with assms have "\<not> isl (wide_model normalization_type)"
    by (auto simp: wide_model_def DecoderModel_init_isl)
  then show ?thesis by (cases "wide_model normalization_type") simp_all
qed




lemma broadcast2_right_map:
  assumes len: "length xs = length ys"
    and f: "\<And>x y. x \<in> set xs \<Longrightarrow> y \<in> set ys \<Longrightarrow> f x y = Inr (g y)"
  shows "broadcast2 f xs ys = Inr (map g ys)"
proof -
  have "traverse (\<lambda>(x, y). f x y) (zip xs ys) = Inr (map (\<lambda>(x, y). g y) (zip xs ys))"
    by (rule traverse_Inr_map) (auto intro!: f dest: set_zip_leftD set_zip_rightD)
  moreover have "map (\<lambda>(x, y). g y) (zip xs ys) = map g ys"
    using len by (induction xs ys rule: list_induct2) simp_all
  ultimately show ?thesis using len by (simp add: broadcast2_def)
qed

lemma mul1_ones_left: "length v = n \<Longrightarrow> mul1 (replicate n 1) v = Inr v"
  unfolding mul1_def using broadcast2_right_map [of "replicate n 1" v "\<lambda>a b. Inr (a * b)" "\<lambda>b. b"]
  by simp

lemma RMSNorm_row_ones:
  assumes "length row = n"
  shows "RMSNorm_row e (replicate n 1) row =
           Inr (map (\<lambda>a. a / sqrt (sum_list (map (\<lambda>b. b ^ 2) row) / real (length row) + e)) row)"
proof -
  have "map (\<lambda>a. a * (1 / sqrt (mean (map (\<lambda>a. a ^ 2) row) + e))) row =
        map (\<lambda>a. a / sqrt (sum_list (map (\<lambda>b. b ^ 2) row) / real (length row) + e)) row"
    by (simp add: mean_def)
  then show ?thesis
    unfolding RMSNorm_row_def Let_def using assms by (simp add: mul1_ones_left)
qed

lemma LayerNorm_row_ones:
  assumes "length row = n"
  shows "LayerNorm_row e (replicate n 1) (replicate n 0) row =
           Inr (map (\<lambda>a. (a - sum_list row / real (length row)) /
                        sqrt (sum_list (map (\<lambda>b. (b - sum_list row / real (length row)) ^ 2) row) /
                              real (length row) + e)) row)"
proof -
  define diff where "diff = map (\<lambda>a. a - mean row) row"
  define out where "out = map (\<lambda>a. a / sqrt (mean (map (\<lambda>a. a ^ 2) diff) + e)) diff"
  have l: "length out = n" by (simp add: out_def diff_def assms)
  have "LayerNorm_row e (replicate n 1) (replicate n 0) row =
          rbind (mul1 (replicate n 1) out) (\<lambda>scaled. add1 scaled (replicate n 0))"
    by (simp add: LayerNorm_row_def Let_def out_def diff_def)
  also have "\<dots> = Inr out"
    by (simp add: mul1_ones_left [OF l] add1_zeros [OF l])
  also have "out = map (\<lambda>a. (a - sum_list row / real (length row)) /
                        sqrt (sum_list (map (\<lambda>b. (b - sum_list row / real (length row)) ^ 2) row) /
                              real (length row) + e)) row"
    by (simp add: out_def diff_def mean_def comp_def)
  finally show ?thesis .
qed

lemma Norm_forward_constructed:
  assumes n: "select_norm creatable normalization_type dim' e = Inr n"
    and x: "list_all (list_all (\<lambda>row. length row = dim')) x"
  shows "Norm_forward n x =
           Inr (map (map (\<lambda>row.
                  if normalization_type = ''rms''
                  then map (\<lambda>a. a / sqrt (sum_list (map (\<lambda>b. b ^ 2) row) / real (length row) + e)) row
                  else map (\<lambda>a. (a - sum_list row / real (length row)) /
                             sqrt (sum_list (map (\<lambda>b. (b - sum_list row / real (length row)) ^ 2) row) /
                                   real (length row) + e)) row)) x)"
proof (cases "normalization_type = ''rms''")
  case True
  with n have "n = RMSNorm e (replicate dim' 1)"
    by (auto simp: select_norm_cases split: if_splits)
  moreover have "traverse (traverse (RMSNorm_row e (replicate dim' 1))) x =
      Inr (map (map (\<lambda>row. map (\<lambda>a. a / sqrt (sum_list (map (\<lambda>b. b ^ 2) row) / real (length row) + e))
                              row)) x)"
    using x
    by (intro traverse_Inr_map) (auto simp: list_all_iff intro!: RMSNorm_row_ones)
  ultimately show ?thesis using True by simp
next
  case False
  with n have "n = LayerNorm e (replicate dim' 1) (replicate dim' 0)"
    by (auto simp: select_norm_cases split: if_splits)
  moreover have "traverse (traverse (LayerNorm_row e (replicate dim' 1) (replicate dim' 0))) x =
      Inr (map (map (\<lambda>row. map (\<lambda>a. (a - sum_list row / real (length row)) /
                             sqrt (sum_list (map (\<lambda>b. (b - sum_list row / real (length row)) ^ 2) row) /
                                   real (length row) + e)) row)) x)"
    using x
    by (intro traverse_Inr_map) (auto simp: list_all_iff intro!: LayerNorm_row_ones)
  ultimately show ?thesis using False by simp
qed

text \<open>
  C9. In a constructed model the final normalisation has epsilon \<open>1e-5\<close> whatever epsilon
  was passed, and both normalisations of each of the \<open>n_layers\<close> layers have the epsilon
  passed. On rows of \<open>hidden_size\<close> features the final normalisation divides by the square
  root of the variance plus \<open>1e-5\<close>: each feature by the root of the mean square plus
  \<open>1e-5\<close> for \<^verbatim>\<open>rms\<close>, and its distance from the mean by the root of the mean squared
  distance plus \<open>1e-5\<close> for \<^verbatim>\<open>layer_norm\<close> (the weights are ones and the bias zeros
  after construction).
\<close>

theorem final_norm_epsilon:
  assumes "DecoderModel_init creatable init n_layers vocab_size hidden_size' intermediate_size
             num_heads' num_key_value_heads' scale_type normalization_type epsilon = Inr m"
  shows "eps (final_norm (model m)) = 1 / 100000 \<and>
         length (layers (model m)) = n_layers \<and>
         (\<forall>l \<in> set (layers (model m)).
            eps (input_layernorm l) = epsilon \<and> eps (post_attention_layernorm l) = epsilon) \<and>
         (list_all (list_all (\<lambda>row. length row = hidden_size')) x \<longrightarrow>
            Norm_forward (final_norm (model m)) x =
              Inr (map (map (\<lambda>row.
                     if normalization_type = ''rms''
                     then map (\<lambda>a. a / sqrt (sum_list (map (\<lambda>b. b ^ 2) row) / real (length row)
                                              + 1 / 100000)) row
                     else map (\<lambda>a. (a - sum_list row / real (length row)) /
                                sqrt (sum_list (map (\<lambda>b. (b - sum_list row / real (length row)) ^ 2) row) /
                                      real (length row) + 1 / 100000)) row)) x))"
proof -
  note mi = Model_init_Inr [OF conjunct1 [OF DecoderModel_init_Inr [OF assms]]]
  from mi have n: "select_norm creatable normalization_type hidden_size' (1 / 100000) =
                     Inr (final_norm (model m))"
    and ls: "list_all2 (\<lambda>i l. TransformerLayer_init creatable (init (Suc i)) hidden_size'
                            intermediate_size num_heads' num_key_value_heads' scale_type
                            normalization_type epsilon = Inr l)
           [0..<n_layers] (layers (model m))"
    by simp_all
  from ls have len: "length (layers (model m)) = n_layers"
    by (auto dest: list_all2_lengthD)
  have le: "\<forall>l \<in> set (layers (model m)).
            eps (input_layernorm l) = epsilon \<and> eps (post_attention_layernorm l) = epsilon"
  proof
    fix l assume "l \<in> set (layers (model m))"
    then obtain i where "i < length (layers (model m))" "l = layers (model m) ! i"
      by (auto simp: in_set_conv_nth)
    with ls have "TransformerLayer_init creatable (init (Suc ([0..<n_layers] ! i))) hidden_size'
                    intermediate_size num_heads' num_key_value_heads' scale_type normalization_type
                    epsilon = Inr l"
      by (auto simp: list_all2_conv_all_nth)
    then show "eps (input_layernorm l) = epsilon \<and> eps (post_attention_layernorm l) = epsilon"
      by (rule TransformerLayer_init_eps)
  qed
  from n have e: "eps (final_norm (model m)) = 1 / 100000" by (rule select_norm_eps)
  from Norm_forward_constructed [OF n, of x] e len le show ?thesis by blast
qed

theorem final_norm_epsilon_witness:
  "wide_model ''rms'' = Inr (projr (wide_model ''rms'')) \<and>
   wide_model ''layer_norm'' = Inr (projr (wide_model ''layer_norm'')) \<and>
   eps (final_norm (model (projr (wide_model ''rms'')))) = 1 / 100000 \<and>
   eps (final_norm (model (projr (wide_model ''layer_norm'')))) = 1 / 100000 \<and>
   length (layers (model (projr (wide_model ''rms'')))) = 1 \<and>
   list_all (\<lambda>l. eps (input_layernorm l) = 1 / 2 \<and> eps (post_attention_layernorm l) = 1 / 2)
     (layers (model (projr (wide_model ''rms'')))) \<and>
   list_all (\<lambda>l. eps (input_layernorm l) = 1 / 2 \<and> eps (post_attention_layernorm l) = 1 / 2)
     (layers (model (projr (wide_model ''layer_norm'')))) \<and>
   Norm_forward (final_norm (model (projr (wide_model ''rms'')))) [[[3, 4]]] =
     Inr [[[3 / sqrt (25 / 2 + 1 / 100000), 4 / sqrt (25 / 2 + 1 / 100000)]]] \<and>
   Norm_forward (final_norm (model (projr (wide_model ''layer_norm'')))) [[[3, 4]]] =
     Inr [[[- (1 / 2) / sqrt (1 / 4 + 1 / 100000), 1 / 2 / sqrt (1 / 4 + 1 / 100000)]]]"
proof -
  have r: "wide_model ''rms'' = Inr (projr (wide_model ''rms''))"
    and l: "wide_model ''layer_norm'' = Inr (projr (wide_model ''layer_norm''))"
    by (rule wide_model_Inr, simp)+
  from final_norm_epsilon [OF r [unfolded wide_model_def], of "[[[3, 4]]]"]
    final_norm_epsilon [OF l [unfolded wide_model_def], of "[[[3, 4]]]"] r l
  show ?thesis
    unfolding wide_model_def by (simp add: list_all_iff power2_eq_square)
qed

subsection \<open>Position ids beyond the rotary tables\<close>

lemma index_rows_isl:
  assumes "p \<in> set (concat ids)" "int (length tab) \<le> p"
  shows "isl (index_rows tab ids)"
proof -
  from assms(1) obtain row where "row \<in> set ids" "p \<in> set row" by auto
  with assms(2) show ?thesis
    unfolding index_rows_def traverse_isl_iff
    by (intro bexI [of _ row] bexI [of _ p]) (simp_all add: Let_def)
qed

lemma apply_rope_isl:
  "p \<in> set (concat position_ids) \<Longrightarrow> int (length cos_t) \<le> p \<Longrightarrow>
   isl (apply_rope x cos_t sin_t position_ids)"
  by (simp add: apply_rope_def Let_def rbind_isl_iff index_rows_isl)

lemma isl_iff_no_Inr: "isl m \<longleftrightarrow> (\<forall>v. m \<noteq> Inr v)"
  by (cases m) simp_all

lemma isl_ne_Inr: "isl m \<Longrightarrow> m \<noteq> Inr v"
  by (cases m) simp_all

lemma SelfAttention_forward_isl:
  assumes "p \<in> set (concat position_ids)" "int (length cos_t) \<le> p"
  shows "isl (SelfAttention_forward self use_cache x position_ids attn_mask cos_t sin_t k_cache v_cache)"
proof -
  have ne: "\<And>q r. apply_rope q cos_t sin_t position_ids \<noteq> Inr r"
    by (rule isl_ne_Inr) (rule apply_rope_isl [OF assms])
  show ?thesis
    unfolding isl_iff_no_Inr SelfAttention_forward_def Let_def
    by (simp add: rbind_eq_Inr_iff ne)
qed

lemma TransformerLayer_forward_isl:
  assumes "p \<in> set (concat position_ids)" "int (length (cos_tab self)) \<le> p"
  shows "isl (TransformerLayer_forward self use_cache x position_ids attn_mask k_cache v_cache)"
proof -
  have ne: "\<And>n r. SelfAttention_forward (self_attn self) use_cache n position_ids attn_mask
                      (cos_tab self) (sin_tab self) k_cache v_cache \<noteq> Inr r"
    by (rule isl_ne_Inr) (rule SelfAttention_forward_isl [OF assms])
  show ?thesis
    unfolding isl_iff_no_Inr TransformerLayer_forward_def
    by (simp add: rbind_eq_Inr_iff ne)
qed

lemma Model_layers_isl:
  assumes "p \<in> set (concat position_ids)" "int (length (cos_tab layer)) \<le> p"
  shows "isl (Model_layers (layer # rest) layer_idx use_cache x position_ids attn_mask cache k_caches v_caches)"
  by (simp add: Let_def rbind_isl_iff TransformerLayer_forward_isl [OF assms])

lemma forward_common_isl:
  assumes "layers (model self) \<noteq> []"
    and "p \<in> set (concat position_ids)" "int (length (cos_tab (hd (layers (model self))))) \<le> p"
  shows "isl (forward_common self use_cache tokens position_ids attn_mask cache)"
proof -
  from assms(1) obtain layer rest where l: "layers (model self) = layer # rest"
    by (cases "layers (model self)") auto
  have "\<And>x. isl (Model_layers (layers (model self)) 0 use_cache x position_ids attn_mask cache [] [])"
    unfolding l using assms(2,3) by (intro Model_layers_isl) (simp_all add: l)
  then have ne: "\<And>x r. Model_layers (layers (model self)) 0 use_cache x position_ids attn_mask cache [] [] \<noteq> Inr r"
    by (rule isl_ne_Inr)
  show ?thesis
    unfolding isl_iff_no_Inr forward_common_def Model_forward_def
    by (simp add: rbind_eq_Inr_iff ne)
qed

lemma TransformerLayer_init_tables:
  assumes "TransformerLayer_init creatable init hidden_size' intermediate_size num_heads' num_key_value_heads'
          scale_type normalization_type epsilon = Inr l"
  shows "rotary_mat hidden_size' num_heads' 4096 10000 1 = Inr (cos_tab l, sin_tab l)"
  using assms
  by (auto simp: TransformerLayer_init_def rbind_eq_Inr_iff)

lemma constructed_layers:
  assumes "DecoderModel_init creatable init n_layers vocab_size hidden_size' intermediate_size num_heads'
             num_key_value_heads' scale_type normalization_type epsilon = Inr m"
    and "l \<in> set (layers (model m))"
  shows "\<exists>i < n_layers. TransformerLayer_init creatable (init (Suc i)) hidden_size' intermediate_size
                            num_heads' num_key_value_heads' scale_type normalization_type epsilon = Inr l"
proof -
  note mi = Model_init_Inr [OF conjunct1 [OF DecoderModel_init_Inr [OF assms(1)]]]
  then have ls: "list_all2 (\<lambda>i l. TransformerLayer_init creatable (init (Suc i)) hidden_size' intermediate_size
                            num_heads' num_key_value_heads' scale_type normalization_type epsilon = Inr l)
           [0..<n_layers] (layers (model m))" by simp
  from assms(2) obtain i where "i < length (layers (model m))" "l = layers (model m) ! i"
    by (auto simp: in_set_conv_nth)
  with ls show ?thesis
    by (auto simp: list_all2_conv_all_nth intro!: exI [of _ i])
qed

lemma constructed_n_layers:
  assumes "DecoderModel_init creatable init n_layers vocab_size hidden_size' intermediate_size num_heads'
             num_key_value_heads' scale_type normalization_type epsilon = Inr m"
  shows "length (layers (model m)) = n_layers"
  using Model_init_Inr [OF conjunct1 [OF DecoderModel_init_Inr [OF assms]]]
  by (auto dest: list_all2_lengthD)

text \<open>
  C10, amended. In a constructed model with at least one layer, the rotary tables of every
  layer have exactly 4096 rows (positions 0 to 4095), and a forward call that is given a
  position id of 4096 or more fails instead of returning a result.
\<close>

theorem position_ids_bound:
  assumes "DecoderModel_init creatable init n_layers vocab_size hidden_size' intermediate_size num_heads'
             num_key_value_heads' scale_type normalization_type epsilon = Inr m"
    and "0 < n_layers"
    and "p \<in> set (concat position_ids)"
    and "4096 \<le> p"
  shows "(\<forall>l \<in> set (layers (model m)). length (cos_tab l) = 4096 \<and> length (sin_tab l) = 4096) \<and>
         isl (forward_common m use_cache tokens position_ids attn_mask cache)"
proof -
  have tabs: "\<forall>l \<in> set (layers (model m)). length (cos_tab l) = 4096 \<and> length (sin_tab l) = 4096"
  proof
    fix l assume "l \<in> set (layers (model m))"
    from constructed_layers [OF assms(1) this] obtain i where
      "TransformerLayer_init creatable (init (Suc i)) hidden_size' intermediate_size
         num_heads' num_key_value_heads' scale_type normalization_type epsilon = Inr l" by blast
    from rotary_mat_row0 [OF TransformerLayer_init_tables [OF this]]
    show "length (cos_tab l) = 4096 \<and> length (sin_tab l) = 4096" by simp
  qed
  from constructed_n_layers [OF assms(1)] assms(2) have ne: "layers (model m) \<noteq> []" by auto
  then have "hd (layers (model m)) \<in> set (layers (model m))" by simp
  with tabs have "int (length (cos_tab (hd (layers (model m))))) \<le> p" using assms(4) by simp
  from forward_common_isl [OF ne assms(3) this] tabs show ?thesis by simp
qed

text \<open>
  C10, as stated, fails for a model without layers: it never reads the position ids, so
  the forward call with position id 4096 returns.
\<close>

theorem position_ids_bound_counterexample:
  "\<not> isl (DecoderModel_init small_shape toy_init 0 1 1 1 1 1 ''HeadDim'' ''rms'' (1 / 100000)) \<and>
   \<not> isl (forward_common (projr (DecoderModel_init small_shape toy_init 0 1 1 1 1 1 ''HeadDim'' ''rms'' (1 / 100000)))
            False [[0]] [[4096]] [[1]] [])"
  by (simp add: DecoderModel_init_def Model_init_def select_norm_cases forward_common_def
        Model_forward_def Embedding_forward_def RMSNorm_row_def mul1_def broadcast2_def
        Linear_forward_def Linear_init_def toy_init_def mean_def dot_def create_def small_shape_def)

theorem position_ids_bound_witness:
  "toy_model = Inr (projr toy_model) \<and>
   list_all (\<lambda>l. length (cos_tab l) = 4096 \<and> length (sin_tab l) = 4096) (layers (model (projr toy_model))) \<and>
   isl (forward_common (projr toy_model) True [[0]] [[4096]] [[1]] [\<lparr>cache_key = [[[]]], cache_value = [[[]]]\<rparr>])"
  using position_ids_bound [OF toy_model_Inr [unfolded toy_model_def], of 4096 "[[4096]]" True "[[0]]" "[[1]]"
      "[\<lparr>cache_key = [[[]]], cache_value = [[[]]]\<rparr>]"] toy_model_Inr
  unfolding toy_model_def
  by (simp add: list_all_iff)

subsection \<open>Shapes through the forward pass\<close>

lemma is_tensor3_iff:
  "is_tensor3 a b c t \<longleftrightarrow>
     length t = a \<and> (\<forall>m \<in> set t. length m = b \<and> (\<forall>r \<in> set m. length r = c))"
  by (auto simp: is_tensor3_def is_tensor2_def list_all_iff)

lemma is_tensor3_alt: "is_tensor3 a b c t \<longleftrightarrow> length t = a \<and> (\<forall>m \<in> set t. is_tensor2 b c m)"
  by (simp add: is_tensor3_def list_all_iff)

lemma is_tensor4_alt: "is_tensor4 a b c d t \<longleftrightarrow> length t = a \<and> (\<forall>m \<in> set t. is_tensor3 b c d m)"
  by (simp add: is_tensor4_def list_all_iff)

lemma traverse_ex:
  assumes "\<And>x. x \<in> set xs \<Longrightarrow> \<exists>y. f x = Inr y \<and> P y"
  shows "\<exists>ys. traverse f xs = Inr ys \<and> length ys = length xs \<and> (\<forall>y \<in> set ys. P y)"
  using assms
proof (induction xs)
  case Nil
  then show ?case by simp
next
  case (Cons x xs)
  from Cons.prems obtain y where y: "f x = Inr y" "P y" by auto
  from Cons obtain ys where ys: "traverse f xs = Inr ys" "length ys = length xs" "\<forall>y \<in> set ys. P y"
    by auto
  show ?case by (rule exI [of _ "y # ys"]) (simp add: y ys)
qed

lemma broadcast2_ex:
  assumes "length xs = n" "length ys = n"
    and "\<And>x y. x \<in> set xs \<Longrightarrow> y \<in> set ys \<Longrightarrow> \<exists>z. f x y = Inr z \<and> P z"
  shows "\<exists>zs. broadcast2 f xs ys = Inr zs \<and> length zs = n \<and> (\<forall>z \<in> set zs. P z)"
proof -
  have "\<exists>zs. traverse (\<lambda>(x, y). f x y) (zip xs ys) = Inr zs \<and> length zs = length (zip xs ys) \<and>
          (\<forall>z \<in> set zs. P z)"
    by (rule traverse_ex) (auto dest: set_zip_leftD set_zip_rightD intro: assms(3))
  with assms(1,2) show ?thesis by (simp add: broadcast2_def)
qed

lemma broadcast2_right1_ex:
  assumes "length ys = 1"
    and "\<And>x. x \<in> set xs \<Longrightarrow> \<exists>z. f x (hd ys) = Inr z \<and> P z"
  shows "\<exists>zs. broadcast2 f xs ys = Inr zs \<and> length zs = length xs \<and> (\<forall>z \<in> set zs. P z)"
proof (cases "length xs = length ys")
  case True
  then obtain x where x: "xs = [x]" using assms(1) by (cases xs) auto
  from assms(1) obtain y where y: "ys = [y]" by (cases ys) auto
  from assms(2) [of x] obtain z where "f x y = Inr z" "P z" by (auto simp: x y)
  then show ?thesis by (simp add: broadcast2_def x y)
next
  case False
  from traverse_ex [of xs "\<lambda>x. f x (hd ys)" P, OF assms(2)] False assms(1)
  show ?thesis by (simp add: broadcast2_def)
qed

lemma mul1_ex: "length v = n \<Longrightarrow> length w = n \<Longrightarrow> \<exists>z. mul1 v w = Inr z \<and> length z = n"
  unfolding mul1_def using broadcast2_ex [of v n w "\<lambda>a b. Inr (a * b)" "\<lambda>_. True"] by auto

lemma add1_ex: "length v = n \<Longrightarrow> length w = n \<Longrightarrow> \<exists>z. add1 v w = Inr z \<and> length z = n"
  unfolding add1_def using broadcast2_ex [of v n w "\<lambda>a b. Inr (a + b)" "\<lambda>_. True"] by auto

lemma broadcast2_tensor2_ex:
  assumes "is_tensor2 a b x" "is_tensor2 a b y"
    and "\<And>v w. length v = b \<Longrightarrow> length w = b \<Longrightarrow> \<exists>z. f v w = Inr z \<and> length z = b"
  shows "\<exists>z. broadcast2 f x y = Inr z \<and> is_tensor2 a b z"
  unfolding is_tensor2_iff
  by (rule broadcast2_ex) (use assms in \<open>auto simp: is_tensor2_iff\<close>)

lemma broadcast2_tensor3_ex:
  assumes "is_tensor3 a b c x" "is_tensor3 a b c y"
    and "\<And>v w. length v = c \<Longrightarrow> length w = c \<Longrightarrow> \<exists>z. f v w = Inr z \<and> length z = c"
  shows "\<exists>z. broadcast2 (broadcast2 f) x y = Inr z \<and> is_tensor3 a b c z"
  unfolding is_tensor3_alt [of a b c]
  by (rule broadcast2_ex) (use assms in \<open>auto simp: is_tensor3_alt intro!: broadcast2_tensor2_ex\<close>)

lemma add3_ex: "is_tensor3 a b c x \<Longrightarrow> is_tensor3 a b c y \<Longrightarrow> \<exists>z. add3 x y = Inr z \<and> is_tensor3 a b c z"
  unfolding add3_def by (rule broadcast2_tensor3_ex) (auto intro: add1_ex)

lemma mul3_ex: "is_tensor3 a b c x \<Longrightarrow> is_tensor3 a b c y \<Longrightarrow> \<exists>z. mul3 x y = Inr z \<and> is_tensor3 a b c z"
  unfolding mul3_def by (rule broadcast2_tensor3_ex) (auto intro: mul1_ex)

lemma traverse3_ex:
  assumes "is_tensor3 a b c x"
    and "\<And>v. length v = c \<Longrightarrow> \<exists>z. f v = Inr z \<and> length z = d"
  shows "\<exists>y. traverse (traverse f) x = Inr y \<and> is_tensor3 a b d y"
proof -
  have "\<exists>ys. traverse (traverse f) x = Inr ys \<and> length ys = length x \<and> (\<forall>y \<in> set ys. is_tensor2 b d y)"
  proof (rule traverse_ex)
    fix m assume "m \<in> set x"
    with assms(1) have m: "is_tensor2 b c m" by (simp add: is_tensor3_alt)
    have "\<exists>ys. traverse f m = Inr ys \<and> length ys = length m \<and> (\<forall>y \<in> set ys. length y = d)"
      by (rule traverse_ex) (use m assms(2) in \<open>auto simp: is_tensor2_iff\<close>)
    with m show "\<exists>y. traverse f m = Inr y \<and> is_tensor2 b d y"
      by (auto simp: is_tensor2_iff)
  qed
  with assms(1) show ?thesis by (auto simp: is_tensor3_alt)
qed

lemma Linear_forward_ex:
  assumes "is_tensor3 a b i x" "wf_Linear i out l"
  shows "\<exists>y. Linear_forward l x = Inr y \<and> is_tensor3 a b out y"
  unfolding Linear_forward_def
  by (rule traverse3_ex [OF assms(1)]) (use assms(2) in \<open>auto simp: wf_Linear_def is_tensor2_iff\<close>)

lemma Norm_forward_ex:
  assumes "is_tensor3 a b d x" "wf_Norm d n"
  shows "\<exists>y. Norm_forward n x = Inr y \<and> is_tensor3 a b d y"
proof (cases n)
  case (LayerNorm e w bs)
  with assms(2) have w: "length w = d" "length bs = d" by (simp_all add: wf_Norm_def)
  show ?thesis
    unfolding LayerNorm Norm_forward.simps
  proof (rule traverse3_ex [OF assms(1)])
    fix v :: "real list" assume v: "length v = d"
    define hs where "hs = map (\<lambda>a. a / sqrt (mean (map (\<lambda>a. a\<^sup>2) (map (\<lambda>a. a - mean v) v)) + e))
                           (map (\<lambda>a. a - mean v) v)"
    have "length hs = d" by (simp add: hs_def v)
    from mul1_ex [OF w(1) this] obtain s where s: "mul1 w hs = Inr s" "length s = d" by auto
    from add1_ex [OF s(2) w(2)] obtain z where "add1 s bs = Inr z" "length z = d" by auto
    with s show "\<exists>z. LayerNorm_row e w bs v = Inr z \<and> length z = d"
      by (simp add: LayerNorm_row_def Let_def hs_def)
  qed
next
  case (RMSNorm e w)
  with assms(2) have w: "length w = d" by (simp add: wf_Norm_def)
  show ?thesis
    unfolding RMSNorm Norm_forward.simps
  proof (rule traverse3_ex [OF assms(1)])
    fix v :: "real list" assume v: "length v = d"
    show "\<exists>z. RMSNorm_row e w v = Inr z \<and> length z = d"
      unfolding RMSNorm_row_def Let_def by (rule mul1_ex) (simp_all add: w v)
  qed
qed


lemma Embedding_forward_ex:
  assumes "is_tensor2 (length w) d w" "is_tensor2 a b tokens"
    and "\<forall>row \<in> set tokens. \<forall>t \<in> set row. 0 \<le> t \<and> t < int (length w)"
  shows "\<exists>y. Embedding_forward w tokens = Inr y \<and> is_tensor3 a b d y"
proof -
  have "\<exists>ys. traverse (traverse (\<lambda>t. if 0 \<le> t \<and> t < int (length w) then Inr (w ! nat t) else Inl IndexError)) tokens
            = Inr ys \<and> length ys = length tokens \<and> (\<forall>y \<in> set ys. is_tensor2 b d y)"
  proof (rule traverse_ex)
    fix row assume row: "row \<in> set tokens"
    have "\<exists>ys. traverse (\<lambda>t. if 0 \<le> t \<and> t < int (length w) then Inr (w ! nat t) else Inl IndexError) row
            = Inr ys \<and> length ys = length row \<and> (\<forall>y \<in> set ys. length y = d)"
    proof (rule traverse_ex)
      fix t assume "t \<in> set row"
      with row assms(3) have t: "0 \<le> t" "t < int (length w)" by auto
      then have "nat t < length w" by simp
      then have "w ! nat t \<in> set w" by simp
      with assms(1) have "length (w ! nat t) = d" by (simp add: is_tensor2_iff)
      with t show "\<exists>y. (if 0 \<le> t \<and> t < int (length w) then Inr (w ! nat t) else Inl IndexError) = Inr y \<and> length y = d"
        by simp
    qed
    with row assms(2) show "\<exists>y. traverse (\<lambda>t. if 0 \<le> t \<and> t < int (length w) then Inr (w ! nat t) else Inl IndexError) row
            = Inr y \<and> is_tensor2 b d y"
      by (auto simp: is_tensor2_iff)
  qed
  with assms(2) show ?thesis
    by (auto simp: Embedding_forward_def is_tensor3_alt is_tensor2_iff)
qed

lemma length_concat_rect: "\<forall>r \<in> set xs. length r = n \<Longrightarrow> length (concat xs) = length xs * n"
  by (induction xs) simp_all

lemma length_flatten3: "is_tensor3 a b c x \<Longrightarrow> length (flatten3 x) = a * b * c"
proof -
  assume x: "is_tensor3 a b c x"
  then have "\<forall>r \<in> set (concat x). length r = c" by (auto simp: is_tensor3_iff)
  then have "length (concat (concat x)) = length (concat x) * c" by (rule length_concat_rect)
  moreover have "length (concat x) = length x * b"
    by (rule length_concat_rect) (use x in \<open>auto simp: is_tensor3_iff\<close>)
  ultimately show ?thesis using x by (simp add: flatten3_def is_tensor3_iff)
qed

lemma reshape4_ex:
  "length flat = a * b * c * d \<Longrightarrow> \<exists>t. reshape4 a b c d flat = Inr t \<and> is_tensor4 a b c d t"
  by (auto simp: reshape4_def is_tensor4_iff)

lemma reshape3_ex:
  "length flat = a * b * c \<Longrightarrow> \<exists>t. reshape3 a b c flat = Inr t \<and> is_tensor3 a b c t"
  by (auto simp: reshape3_def is_tensor3_iff)

lemma transpose12_shape: "is_tensor4 a b c d t \<Longrightarrow> is_tensor4 a c b d (transpose12 c t)"
  by (auto simp: is_tensor4_iff transpose12_def)

lemma last_dim4_eq:
  assumes "is_tensor4 a b c d x" "0 < a" "0 < b" "0 < c"
  shows "last_dim4 x = d"
proof -
  from assms obtain m where m: "m \<in> set x" by (cases x) (auto simp: is_tensor4_iff)
  with assms obtain r where r: "r \<in> set m" by (cases m) (auto simp: is_tensor4_iff)
  with m assms obtain v where v: "v \<in> set r" by (cases r) (auto simp: is_tensor4_iff)
  from m r v have "v \<in> set (concat (concat x))" by auto
  then obtain u us where u: "concat (concat x) = u # us" by (cases "concat (concat x)") auto
  then have "u \<in> set (concat (concat x))" by simp
  with assms(1) have "length u = d" by (auto simp: is_tensor4_iff)
  then show ?thesis by (simp add: last_dim4_def u)
qed

lemma index_rows_ex:
  assumes "is_tensor2 n w tab" "is_tensor2 a b ids"
    and "\<forall>row \<in> set ids. \<forall>p \<in> set row. - int n \<le> p \<and> p < int n"
  shows "\<exists>g. index_rows tab ids = Inr g \<and> is_tensor3 a b w g"
proof -
  let ?f = "\<lambda>p. let n = int (length tab) in
                 if - n \<le> p \<and> p < n then Inr (tab ! nat (if p < 0 then p + n else p))
                 else Inl IndexError"
  have "\<exists>ys. traverse (traverse ?f) ids = Inr ys \<and> length ys = length ids \<and> (\<forall>y \<in> set ys. is_tensor2 b w y)"
  proof (rule traverse_ex)
    fix row assume row: "row \<in> set ids"
    have "\<exists>ys. traverse ?f row = Inr ys \<and> length ys = length row \<and> (\<forall>y \<in> set ys. length y = w)"
    proof (rule traverse_ex)
      fix p assume "p \<in> set row"
      with row assms(3) have p: "- int n \<le> p" "p < int n" by auto
      from assms(1) have n: "length tab = n" by (simp add: is_tensor2_iff)
      from p have "nat (if p < 0 then p + int n else p) < n" by auto
      then have "tab ! nat (if p < 0 then p + int n else p) \<in> set tab" by (simp add: n)
      with assms(1) have "length (tab ! nat (if p < 0 then p + int n else p)) = w"
        by (simp add: is_tensor2_iff)
      with p show "\<exists>y. ?f p = Inr y \<and> length y = w" by (simp add: n Let_def)
    qed
    with row assms(2) show "\<exists>y. traverse ?f row = Inr y \<and> is_tensor2 b w y"
      by (auto simp: is_tensor2_iff)
  qed
  with assms(2) show ?thesis
    by (auto simp: index_rows_def is_tensor3_alt is_tensor2_iff)
qed

lemma broadcast4_unsqueeze_ex:
  assumes x: "is_tensor4 a h b d x" and g: "is_tensor3 a b d g"
    and leaf: "\<And>v w. length v = d \<Longrightarrow> length w = d \<Longrightarrow> \<exists>z. f v w = Inr z \<and> length z = d"
  shows "\<exists>y. broadcast2 (broadcast2 (broadcast2 f)) x (unsqueeze1 g) = Inr y \<and> is_tensor4 a h b d y"
  unfolding is_tensor4_alt [of a h b d]
proof (rule broadcast2_ex)
  show "length x = a" using x by (simp add: is_tensor4_alt)
  show "length (unsqueeze1 g) = a" using g by (simp add: unsqueeze1_def is_tensor3_alt)
next
  fix m u assume m: "m \<in> set x" and "u \<in> set (unsqueeze1 g)"
  then obtain k where k: "k \<in> set g" and u: "u = [k]" by (auto simp: unsqueeze1_def)
  from m x have m3: "is_tensor3 h b d m" by (simp add: is_tensor4_alt)
  from k g have k2: "is_tensor2 b d k" by (simp add: is_tensor3_alt)
  have "\<exists>zs. broadcast2 (broadcast2 f) m u = Inr zs \<and> length zs = length m \<and> (\<forall>z \<in> set zs. is_tensor2 b d z)"
  proof (rule broadcast2_right1_ex)
    show "length u = 1" by (simp add: u)
  next
    fix r assume "r \<in> set m"
    with m3 have "is_tensor2 b d r" by (simp add: is_tensor3_alt)
    then show "\<exists>z. broadcast2 f r (hd u) = Inr z \<and> is_tensor2 b d z"
      unfolding u list.sel by (rule broadcast2_tensor2_ex [OF _ k2]) (rule leaf)
  qed
  with m3 show "\<exists>z. broadcast2 (broadcast2 f) m u = Inr z \<and> is_tensor3 h b d z"
    by (auto simp: is_tensor3_alt)
qed

lemma broadcast2_tensor4_ex:
  assumes "is_tensor4 a b c d x" "is_tensor4 a b c d y"
    and "\<And>v w. length v = d \<Longrightarrow> length w = d \<Longrightarrow> \<exists>z. f v w = Inr z \<and> length z = d"
  shows "\<exists>z. broadcast2 (broadcast2 (broadcast2 f)) x y = Inr z \<and> is_tensor4 a b c d z"
  unfolding is_tensor4_alt [of a b c d]
  by (rule broadcast2_ex) (use assms in \<open>auto simp: is_tensor4_alt intro!: broadcast2_tensor3_ex\<close>)

lemma is_tensor2_take: "is_tensor2 n w tab \<Longrightarrow> d \<le> w \<Longrightarrow> is_tensor2 n d (map (take d) tab)"
  by (auto simp: is_tensor2_iff)

lemma apply_rope_ex:
  assumes x: "is_tensor4 a h b d x" and pos: "0 < a" "0 < h" "0 < b"
    and c: "is_tensor2 n w cos_t" and s: "is_tensor2 n w sin_t" and dw: "d \<le> w"
    and ids: "is_tensor2 a b position_ids"
      "\<forall>row \<in> set position_ids. \<forall>p \<in> set row. - int n \<le> p \<and> p < int n"
  shows "\<exists>y. apply_rope x cos_t sin_t position_ids = Inr y \<and> is_tensor4 a h b d y"
proof -
  have ld: "last_dim4 x = d" by (rule last_dim4_eq [OF x pos])
  from index_rows_ex [OF is_tensor2_take [OF c dw] ids]
  obtain cg where cg: "index_rows (map (take d) cos_t) position_ids = Inr cg" "is_tensor3 a b d cg" by auto
  from index_rows_ex [OF is_tensor2_take [OF s dw] ids]
  obtain sg where sg: "index_rows (map (take d) sin_t) position_ids = Inr sg" "is_tensor3 a b d sg" by auto
  from broadcast4_unsqueeze_ex [OF x cg(2), of mul1]
  obtain p where p: "mul4 x (unsqueeze1 cg) = Inr p" "is_tensor4 a h b d p"
    by (auto simp: mul4_def intro: mul1_ex)
  from broadcast4_unsqueeze_ex [OF rotate_half_shape [OF x] sg(2), of mul1]
  obtain q where q: "mul4 (rotate_half x) (unsqueeze1 sg) = Inr q" "is_tensor4 a h b d q"
    by (auto simp: mul4_def intro: mul1_ex)
  from broadcast2_tensor4_ex [OF p(2) q(2), of add1]
  obtain y where "add4 p q = Inr y" "is_tensor4 a h b d y"
    by (auto simp: add4_def intro: add1_ex)
  then show ?thesis
    by (simp add: apply_rope_def Let_def ld cg sg p q)
qed


lemma cat_dim2_ex:
  assumes x: "is_tensor4 a h l d x" and y: "is_tensor4 a h n d y"
  shows "\<exists>z. cat_dim2 x y = Inr z \<and> is_tensor4 a h (l + n) d z"
proof -
  let ?g = "\<lambda>(ra :: tensor2, rb :: tensor2).
              if \<exists>u \<in> set ra. \<exists>v \<in> set rb. length u \<noteq> length v then Inl RuntimeError
              else Inr (ra @ rb)"
  let ?f = "\<lambda>(ha :: tensor3, hb :: tensor3).
              if length ha \<noteq> length hb then Inl RuntimeError else traverse ?g (zip ha hb)"
  have "\<exists>zs. traverse ?f (zip x y) = Inr zs \<and> length zs = length (zip x y) \<and>
          (\<forall>z \<in> set zs. is_tensor3 h (l + n) d z)"
  proof (rule traverse_ex)
    fix pr assume "pr \<in> set (zip x y)"
    moreover obtain ha hb where pr: "pr = (ha, hb)" by (cases pr)
    ultimately have ha: "ha \<in> set x" and hb: "hb \<in> set y"
      by (auto dest: set_zip_leftD set_zip_rightD)
    from ha x have ha3: "is_tensor3 h l d ha" by (simp add: is_tensor4_alt)
    from hb y have hb3: "is_tensor3 h n d hb" by (simp add: is_tensor4_alt)
    have "\<exists>zs. traverse ?g (zip ha hb) = Inr zs \<and> length zs = length (zip ha hb) \<and>
            (\<forall>z \<in> set zs. is_tensor2 (l + n) d z)"
    proof (rule traverse_ex)
      fix qr assume "qr \<in> set (zip ha hb)"
      moreover obtain ra rb where qr: "qr = (ra, rb)" by (cases qr)
      ultimately have ra: "ra \<in> set ha" and rb: "rb \<in> set hb"
        by (auto dest: set_zip_leftD set_zip_rightD)
      from ra ha3 have "is_tensor2 l d ra" by (simp add: is_tensor3_alt)
      moreover from rb hb3 have "is_tensor2 n d rb" by (simp add: is_tensor3_alt)
      ultimately show "\<exists>z. ?g qr = Inr z \<and> is_tensor2 (l + n) d z"
        by (auto simp: qr is_tensor2_iff)
    qed
    with ha3 hb3 show "\<exists>z. ?f pr = Inr z \<and> is_tensor3 h (l + n) d z"
      by (auto simp: pr is_tensor3_alt)
  qed
  with x y show ?thesis by (auto simp: cat_dim2_def is_tensor4_alt)
qed

lemma broadcast_key_value_shape:
  assumes "is_tensor4 a h t d x"
  shows "is_tensor4 a (h * n) t d (broadcast_key_value x n)"
proof -
  have "\<And>m :: tensor3. is_tensor3 h t d m \<Longrightarrow> is_tensor3 (h * n) t d (concat (map (replicate n) m))"
  proof -
    fix m :: tensor3 assume m: "is_tensor3 h t d m"
    have "length (concat (map (replicate n) m)) = length (map (replicate n) m) * n"
      by (rule length_concat_rect) auto
    with m show "is_tensor3 (h * n) t d (concat (map (replicate n) m))"
      by (auto simp: is_tensor3_alt)
  qed
  with assms show ?thesis by (auto simp: is_tensor4_alt broadcast_key_value_def)
qed

lemma broadcast2_tensor2_gen_ex:
  assumes "length x = a" "length y = a"
    and "\<And>v w. v \<in> set x \<Longrightarrow> w \<in> set y \<Longrightarrow> \<exists>z. f v w = Inr z \<and> P z"
  shows "\<exists>z. broadcast2 f x y = Inr z \<and> length z = a \<and> (\<forall>u \<in> set z. P u)"
  using assms by (rule broadcast2_ex)

lemma matmul_nt_ex:
  assumes q: "is_tensor4 a h n d q" and k: "is_tensor4 a h t d k"
  shows "\<exists>z. matmul_nt q k = Inr z \<and> is_tensor4 a h n t z"
proof -
  let ?row = "\<lambda>km qi. traverse (\<lambda>kj. if length qi = length kj then Inr (dot qi kj) else Inl RuntimeError) km"
  let ?mm = "\<lambda>qm km. traverse (?row km) qm"
  have mm: "\<exists>z. ?mm qm km = Inr z \<and> is_tensor2 n t z"
    if qm: "is_tensor2 n d qm" and km: "is_tensor2 t d km" for qm km :: tensor2
  proof -
    have "\<exists>ys. traverse (?row km) qm = Inr ys \<and> length ys = length qm \<and> (\<forall>y \<in> set ys. length y = t)"
    proof (rule traverse_ex)
      fix qi assume "qi \<in> set qm"
      with qm have qi: "length qi = d" by (simp add: is_tensor2_iff)
      have "\<exists>ys. ?row km qi = Inr ys \<and> length ys = length km \<and> (\<forall>y \<in> set ys. True)"
        by (rule traverse_ex) (use km qi in \<open>auto simp: is_tensor2_iff\<close>)
      with km show "\<exists>y. ?row km qi = Inr y \<and> length y = t" by (auto simp: is_tensor2_iff)
    qed
    with qm show ?thesis by (auto simp: is_tensor2_iff)
  qed
  have hd: "\<exists>z. broadcast2 ?mm qh kh = Inr z \<and> is_tensor3 h n t z"
    if "is_tensor3 h n d qh" "is_tensor3 h t d kh" for qh kh :: tensor3
    unfolding is_tensor3_alt [of h n t]
    by (rule broadcast2_ex) (use that in \<open>auto simp: is_tensor3_alt intro!: mm\<close>)
  show ?thesis
    unfolding matmul_nt_def is_tensor4_alt [of a h n t]
    by (rule broadcast2_ex) (use q k in \<open>auto simp: is_tensor4_alt intro!: hd\<close>)
qed

lemma matmul_ex:
  assumes p: "is_tensor4 a h n t p" and v: "is_tensor4 a h t d v" and t: "0 < t"
  shows "\<exists>z. matmul p v = Inr z \<and> is_tensor4 a h n d z"
proof -
  let ?row = "\<lambda>vm :: tensor2. \<lambda>pr :: real list. if length pr = length vm
                then Inr (map (\<lambda>d. sum_list (map2 (\<lambda>pj vj. pj * vj ! d) pr vm)) [0..<dim1 vm])
                else Inl RuntimeError"
  let ?mm = "\<lambda>pm vm. traverse (?row vm) pm"
  have mm: "\<exists>z. ?mm pm vm = Inr z \<and> is_tensor2 n d z"
    if pm: "is_tensor2 n t pm" and vm: "is_tensor2 t d vm" for pm vm :: tensor2
  proof -
    have d: "dim1 vm = d" using vm t by (rule is_tensor2_dim1)
    have "\<exists>ys. traverse (?row vm) pm = Inr ys \<and> length ys = length pm \<and> (\<forall>y \<in> set ys. length y = d)"
      by (rule traverse_ex) (use pm vm d in \<open>auto simp: is_tensor2_iff\<close>)
    with pm show ?thesis by (auto simp: is_tensor2_iff)
  qed
  have hd: "\<exists>z. broadcast2 ?mm ph vh = Inr z \<and> is_tensor3 h n d z"
    if "is_tensor3 h n t ph" "is_tensor3 h t d vh" for ph vh :: tensor3
    unfolding is_tensor3_alt [of h n d]
    by (rule broadcast2_ex) (use that in \<open>auto simp: is_tensor3_alt intro!: mm\<close>)
  show ?thesis
    unfolding matmul_def is_tensor4_alt [of a h n d]
    by (rule broadcast2_ex) (use p v in \<open>auto simp: is_tensor4_alt intro!: hd\<close>)
qed

lemma map4_shape: "is_tensor4 a b c d t \<Longrightarrow> is_tensor4 a b c d (map4 f t)"
  by (auto simp: is_tensor4_iff map4_def)

lemma map3_shape: "is_tensor3 a b c t \<Longrightarrow> is_tensor3 a b c (map3 f t)"
  by (auto simp: is_tensor3_iff map3_def)

lemma softmax_shape: "is_tensor4 a b c d t \<Longrightarrow> is_tensor4 a b c d (map (map (map softmax)) t)"
  by (auto simp: is_tensor4_iff softmax_def)

lemma ApplyMask_forward_ex:
  assumes "is_tensor2 a t attn_mask" "is_tensor4 a h n t score" "0 < n" "n \<le> t"
  shows "\<exists>z. ApplyMask_forward use_cache score attn_mask n h = Inr z \<and> is_tensor4 a h n t z"
proof -
  have "use_cache \<or> (0 < n \<and> n \<le> t)" using assms by simp
  from ApplyMask_forward_spec [OF assms(1,2) this] show ?thesis
    by (auto simp: is_tensor4_iff)
qed

lemma transpose_rect:
  assumes "is_tensor2 h n xs" "0 < h"
  shows "transpose xs = map (\<lambda>i. map (\<lambda>j. xs ! j ! i) [0..<h]) [0..<n]"
proof -
  have "transpose xs = map (\<lambda>i. map (\<lambda>j. xs ! j ! i) [0..<length xs]) [0..<n]"
    by (rule transpose_rectangle) (use assms in \<open>auto simp: is_tensor2_iff\<close>)
  with assms show ?thesis by (simp add: is_tensor2_iff)
qed

lemma merge_heads_length:
  assumes x: "is_tensor4 a h n d x" and h: "0 < h"
  shows "length (flatten4 (map transpose x)) = a * n * (h * d)"
proof -
  have "is_tensor4 a n h d (map transpose x)"
    unfolding is_tensor4_iff
  proof (intro conjI ballI)
    show "length (map transpose x) = a" using x by (simp add: is_tensor4_iff)
  next
    fix m assume "m \<in> set (map transpose x)"
    then obtain m' where m': "m' \<in> set x" and m: "m = transpose m'" by auto
    from m' x have s: "is_tensor2 h n m'" and rows: "\<forall>r \<in> set m'. \<forall>v \<in> set r. length v = d"
      by (auto simp: is_tensor4_iff is_tensor2_iff)
    have t: "m = map (\<lambda>i. map (\<lambda>j. m' ! j ! i) [0..<h]) [0..<n]"
      unfolding m by (rule transpose_rect [OF s h])
    show "length m = n" by (simp add: t)
    fix r assume "r \<in> set m"
    then obtain i where i: "i < n" and r: "r = map (\<lambda>j. m' ! j ! i) [0..<h]" by (auto simp: t)
    show "length r = h" by (simp add: r)
    fix v assume "v \<in> set r"
    then obtain j where j: "j < h" and v: "v = m' ! j ! i" by (auto simp: r)
    from s j have mj: "m' ! j \<in> set m'" and "length (m' ! j) = n" by (auto simp: is_tensor2_iff)
    with i have "m' ! j ! i \<in> set (m' ! j)" by simp
    with rows mj show "length v = d" by (auto simp: v)
  qed
  then have 1: "length x' = a" "\<forall>m \<in> set x'. length m = n"
    "\<forall>m \<in> set x'. \<forall>r \<in> set m. length r = h" "\<forall>m \<in> set x'. \<forall>r \<in> set m. \<forall>v \<in> set r. length v = d"
    if "x' = map transpose x" for x'
    using that by (auto simp: is_tensor4_iff)
  define x' where "x' = map transpose x"
  note f = 1 [OF x'_def]
  have "length (concat x') = a * n" using length_concat_rect [of x' n] f by simp
  moreover have "length (concat (concat x')) = length (concat x') * h"
    by (rule length_concat_rect) (use f in auto)
  moreover have "length (concat (concat (concat x'))) = length (concat (concat x')) * d"
    by (rule length_concat_rect) (use f in auto)
  ultimately show ?thesis by (simp add: flatten4_def x'_def [symmetric])
qed


lemma is_tensor3_dim1: "is_tensor3 a b c t \<Longrightarrow> 0 < a \<Longrightarrow> dim1 t = b"
  by (cases t) (auto simp: is_tensor3_iff dim1_def)

lemma SelfAttention_forward_ex:
  assumes wf: "wf_SelfAttention sa"
    and x: "is_tensor3 a n (hidden_size sa) x" and pos: "0 < a" "0 < n"
    and c: "is_tensor2 p w cos_t" and s: "is_tensor2 p w sin_t" and dw: "head_dim sa \<le> w"
    and ids: "is_tensor2 a n position_ids"
      "\<forall>row \<in> set position_ids. \<forall>q \<in> set row. - int p \<le> q \<and> q < int p"
    and mask: "is_tensor2 a (l + n) attn_mask"
    and kc: "is_tensor4 a (num_key_value_heads sa) l (head_dim sa) k_cache"
    and vc: "is_tensor4 a (num_key_value_heads sa) l (head_dim sa) v_cache"
  shows "\<exists>out k v. SelfAttention_forward sa use_cache x position_ids attn_mask cos_t sin_t k_cache v_cache
                     = Inr (out, k, v) \<and>
           is_tensor3 a n (hidden_size sa) out \<and>
           is_tensor4 a (num_key_value_heads sa) (l + n) (head_dim sa) k \<and>
           is_tensor4 a (num_key_value_heads sa) (l + n) (head_dim sa) v"
proof -
  let ?H = "hidden_size sa" and ?nh = "num_heads sa" and ?kv = "num_key_value_heads sa"
    and ?d = "head_dim sa"
  from wf have kv0: "0 < ?kv" and dv: "?kv dvd ?nh" and nh0: "0 < ?nh" and H: "?H = ?nh * ?d"
    and wq: "wf_Linear ?H ?H (q_proj sa)" and wk: "wf_Linear ?H (?kv * ?d) (k_proj sa)"
    and wv: "wf_Linear ?H (?kv * ?d) (v_proj sa)" and wo: "wf_Linear ?H ?H (o_proj sa)"
    unfolding wf_SelfAttention_def by blast+
  have lx: "length x = a" using x by (simp add: is_tensor3_iff)
  have dx: "dim1 x = n" using x pos(1) by (rule is_tensor3_dim1)
  from Linear_forward_ex [OF x wq] obtain q0 where
    q0: "Linear_forward (q_proj sa) x = Inr q0" "is_tensor3 a n ?H q0" by auto
  from Linear_forward_ex [OF x wk] obtain k0 where
    k0: "Linear_forward (k_proj sa) x = Inr k0" "is_tensor3 a n (?kv * ?d) k0" by auto
  from Linear_forward_ex [OF x wv] obtain v0 where
    v0: "Linear_forward (v_proj sa) x = Inr v0" "is_tensor3 a n (?kv * ?d) v0" by auto
  have "length (flatten3 q0) = a * n * ?nh * ?d" using length_flatten3 [OF q0(2)] H by simp
  from reshape4_ex [OF this] obtain q1 where
    q1: "reshape4 a n ?nh ?d (flatten3 q0) = Inr q1" "is_tensor4 a n ?nh ?d q1" by auto
  have "length (flatten3 k0) = a * n * ?kv * ?d" using length_flatten3 [OF k0(2)] by simp
  from reshape4_ex [OF this] obtain k1 where
    k1: "reshape4 a n ?kv ?d (flatten3 k0) = Inr k1" "is_tensor4 a n ?kv ?d k1" by auto
  have "length (flatten3 v0) = a * n * ?kv * ?d" using length_flatten3 [OF v0(2)] by simp
  from reshape4_ex [OF this] obtain v1 where
    v1: "reshape4 a n ?kv ?d (flatten3 v0) = Inr v1" "is_tensor4 a n ?kv ?d v1" by auto
  note q2 = transpose12_shape [OF q1(2)] and k2 = transpose12_shape [OF k1(2)]
    and v2 = transpose12_shape [OF v1(2)]
  from apply_rope_ex [OF q2 pos(1) nh0 pos(2) c s dw ids] obtain q3 where
    q3: "apply_rope (transpose12 ?nh q1) cos_t sin_t position_ids = Inr q3" "is_tensor4 a ?nh n ?d q3"
    by auto
  from apply_rope_ex [OF k2 pos(1) kv0 pos(2) c s dw ids] obtain k3 where
    k3: "apply_rope (transpose12 ?kv k1) cos_t sin_t position_ids = Inr k3" "is_tensor4 a ?kv n ?d k3"
    by auto
  from cat_dim2_ex [OF kc k3(2)] obtain k4 where
    k4: "cat_dim2 k_cache k3 = Inr k4" "is_tensor4 a ?kv (l + n) ?d k4" by auto
  from cat_dim2_ex [OF vc v2] obtain v4 where
    v4: "cat_dim2 v_cache (transpose12 ?kv v1) = Inr v4" "is_tensor4 a ?kv (l + n) ?d v4" by auto
  define k5 where "k5 = (if ?nh \<noteq> ?kv then broadcast_key_value k4 (?nh div ?kv) else k4)"
  define v5 where "v5 = (if ?nh \<noteq> ?kv then broadcast_key_value v4 (?nh div ?kv) else v4)"
  have bc: "(if ?nh \<noteq> ?kv then
              (if ?kv = 0 then Inl ZeroDivisionError
               else Inr (broadcast_key_value k4 (?nh div ?kv), broadcast_key_value v4 (?nh div ?kv)))
            else Inr (k4, v4)) = Inr (k5, v5)"
    using kv0 by (simp add: k5_def v5_def)
  have mul: "?kv * (?nh div ?kv) = ?nh" using dv by simp
  have k5s: "is_tensor4 a ?nh (l + n) ?d k5"
    using broadcast_key_value_shape [OF k4(2), of "?nh div ?kv"] k4(2) by (auto simp: k5_def mul)
  have v5s: "is_tensor4 a ?nh (l + n) ?d v5"
    using broadcast_key_value_shape [OF v4(2), of "?nh div ?kv"] v4(2) by (auto simp: v5_def mul)
  from matmul_nt_ex [OF q3(2) k5s] obtain sc where
    sc: "matmul_nt q3 k5 = Inr sc" "is_tensor4 a ?nh n (l + n) sc" by auto
  have ms: "is_tensor4 a ?nh n (l + n) (map4 (\<lambda>s. s / scale sa) sc)"
    by (rule map4_shape [OF sc(2)])
  have "n \<le> l + n" by simp
  from ApplyMask_forward_ex [OF mask ms pos(2) this]
  obtain sm where sm: "ApplyMask_forward use_cache (map4 (\<lambda>s. s / scale sa) sc) attn_mask n ?nh = Inr sm"
    "is_tensor4 a ?nh n (l + n) sm" by auto
  have "0 < l + n" using pos(2) by simp
  from matmul_ex [OF softmax_shape [OF sm(2)] v5s this] obtain att where
    att: "matmul (map (map (map softmax)) sm) v5 = Inr att" "is_tensor4 a ?nh n ?d att" by auto
  have "length (flatten4 (map transpose att)) = a * n * ?H"
    using merge_heads_length [OF att(2) nh0] H by simp
  from reshape3_ex [OF this] obtain mg where
    mg: "reshape3 a n ?H (flatten4 (map transpose att)) = Inr mg" "is_tensor3 a n ?H mg" by auto
  from Linear_forward_ex [OF mg(2) wo] obtain out where
    out: "Linear_forward (o_proj sa) mg = Inr out" "is_tensor3 a n ?H out" by auto
  have "SelfAttention_forward sa use_cache x position_ids attn_mask cos_t sin_t k_cache v_cache
          = Inr (out, k4, v4)"
    unfolding SelfAttention_forward_def Let_def lx dx
    by (simp only: q0 k0 v0 q1 k1 v1 q3 k3 k4 v4 bc sc sm att mg out rbind_Inr prod.case)
  with out(2) k4(2) v4(2) show ?thesis by blast
qed


lemma ProjLayerSiluMatMul_forward_ex:
  assumes "wf_ProjLayerSiluMatMul h p" "is_tensor3 a n h x"
  shows "\<exists>y. ProjLayerSiluMatMul_forward p x = Inr y \<and> is_tensor3 a n h y"
proof -
  let ?i = "out_features (gate_proj p)"
  from assms(1) have g: "wf_Linear h ?i (gate_proj p)" and d: "wf_Linear ?i h (down_proj p)"
    and u: "wf_Linear h ?i (up_proj p)"
    by (simp_all add: wf_ProjLayerSiluMatMul_def)
  from Linear_forward_ex [OF assms(2) g] obtain w1x where
    w: "Linear_forward (gate_proj p) x = Inr w1x" "is_tensor3 a n ?i w1x" by auto
  from mul3_ex [OF w(2) map3_shape [OF w(2)]] obtain gt where
    gt: "mul3 w1x (map3 sigmoid w1x) = Inr gt" "is_tensor3 a n ?i gt" by auto
  from Linear_forward_ex [OF assms(2) u] obtain up where
    up: "Linear_forward (up_proj p) x = Inr up" "is_tensor3 a n ?i up" by auto
  from mul3_ex [OF gt(2) up(2)] obtain pr where
    pr: "mul3 gt up = Inr pr" "is_tensor3 a n ?i pr" by auto
  from Linear_forward_ex [OF pr(2) d] obtain y where
    y: "Linear_forward (down_proj p) pr = Inr y" "is_tensor3 a n h y" by auto
  show ?thesis
    by (simp add: ProjLayerSiluMatMul_forward_def w gt up pr y)
qed

lemma valid_position_ids_iff:
  "valid_position_ids a n ids \<longleftrightarrow>
     is_tensor2 a n ids \<and> (\<forall>row \<in> set ids. \<forall>q \<in> set row. - int 4096 \<le> q \<and> q < int 4096)"
  by (simp add: valid_position_ids_def list_all_iff)

lemma TransformerLayer_forward_ex:
  assumes wf: "wf_TransformerLayer h kv d layer"
    and x: "is_tensor3 a n h x" and pos: "0 < a" "0 < n"
    and ids: "valid_position_ids a n position_ids"
    and mask: "is_tensor2 a (l + n) attn_mask"
    and kc: "is_tensor4 a kv l d k_cache" and vc: "is_tensor4 a kv l d v_cache"
  shows "\<exists>out k v. TransformerLayer_forward layer use_cache x position_ids attn_mask k_cache v_cache
                     = Inr (out, k, v) \<and>
           is_tensor3 a n h out \<and> is_tensor4 a kv (l + n) d k \<and> is_tensor4 a kv (l + n) d v"
proof -
  let ?sa = "self_attn layer"
  from wf have sa: "wf_SelfAttention ?sa" and h: "hidden_size ?sa = h"
    and kv: "num_key_value_heads ?sa = kv" and d: "head_dim ?sa = d"
    and n1: "wf_Norm h (input_layernorm layer)" and n2: "wf_Norm h (post_attention_layernorm layer)"
    and c: "is_tensor2 4096 (dim1 (cos_tab layer)) (cos_tab layer)"
    and s: "is_tensor2 4096 (dim1 (cos_tab layer)) (sin_tab layer)"
    and dw: "head_dim ?sa \<le> dim1 (cos_tab layer)"
    and mlp: "wf_ProjLayerSiluMatMul h (mlp layer)"
    unfolding wf_TransformerLayer_def by blast+
  from ids have i1: "is_tensor2 a n position_ids"
    and i2: "\<forall>row \<in> set position_ids. \<forall>q \<in> set row. - int 4096 \<le> q \<and> q < int 4096"
    by (simp_all add: valid_position_ids_iff)
  from Norm_forward_ex [OF x n1] obtain nx where
    nx: "Norm_forward (input_layernorm layer) x = Inr nx" "is_tensor3 a n h nx" by auto
  from SelfAttention_forward_ex [OF sa nx(2) [folded h] pos c s dw i1 i2 mask kc [folded kv d] vc [folded kv d],
      of use_cache]
  obtain att k v where
    att: "SelfAttention_forward ?sa use_cache nx position_ids attn_mask (cos_tab layer) (sin_tab layer)
           k_cache v_cache = Inr (att, k, v)"
    and ats: "is_tensor3 a n h att" and ks: "is_tensor4 a kv (l + n) d k" and vs: "is_tensor4 a kv (l + n) d v"
    unfolding h kv d by blast
  from add3_ex [OF x ats] obtain r1 where r1: "add3 x att = Inr r1" "is_tensor3 a n h r1" by auto
  from Norm_forward_ex [OF r1(2) n2] obtain n2x where
    n2x: "Norm_forward (post_attention_layernorm layer) r1 = Inr n2x" "is_tensor3 a n h n2x" by auto
  from ProjLayerSiluMatMul_forward_ex [OF mlp n2x(2)] obtain mo where
    mo: "ProjLayerSiluMatMul_forward (mlp layer) n2x = Inr mo" "is_tensor3 a n h mo" by auto
  from add3_ex [OF r1(2) mo(2)] obtain out where out: "add3 r1 mo = Inr out" "is_tensor3 a n h out" by auto
  have "TransformerLayer_forward layer use_cache x position_ids attn_mask k_cache v_cache = Inr (out, k, v)"
    by (simp add: TransformerLayer_forward_def nx att r1 n2x mo out)
  with out(2) ks vs show ?thesis by blast
qed

lemma Model_layers_ex:
  assumes wf: "\<forall>layer \<in> set ls. wf_TransformerLayer h kv d layer"
    and x: "is_tensor3 a n h x" and pos: "0 < a" "0 < n"
    and ids: "valid_position_ids a n position_ids"
    and mask: "is_tensor2 a (l + n) attn_mask"
    and len: "idx + length ls \<le> length cache"
    and cache: "\<forall>c \<in> set cache. is_tensor4 a kv l d (cache_key c) \<and> is_tensor4 a kv l d (cache_value c)"
  shows "\<exists>y ks' vs'. Model_layers ls idx use_cache x position_ids attn_mask cache ks vs
                       = Inr (y, ks @ ks', vs @ vs') \<and>
           is_tensor3 a n h y \<and> length ks' = length ls \<and> length vs' = length ls \<and>
           (\<forall>c \<in> set ks'. is_tensor4 a kv (l + n) d c) \<and> (\<forall>c \<in> set vs'. is_tensor4 a kv (l + n) d c)"
  using wf x len
proof (induction ls arbitrary: idx x ks vs)
  case Nil
  then show ?case by simp
next
  case (Cons layer rest)
  from Cons.prems have w: "wf_TransformerLayer h kv d layer" and lt: "idx < length cache" by simp_all
  then have "cache ! idx \<in> set cache" by simp
  with cache have kc: "is_tensor4 a kv l d (cache_key (cache ! idx))"
    and vc: "is_tensor4 a kv l d (cache_value (cache ! idx))" by simp_all
  from TransformerLayer_forward_ex [OF w Cons.prems(2) pos ids mask kc vc, of use_cache]
  obtain out k v where
    f: "TransformerLayer_forward layer use_cache x position_ids attn_mask (cache_key (cache ! idx))
          (cache_value (cache ! idx)) = Inr (out, k, v)"
    and os: "is_tensor3 a n h out" and ks: "is_tensor4 a kv (l + n) d k" and vs: "is_tensor4 a kv (l + n) d v"
    by blast
  have "\<forall>layer \<in> set rest. wf_TransformerLayer h kv d layer" using Cons.prems(1) by simp
  moreover have "Suc idx + length rest \<le> length cache" using Cons.prems(3) by simp
  ultimately obtain y ks' vs' where
    r: "Model_layers rest (Suc idx) use_cache out position_ids attn_mask cache (ks @ [k]) (vs @ [v])
          = Inr (y, (ks @ [k]) @ ks', (vs @ [v]) @ vs')"
    and ys: "is_tensor3 a n h y" and lk: "length ks' = length rest" and lv: "length vs' = length rest"
    and ksh: "\<forall>c \<in> set ks'. is_tensor4 a kv (l + n) d c" and vsh: "\<forall>c \<in> set vs'. is_tensor4 a kv (l + n) d c"
    using Cons.IH [OF _ os, of "Suc idx" "ks @ [k]" "vs @ [v]"] by blast
  have "Model_layers (layer # rest) idx use_cache x position_ids attn_mask cache ks vs
          = Inr (y, ks @ (k # ks'), vs @ (v # vs'))"
    using lt by (simp add: Let_def f r)
  with ys lk lv ksh vsh ks vs show ?case
    by (intro exI [of _ y] exI [of _ "k # ks'"] exI [of _ "v # vs'"]) simp
qed

lemma interleave_set:
  "length ks = length vs \<Longrightarrow>
   set (concat (map (\<lambda>(k, v). [k, v]) (zip ks vs))) = set ks \<union> set vs \<and>
   length (concat (map (\<lambda>(k, v). [k, v]) (zip ks vs))) = 2 * length ks"
  by (induction ks vs rule: list_induct2) auto

lemma forward_common_ex:
  assumes wf: "wf_DecoderModel vocab h kv d m" and pos: "0 < a" "0 < n"
    and tok: "valid_tokens vocab a n tokens"
    and ids: "valid_position_ids a n position_ids"
    and mask: "is_tensor2 a (l + n) attn_mask"
    and cache: "valid_cache (length (layers (model m))) a kv l d cache"
  shows "\<exists>logits outs. forward_common m use_cache tokens position_ids attn_mask cache = Inr (logits, outs) \<and>
           is_tensor3 a n vocab logits \<and> length outs = 2 * length (layers (model m)) \<and>
           (\<forall>c \<in> set outs. is_tensor4 a kv (l + n) d c) \<and>
           valid_cache (length (layers (model m))) a kv (l + n) d (regroup_cache outs)"
proof -
  from wf have emb: "is_tensor2 vocab h (embed_tokens (model m))"
    and fn: "wf_Norm h (final_norm (model m))"
    and ls: "\<forall>layer \<in> set (layers (model m)). wf_TransformerLayer h kv d layer"
    and lm: "wf_Linear h vocab (lm_head m)"
    by (simp_all add: wf_DecoderModel_def list_all_iff)
  from emb have lv: "length (embed_tokens (model m)) = vocab" by (simp add: is_tensor2_iff)
  from tok have t1: "is_tensor2 a n tokens"
    and t2: "\<forall>row \<in> set tokens. \<forall>t \<in> set row. 0 \<le> t \<and> t < int (length (embed_tokens (model m)))"
    by (simp_all add: valid_tokens_def list_all_iff lv)
  from Embedding_forward_ex [OF emb [folded lv] t1 t2] obtain x where
    x: "Embedding_forward (embed_tokens (model m)) tokens = Inr x" "is_tensor3 a n h x" by auto
  from cache have cl: "0 + length (layers (model m)) \<le> length cache"
    and cs: "\<forall>c \<in> set cache. is_tensor4 a kv l d (cache_key c) \<and> is_tensor4 a kv l d (cache_value c)"
    by (simp_all add: valid_cache_def list_all_iff)
  from Model_layers_ex [OF ls x(2) pos ids mask cl cs, of use_cache "[]" "[]"]
  obtain y ks vs where
    ml: "Model_layers (layers (model m)) 0 use_cache x position_ids attn_mask cache [] [] = Inr (y, ks, vs)"
    and ys: "is_tensor3 a n h y" and lk: "length ks = length (layers (model m))"
    and lvs: "length vs = length (layers (model m))"
    and ksh: "\<forall>c \<in> set ks. is_tensor4 a kv (l + n) d c" and vsh: "\<forall>c \<in> set vs. is_tensor4 a kv (l + n) d c"
    by auto
  from Norm_forward_ex [OF ys fn] obtain ny where
    ny: "Norm_forward (final_norm (model m)) y = Inr ny" "is_tensor3 a n h ny" by auto
  from Linear_forward_ex [OF ny(2) lm] obtain logits where
    lg: "Linear_forward (lm_head m) ny = Inr logits" "is_tensor3 a n vocab logits" by auto
  let ?outs = "concat (map (\<lambda>(k, v). [k, v]) (zip ks vs))"
  have f: "forward_common m use_cache tokens position_ids attn_mask cache = Inr (logits, ?outs)"
    by (simp add: forward_common_def Model_forward_def x ml ny lg)
  have lkv: "length ks = length vs" using lk lvs by simp
  from interleave_set [OF lkv] have so: "set ?outs = set ks \<union> set vs" and lo: "length ?outs = 2 * length ks"
    by simp_all
  have rg: "regroup_cache ?outs = map (\<lambda>(k, v). \<lparr>cache_key = k, cache_value = v\<rparr>) (zip ks vs)"
    using lkv by (induction ks vs rule: list_induct2) simp_all
  have vc: "valid_cache (length (layers (model m))) a kv (l + n) d (regroup_cache ?outs)"
    unfolding rg valid_cache_def list_all_iff using lk lvs ksh vsh
    by (auto dest: set_zip_leftD set_zip_rightD)
  from f lg(2) so lo lk ksh vsh vc show ?thesis by auto
qed


lemma run_use_cache_steps_ex:
  assumes wf: "wf_DecoderModel vocab h kv d m" and pos: "0 < a"
    and steps: "valid_steps vocab a l steps"
    and cache: "valid_cache (length (layers (model m))) a kv l d cache"
  shows "\<exists>cache'. run_use_cache_steps m steps cache = Inr cache' \<and>
           valid_cache (length (layers (model m))) a kv (l + length steps) d cache'"
  using steps cache
proof (induction steps arbitrary: l cache)
  case Nil
  then show ?case by simp
next
  case (Cons step rest)
  obtain tokens position_ids attn_mask where step: "step = (tokens, position_ids, attn_mask)"
    by (cases step)
  from Cons.prems(1) have tok: "valid_tokens vocab a 1 tokens"
    and ids: "valid_position_ids a 1 position_ids" and mask: "is_tensor2 a (l + 1) attn_mask"
    and rest: "valid_steps vocab a (l + 1) rest"
    by (simp_all add: step)
  from forward_common_ex [OF wf pos _ tok ids mask Cons.prems(2), of True]
  obtain logits outs where
    f: "forward_use_cache m tokens position_ids attn_mask cache = Inr (logits, outs)"
    and vc: "valid_cache (length (layers (model m))) a kv (l + 1) d (regroup_cache outs)"
    by (auto simp: forward_use_cache_def)
  from Cons.IH [OF rest vc] obtain cache' where
    "run_use_cache_steps m rest (regroup_cache outs) = Inr cache'"
    "valid_cache (length (layers (model m))) a kv (l + 1 + length rest) d cache'" by auto
  then show ?case by (simp add: step f add.commute add.left_commute)
qed

lemma select_norm_wf: "select_norm creatable normalization_type dim' e = Inr n \<Longrightarrow> wf_Norm dim' n"
  by (auto simp: select_norm_cases wf_Norm_def split: if_splits)

lemma Linear_init_wf: "Linear_init creatable f i out = Inr l \<Longrightarrow> wf_Linear i out l"
  by (auto simp: wf_Linear_def Linear_init_eq_Inr_iff is_tensor2_iff)

lemma rotary_mat_shape:
  assumes "rotary_mat hidden_size' num_heads' max_seq_len theta head_scale = Inr (cos_t, sin_t)"
    and "0 < max_seq_len"
  shows "is_tensor2 max_seq_len (dim1 cos_t) cos_t \<and> is_tensor2 max_seq_len (dim1 cos_t) sin_t"
proof -
  define freqs where "freqs = map (\<lambda>p. 1 / (theta powr (p / (head_scale * real hidden_size' / real num_heads'))))
      (map (\<lambda>i. 2 * real i) [0..<nat \<lceil>head_scale * real hidden_size' / real num_heads' / 2\<rceil>])"
  define tab where "tab = map (\<lambda>row. row @ row) (map (\<lambda>idx. map (\<lambda>f. real idx * f) freqs) [0..<max_seq_len])"
  from assms(1) have nz: "num_heads' \<noteq> 0"
    by (auto simp: rotary_mat_def split: if_splits)
  have "rotary_mat hidden_size' num_heads' max_seq_len theta head_scale
          = Inr (map (map cos) tab, map (map sin) tab)"
    unfolding rotary_mat_def Let_def tab_def freqs_def using nz by (simp only: if_False)
  with assms(1) have c: "cos_t = map (map cos) tab" and s: "sin_t = map (map sin) tab"
    by simp_all
  have t: "is_tensor2 max_seq_len (2 * length freqs) tab"
    by (auto simp: tab_def is_tensor2_iff)
  then have tc: "is_tensor2 max_seq_len (2 * length freqs) cos_t"
    and ts: "is_tensor2 max_seq_len (2 * length freqs) sin_t"
    by (auto simp: c s is_tensor2_iff)
  from is_tensor2_dim1 [OF tc assms(2)] tc ts show ?thesis by simp
qed

lemma head_dim_le_width:
  assumes "0 < n"
  shows "h div n \<le> 2 * nat \<lceil>1 * real h / real n / 2\<rceil>"
proof -
  have "real (h div n) \<le> real h / real n" by (rule of_nat_div_le_of_nat)
  also have "\<dots> = 2 * (real h / real n / 2)" by simp
  also have "\<dots> \<le> 2 * real_of_int \<lceil>real h / real n / 2\<rceil>" by (intro mult_left_mono) simp_all
  also have "\<dots> = real (2 * nat \<lceil>real h / real n / 2\<rceil>)"
    by (simp add: ceiling_mono [of 0, simplified])
  finally show ?thesis by simp
qed

lemma SelfAttention_init_wf:
  assumes sa: "SelfAttention_init creatable init hidden_size' num_heads' num_key_value_heads'
                 scale_type = Inr sa"
    and "num_heads' dvd hidden_size'" "num_key_value_heads' dvd num_heads'" "0 < num_key_value_heads'"
  shows "wf_SelfAttention sa \<and> head_dim sa = hidden_size' div num_heads' \<and>
         hidden_size sa = hidden_size' \<and> num_heads sa = num_heads' \<and>
         num_key_value_heads sa = num_key_value_heads' \<and> 0 < num_heads'"
proof -
  from sa have nh: "0 < num_heads'" by (auto simp: SelfAttention_init_def split: if_splits)
  from sa nh obtain q k v o' where
    q: "Linear_init creatable (init 0) hidden_size' hidden_size' = Inr q"
    and k: "Linear_init creatable (init 1) hidden_size'
              (num_key_value_heads' * (hidden_size' div num_heads')) = Inr k"
    and v: "Linear_init creatable (init 2) hidden_size'
              (num_key_value_heads' * (hidden_size' div num_heads')) = Inr v"
    and o': "Linear_init creatable (init 3) hidden_size' hidden_size' = Inr o'"
    and saf: "head_dim sa = hidden_size' div num_heads'" "hidden_size sa = hidden_size'"
      "num_heads sa = num_heads'" "num_key_value_heads sa = num_key_value_heads'"
      "q_proj sa = q" "k_proj sa = k" "v_proj sa = v" "o_proj sa = o'"
    by (auto simp: SelfAttention_init_def Let_def rbind_eq_Inr_iff split: if_splits)
  note w = Linear_init_wf [OF q] Linear_init_wf [OF k] Linear_init_wf [OF v] Linear_init_wf [OF o']
  have "wf_SelfAttention sa"
    unfolding wf_SelfAttention_def saf using assms(2-4) nh w by simp
  with saf nh show ?thesis by simp
qed

lemma ProjLayerSiluMatMul_init_wf:
  assumes "ProjLayerSiluMatMul_init creatable init hidden_size' intermediate_size = Inr p"
  shows "wf_ProjLayerSiluMatMul hidden_size' p"
proof -
  from assms obtain g d u where
    g: "Linear_init creatable (init 4) hidden_size' intermediate_size = Inr g"
    and d: "Linear_init creatable (init 5) intermediate_size hidden_size' = Inr d"
    and u: "Linear_init creatable (init 6) hidden_size' intermediate_size = Inr u"
    and p: "gate_proj p = g" "down_proj p = d" "up_proj p = u"
    by (auto simp: ProjLayerSiluMatMul_init_def rbind_eq_Inr_iff)
  from g d u have f: "in_features g = hidden_size'" "out_features g = intermediate_size"
    "in_features d = intermediate_size" "out_features d = hidden_size'"
    "in_features u = hidden_size'" "out_features u = intermediate_size"
    by (auto simp: Linear_init_eq_Inr_iff)
  from Linear_init_wf [OF g] Linear_init_wf [OF d] Linear_init_wf [OF u] f
  show ?thesis
    unfolding wf_ProjLayerSiluMatMul_def p by auto
qed

lemma TransformerLayer_init_wf:
  assumes "TransformerLayer_init creatable init hidden_size' intermediate_size num_heads' num_key_value_heads'
          scale_type normalization_type epsilon = Inr l"
    and "num_heads' dvd hidden_size'" "num_key_value_heads' dvd num_heads'" "0 < num_key_value_heads'"
  shows "wf_TransformerLayer hidden_size' num_key_value_heads' (hidden_size' div num_heads') l"
proof -
  note li = TransformerLayer_init_Inr [OF assms(1)]
  from li have n1: "select_norm creatable normalization_type hidden_size' epsilon = Inr (input_layernorm l)"
    and n2: "select_norm creatable normalization_type hidden_size' epsilon = Inr (post_attention_layernorm l)"
    and rm: "rotary_mat hidden_size' num_heads' 4096 10000 1 = Inr (cos_tab l, sin_tab l)"
    and sa: "SelfAttention_init creatable init hidden_size' num_heads' num_key_value_heads' scale_type =
               Inr (self_attn l)"
    and ml: "ProjLayerSiluMatMul_init creatable init hidden_size' intermediate_size = Inr (mlp l)"
    by blast+
  note saw = SelfAttention_init_wf [OF sa assms(2-4)]
  from saw have nh: "0 < num_heads'" by simp
  from n1 have w1: "wf_Norm hidden_size' (input_layernorm l)" by (rule select_norm_wf)
  from n2 have w2: "wf_Norm hidden_size' (post_attention_layernorm l)" by (rule select_norm_wf)
  from rotary_mat_shape [OF rm] rotary_mat_row0 [OF rm]
  have t: "is_tensor2 4096 (dim1 (cos_tab l)) (cos_tab l)" "is_tensor2 4096 (dim1 (cos_tab l)) (sin_tab l)"
    and w: "dim1 (cos_tab l) = 2 * nat \<lceil>1 * real hidden_size' / real num_heads' / 2\<rceil>"
    by simp_all
  have dw: "hidden_size' div num_heads' \<le> dim1 (cos_tab l)"
    unfolding w by (rule head_dim_le_width [OF nh])
  have wm: "wf_ProjLayerSiluMatMul hidden_size' (mlp l)"
    using ml by (rule ProjLayerSiluMatMul_init_wf)
  show ?thesis
    unfolding wf_TransformerLayer_def using saw w1 w2 t dw wm by simp
qed

lemma DecoderModel_init_wf:
  assumes "DecoderModel_init creatable init n_layers vocab_size hidden_size' intermediate_size num_heads'
             num_key_value_heads' scale_type normalization_type epsilon = Inr m"
    and "num_heads' dvd hidden_size'" "num_key_value_heads' dvd num_heads'" "0 < num_key_value_heads'"
  shows "wf_DecoderModel vocab_size hidden_size' num_key_value_heads' (hidden_size' div num_heads') m"
proof -
  note dm = DecoderModel_init_Inr [OF assms(1)]
  note mi = Model_init_Inr [OF conjunct1 [OF dm]]
  from mi have n: "select_norm creatable normalization_type hidden_size' (1 / 100000) = Inr (final_norm (model m))"
    and e: "embed_tokens (model m) = map (\<lambda>r. map (\<lambda>c. init 0 0 r c) [0..<hidden_size']) [0..<vocab_size]"
    by simp_all
  from n have wn: "wf_Norm hidden_size' (final_norm (model m))"
    by (rule select_norm_wf)
  have we: "is_tensor2 vocab_size hidden_size' (embed_tokens (model m))"
    by (auto simp: e is_tensor2_iff)
  have wl: "list_all (wf_TransformerLayer hidden_size' num_key_value_heads' (hidden_size' div num_heads'))
              (layers (model m))"
    unfolding list_all_iff
  proof
    fix l assume "l \<in> set (layers (model m))"
    from constructed_layers [OF assms(1) this] obtain i where
      "TransformerLayer_init creatable (init (Suc i)) hidden_size' intermediate_size
         num_heads' num_key_value_heads' scale_type normalization_type epsilon = Inr l" by blast
    then show "wf_TransformerLayer hidden_size' num_key_value_heads' (hidden_size' div num_heads') l"
      using assms(2-4) by (rule TransformerLayer_init_wf)
  qed
  from dm have "Linear_init creatable (init 0 1) hidden_size' vocab_size = Inr (lm_head m)" by simp
  then have "wf_Linear hidden_size' vocab_size (lm_head m)" by (rule Linear_init_wf)
  with we wn wl show ?thesis by (simp add: wf_DecoderModel_def)
qed

text \<open>
  C3. For a well-formed model, a non-empty batch, and caches of sequence length \<open>l\<close>:
  a forward call (in either mode) on \<open>n > 0\<close> new positions returns, and each of the two
  cache tensors it returns per layer has sequence length \<open>l + n\<close>; hence \<open>N\<close> consecutive
  single-token calls in use-cache mode, the caches threaded through, return caches of
  sequence length \<open>l + N\<close>.
\<close>

theorem cache_extension:
  assumes "wf_DecoderModel vocab h kv d m" and "0 < a"
    and "valid_cache (length (layers (model m))) a kv l d cache"
  shows "(0 < n \<longrightarrow> valid_tokens vocab a n tokens \<longrightarrow> valid_position_ids a n position_ids \<longrightarrow>
          is_tensor2 a (l + n) attn_mask \<longrightarrow>
            (\<exists>logits outs. forward_common m use_cache tokens position_ids attn_mask cache = Inr (logits, outs) \<and>
               length outs = 2 * length (layers (model m)) \<and>
               (\<forall>c \<in> set outs. is_tensor4 a kv (l + n) d c))) \<and>
         (valid_steps vocab a l steps \<longrightarrow>
            (\<exists>cache'. run_use_cache_steps m steps cache = Inr cache' \<and>
               valid_cache (length (layers (model m))) a kv (l + length steps) d cache'))"
proof (intro conjI impI)
  assume "0 < n" "valid_tokens vocab a n tokens" "valid_position_ids a n position_ids"
    "is_tensor2 a (l + n) attn_mask"
  from forward_common_ex [OF assms(1,2) this assms(3), of use_cache]
  show "\<exists>logits outs. forward_common m use_cache tokens position_ids attn_mask cache = Inr (logits, outs) \<and>
               length outs = 2 * length (layers (model m)) \<and>
               (\<forall>c \<in> set outs. is_tensor4 a kv (l + n) d c)"
    by blast
next
  assume "valid_steps vocab a l steps"
  from run_use_cache_steps_ex [OF assms(1,2) this assms(3)]
  show "\<exists>cache'. run_use_cache_steps m steps cache = Inr cache' \<and>
               valid_cache (length (layers (model m))) a kv (l + length steps) d cache'" .
qed

lemma toy_model_wf: "wf_DecoderModel 1 1 1 1 (projr toy_model)"
  using DecoderModel_init_wf [OF toy_model_Inr [unfolded toy_model_def]] by (simp add: toy_model_def)

lemma toy_model_layers: "length (layers (model (projr toy_model))) = 1"
  using constructed_n_layers [OF toy_model_Inr [unfolded toy_model_def]] by (simp add: toy_model_def)

theorem cache_extension_witness:
  "wf_DecoderModel 1 1 1 1 (projr toy_model) \<and>
   valid_cache 1 1 1 0 1 [\<lparr>cache_key = [[[]]], cache_value = [[[]]]\<rparr>] \<and>
   valid_tokens 1 1 1 [[0]] \<and> valid_position_ids 1 1 [[0]] \<and> is_tensor2 1 1 [[1 :: real]] \<and>
   (\<exists>logits outs. forward_common (projr toy_model) True [[0]] [[0]] [[1]]
                    [\<lparr>cache_key = [[[]]], cache_value = [[[]]]\<rparr>] = Inr (logits, outs) \<and>
      length outs = 2 \<and> list_all (is_tensor4 1 1 1 1) outs) \<and>
   valid_steps 1 1 0 [([[0]], [[0]], [[1]]), ([[0]], [[1]], [[1, 1]])] \<and>
   (\<exists>cache'. run_use_cache_steps (projr toy_model) [([[0]], [[0]], [[1]]), ([[0]], [[1]], [[1, 1]])]
                [\<lparr>cache_key = [[[]]], cache_value = [[[]]]\<rparr>] = Inr cache' \<and>
      valid_cache 1 1 1 2 1 cache')"
proof -
  have c: "valid_cache (length (layers (model (projr toy_model)))) 1 1 0 1
             [\<lparr>cache_key = [[[]]], cache_value = [[[]]]\<rparr>]"
    by (simp add: toy_model_layers valid_cache_def is_tensor4_def is_tensor3_def is_tensor2_def)
  have t: "valid_tokens 1 1 1 [[0]]" "valid_position_ids 1 1 [[0]]" "is_tensor2 1 1 [[1 :: real]]"
    by (simp_all add: valid_tokens_def valid_position_ids_def is_tensor2_def)
  have s: "valid_steps 1 1 0 [([[0]], [[0]], [[1]]), ([[0]], [[1]], [[1, 1]])]"
    by (simp add: valid_tokens_def valid_position_ids_def is_tensor2_def)
  from cache_extension [OF toy_model_wf _ c, of 1 "[[0]]" "[[0]]" "[[1]]" True
      "[([[0]], [[0]], [[1]]), ([[0]], [[1]], [[1, 1]])]"] t s c toy_model_wf
  show ?thesis by (simp add: toy_model_layers list_all_iff numeral_2_eq_2)
qed

subsection \<open>The caller's cache tensors are not written\<close>

lemma sbind_run:
  "sbind m f h = (case m h of (Inl e, h') \<Rightarrow> (Inl e, h') | (Inr x, h') \<Rightarrow> f x h')"
  by (simp add: sbind_def)

lemma op1_run: "a < length h \<Longrightarrow> op1 f a h = (Inr (length h), h @ [f (h ! a)])"
  by (simp add: op1_def sbind_def read_tensor_def new_tensor_def)

lemma op1r_run:
  "a < length h \<Longrightarrow> op1r f a h = (case f (h ! a) of Inl e \<Rightarrow> (Inl e, h) | Inr v \<Rightarrow> (Inr (length h), h @ [v]))"
  by (simp add: op1r_def sbind_def read_tensor_def new_tensor_def slift_def split: sum.splits)

lemma op2r_run:
  "a < length h \<Longrightarrow> b < length h \<Longrightarrow>
   op2r f a b h = (case f (h ! a) (h ! b) of Inl e \<Rightarrow> (Inl e, h) | Inr v \<Rightarrow> (Inr (length h), h @ [v]))"
  by (simp add: op2r_def sbind_def read_tensor_def new_tensor_def slift_def split: sum.splits)

lemma iop2r_run:
  "a < length h \<Longrightarrow> b < length h \<Longrightarrow>
   iop2r f a b h = (case f (h ! a) (h ! b) of Inl e \<Rightarrow> (Inl e, h) | Inr v \<Rightarrow> (Inr (), h[a := v]))"
  by (simp add: iop2r_def sbind_def read_tensor_def write_tensor_def slift_def split: sum.splits)

lemma ApplyMask_forward_st_run:
  assumes "score < length h"
  shows "\<exists>cells. snd (ApplyMask_forward_st use_cache score attn_mask seq_len num_heads' h) = h @ cells \<and>
           (case fst (ApplyMask_forward_st use_cache score attn_mask seq_len num_heads' h) of
              Inl e \<Rightarrow> ApplyMask_forward use_cache (h ! score) attn_mask seq_len num_heads' = Inl e
            | Inr r \<Rightarrow> length h \<le> r \<and> r < length h + length cells \<and>
                ApplyMask_forward use_cache (h ! score) attn_mask seq_len num_heads' = Inr ((h @ cells) ! r))"
  using assms
  by (simp add: ApplyMask_forward_st_def ApplyMask_forward_def sbind_run op1_run op2r_run iop2r_run
        new_tensor_def sreturn_def Let_def nth_append list_update_append split: sum.splits)


lemma sbind_sreturn [simp]: "sbind (sreturn x) f = f x"
  by (simp add: sbind_def sreturn_def)

lemma sbind_assoc: "sbind (sbind m f) g = sbind m (\<lambda>x. sbind (f x) g)"
  by (auto simp: sbind_def split: prod.splits sum.splits)

lemma sim_return: "R x v h \<Longrightarrow> sim h (sreturn x) (Inr v) R"
  by (simp add: sim_def sreturn_def)

lemma sim_bind:
  assumes "sim h m p R"
    and "\<And>r v c. R r v (h @ c) \<Longrightarrow> sim (h @ c) (f r) (g v) S"
  shows "sim h (sbind m f) (rbind p g) S"
proof -
  from assms(1) obtain c where c: "snd (m h) = h @ c"
    and r: "case fst (m h) of Inl e \<Rightarrow> p = Inl e | Inr r \<Rightarrow> (\<exists>v. p = Inr v \<and> R r v (h @ c))"
    by (auto simp: sim_def)
  show ?thesis
  proof (cases "fst (m h)")
    case (Inl e)
    with c r have "m h = (Inl e, h @ c)" "p = Inl e" by (auto simp: prod_eq_iff)
    then show ?thesis by (simp add: sim_def sbind_def)
  next
    case (Inr x)
    with c r obtain v where mh: "m h = (Inr x, h @ c)" and p: "p = Inr v" and R: "R x v (h @ c)"
      by (auto simp: prod_eq_iff)
    from assms(2) [OF R] obtain c' where c': "snd (f x (h @ c)) = (h @ c) @ c'"
      and r': "case fst (f x (h @ c)) of Inl e \<Rightarrow> g v = Inl e
               | Inr r \<Rightarrow> (\<exists>w. g v = Inr w \<and> S r w ((h @ c) @ c'))"
      by (auto simp: sim_def)
    show ?thesis
      unfolding sim_def
      by (rule exI [of _ "c @ c'"]) (use c' r' in \<open>auto simp: sbind_def mh p split: sum.splits\<close>)
  qed
qed

lemma sim_bind_lift:
  assumes "\<And>v. p = Inr v \<Longrightarrow> sim h (f v) (g v) S"
  shows "sim h (sbind (slift p) f) (rbind p g) S"
proof (cases p)
  case (Inl e)
  then show ?thesis by (simp add: sim_def sbind_def slift_def)
next
  case (Inr v)
  from assms [OF this] show ?thesis by (simp add: sim_def sbind_def slift_def Inr)
qed

lemma sim_bind_error: "sim h (sbind (slift (Inl e)) f) (rbind (Inl e) g) S"
  by (simp add: sim_def sbind_def slift_def)

lemma sim_extend:
  assumes "sim (h @ c) m p S"
  shows "\<exists>cells. snd (m (h @ c)) = h @ cells \<and>
           (case fst (m (h @ c)) of Inl e \<Rightarrow> p = Inl e | Inr r \<Rightarrow> (\<exists>v. p = Inr v \<and> S r v (h @ cells)))"
proof -
  from assms obtain c' where "snd (m (h @ c)) = (h @ c) @ c'"
    "case fst (m (h @ c)) of Inl e \<Rightarrow> p = Inl e | Inr r \<Rightarrow> (\<exists>v. p = Inr v \<and> S r v ((h @ c) @ c'))"
    by (auto simp: sim_def)
  then show ?thesis by (intro exI [of _ "c @ c'"]) (auto split: sum.splits)
qed

lemma sim_bind_new:
  assumes "sim (h @ [t]) (f (length h)) p S"
  shows "sim h (sbind (new_tensor t) f) p S"
  using sim_extend [OF assms] by (simp add: sim_def sbind_def new_tensor_def)

lemma sim_bind_read:
  assumes "a < length h" "h ! a = x" "sim h (f x) p S"
  shows "sim h (sbind (read_tensor a) f) p S"
  using assms by (auto simp: sim_def sbind_def read_tensor_def)

lemma sim_bind_op1:
  assumes "a < length h" "sim (h @ [F (h ! a)]) (f (length h)) p S"
  shows "sim h (sbind (op1 F a) f) p S"
  using sim_extend [OF assms(2)] assms(1) by (simp add: sim_def sbind_def op1_run)

lemma sim_bind_op1r:
  assumes "a < length h" "h ! a = x"
    and "\<And>v. F x = Inr v \<Longrightarrow> sim (h @ [v]) (f (length h)) (g v) S"
  shows "sim h (sbind (op1r F a) f) (rbind (F x) g) S"
proof (cases "F x")
  case (Inl e)
  with assms(1,2) show ?thesis by (simp add: sim_def sbind_def op1r_run)
next
  case (Inr v)
  from sim_extend [OF assms(3) [OF this]] assms(1,2) show ?thesis
    by (simp add: sim_def sbind_def op1r_run Inr)
qed

lemma sim_bind_op2r:
  assumes "a < length h" "b < length h" "h ! a = x" "h ! b = y"
    and "\<And>v. F x y = Inr v \<Longrightarrow> sim (h @ [v]) (f (length h)) (g v) S"
  shows "sim h (sbind (op2r F a b) f) (rbind (F x y) g) S"
proof (cases "F x y")
  case (Inl e)
  with assms(1-4) show ?thesis by (simp add: sim_def sbind_def op2r_run)
next
  case (Inr v)
  from sim_extend [OF assms(5) [OF this]] assms(1-4) show ?thesis
    by (simp add: sim_def sbind_def op2r_run Inr)
qed

lemma sim_ApplyMask:
  assumes "score < length h" "h ! score = x"
  shows "sim h (ApplyMask_forward_st use_cache score attn_mask seq_len num_heads')
           (ApplyMask_forward use_cache x attn_mask seq_len num_heads')
           (\<lambda>r v h'. length h \<le> r \<and> r < length h' \<and> h' ! r = v)"
  using ApplyMask_forward_st_run [OF assms(1), of use_cache attn_mask seq_len num_heads'] assms(2)
  unfolding sim_def by (auto split: sum.splits)


lemma sim_SelfAttention:
  assumes "k_cache < length h" "v_cache < length h"
  shows "sim h (SelfAttention_forward_st self use_cache x position_ids attn_mask cos_t sin_t k_cache v_cache)
           (SelfAttention_forward self use_cache x position_ids attn_mask cos_t sin_t (h ! k_cache) (h ! v_cache))
           (\<lambda>(out, k, v) (out', kv, vv) h'.
              out = out' \<and> length h \<le> k \<and> k < length h' \<and> length h \<le> v \<and> v < length h' \<and>
              h' ! k = kv \<and> h' ! v = vv)"
  unfolding SelfAttention_forward_st_def SelfAttention_forward_def Let_def
  using assms
  apply -
  apply (rule sim_bind_lift)+
  apply (rule sim_bind_new)
  apply (rule sim_bind_lift)
  apply (rule sim_bind_new)
  apply (rule sim_bind_lift)
  apply (rule sim_bind_new)
  apply (rule sim_bind_op1r, (simp add: nth_append; fail)+)
  apply (rule sim_bind_op1r, (simp add: nth_append; fail)+)
  apply (rule sim_bind_op2r, (simp add: nth_append; fail)+)
  apply (rule sim_bind_op2r, (simp add: nth_append; fail)+)
  apply (cases "num_heads self = num_key_value_heads self"; cases "num_key_value_heads self = 0";
      simp only: simp_thms if_True if_False Let_def sbind_sreturn sbind_assoc rbind_Inr prod.case)
  subgoal
    apply (rule sim_bind_op2r, (simp add: nth_append; fail)+)
    apply (rule sim_bind_op1, (simp add: nth_append; fail)+)
    apply (rule sim_bind [OF sim_ApplyMask], (simp add: nth_append; fail)+)
    apply (rule sim_bind_op1, (simp add: nth_append; fail)+)
    apply (rule sim_bind_op2r, (simp add: nth_append; fail)+)
    apply (rule sim_bind_read, (simp add: nth_append; fail)+)
    apply (rule sim_bind_lift)+
    apply (rule sim_return, (simp add: nth_append; fail)+)
    done
  subgoal
    apply (rule sim_bind_op2r, (simp add: nth_append; fail)+)
    apply (rule sim_bind_op1, (simp add: nth_append; fail)+)
    apply (rule sim_bind [OF sim_ApplyMask], (simp add: nth_append; fail)+)
    apply (rule sim_bind_op1, (simp add: nth_append; fail)+)
    apply (rule sim_bind_op2r, (simp add: nth_append; fail)+)
    apply (rule sim_bind_read, (simp add: nth_append; fail)+)
    apply (rule sim_bind_lift)+
    apply (rule sim_return, (simp add: nth_append; fail)+)
    done
  subgoal
    apply (rule sim_bind_error)
    done
  subgoal
    apply (rule sim_bind_op1, (simp add: nth_append; fail)+)
    apply (rule sim_bind_op1, (simp add: nth_append; fail)+)
    apply (rule sim_bind_op2r, (simp add: nth_append; fail)+)
    apply (rule sim_bind_op1, (simp add: nth_append; fail)+)
    apply (rule sim_bind [OF sim_ApplyMask], (simp add: nth_append; fail)+)
    apply (rule sim_bind_op1, (simp add: nth_append; fail)+)
    apply (rule sim_bind_op2r, (simp add: nth_append; fail)+)
    apply (rule sim_bind_read, (simp add: nth_append; fail)+)
    apply (rule sim_bind_lift)+
    apply (rule sim_return, (simp add: nth_append; fail)+)
    done
  done


lemma sim_TransformerLayer:
  assumes "k_cache < length h" "v_cache < length h"
  shows "sim h (TransformerLayer_forward_st self use_cache x position_ids attn_mask k_cache v_cache)
           (TransformerLayer_forward self use_cache x position_ids attn_mask (h ! k_cache) (h ! v_cache))
           (\<lambda>(out, k, v) (out', kv, vv) h'.
              out = out' \<and> length h \<le> k \<and> k < length h' \<and> length h \<le> v \<and> v < length h' \<and>
              h' ! k = kv \<and> h' ! v = vv)"
  unfolding TransformerLayer_forward_st_def TransformerLayer_forward_def
  apply (rule sim_bind_lift)
  apply (rule sim_bind [OF sim_SelfAttention [OF assms]])
  apply (simp only: split_paired_all prod.case)
  apply (elim conjE)
  apply hypsubst
  apply (rule sim_bind_lift)+
  apply (rule sim_return)
  apply simp
  done


lemma deref_cache_append:
  "\<forall>c \<in> set cache. key_ref c < length h \<and> value_ref c < length h \<Longrightarrow>
   deref_cache (h @ c') cache = deref_cache h cache"
  by (simp add: deref_cache_def nth_append)

lemma map_nth_append: "\<forall>a \<in> set as. a < length h \<Longrightarrow> map ((!) (h @ c)) as = map ((!) h) as"
  by (simp add: nth_append)

lemma sim_Model_layers:
  assumes refs: "\<forall>c \<in> set cache. key_ref c < length h \<and> value_ref c < length h"
    and acc: "\<forall>a \<in> set k_caches \<union> set v_caches. n \<le> a \<and> a < length h"
    and n: "n \<le> length h"
  shows "sim h (Model_layers_st ls layer_idx use_cache x position_ids attn_mask cache k_caches v_caches)
           (Model_layers ls layer_idx use_cache x position_ids attn_mask (deref_cache h cache)
              (map ((!) h) k_caches) (map ((!) h) v_caches))
           (\<lambda>(y, ks, vs) (y', kp, vp) h'.
              y = y' \<and> kp = map ((!) h') ks \<and> vp = map ((!) h') vs \<and>
              (\<forall>a \<in> set ks \<union> set vs. n \<le> a \<and> a < length h'))"
  using refs acc n
proof (induction ls arbitrary: h layer_idx x k_caches v_caches)
  case Nil
  then show ?case by (simp add: sim_return)
next
  case (Cons layer rest)
  show ?case
  proof (cases "length cache \<le> layer_idx")
    case True
    then show ?thesis by (simp add: deref_cache_def sim_def slift_def)
  next
    case False
    then have idx: "layer_idx < length cache" by simp
    then have "cache ! layer_idx \<in> set cache" by simp
    with Cons.prems(1) have kr: "key_ref (cache ! layer_idx) < length h"
      and vr: "value_ref (cache ! layer_idx) < length h" by simp_all
    let ?kv = "h ! key_ref (cache ! layer_idx)" and ?vv = "h ! value_ref (cache ! layer_idx)"
    let ?h2 = "(h @ [?kv]) @ [(h @ [?kv]) ! value_ref (cache ! layer_idx)]"
    have h2: "?h2 = h @ [?kv, ?vv]" using vr by (simp add: nth_append)
    have step: "sim (h @ [?kv, ?vv])
             (sbind (TransformerLayer_forward_st layer use_cache x position_ids attn_mask
                       (length h) (Suc (length h)))
                (\<lambda>(x, k_cache, v_cache).
                   Model_layers_st rest (Suc layer_idx) use_cache x position_ids attn_mask cache
                     (k_caches @ [k_cache]) (v_caches @ [v_cache])))
             (rbind (TransformerLayer_forward layer use_cache x position_ids attn_mask
                       ((h @ [?kv, ?vv]) ! length h) ((h @ [?kv, ?vv]) ! Suc (length h)))
                (\<lambda>(x, k_cache, v_cache).
                   Model_layers rest (Suc layer_idx) use_cache x position_ids attn_mask (deref_cache h cache)
                     (map ((!) h) k_caches @ [k_cache]) (map ((!) h) v_caches @ [v_cache])))
             (\<lambda>(y, ks, vs) (y', kp, vp) h'.
                y = y' \<and> kp = map ((!) h') ks \<and> vp = map ((!) h') vs \<and>
                (\<forall>a \<in> set ks \<union> set vs. n \<le> a \<and> a < length h'))"
    proof (rule sim_bind [OF sim_TransformerLayer])
      show "length h < length (h @ [?kv, ?vv])" "Suc (length h) < length (h @ [?kv, ?vv])" by simp_all
    next
      fix r :: "tensor3 \<times> nat \<times> nat" and v :: "tensor3 \<times> tensor4 \<times> tensor4" and c
      obtain y k va where r: "r = (y, k, va)" by (cases r)
      obtain y' kp vp where v: "v = (y', kp, vp)" by (cases v)
      let ?h3 = "(h @ [?kv, ?vv]) @ c"
      assume "(case r of (out, k, v) \<Rightarrow> \<lambda>(out', kv, vv) h'.
                 out = out' \<and> length (h @ [?kv, ?vv]) \<le> k \<and> k < length h' \<and>
                 length (h @ [?kv, ?vv]) \<le> v \<and> v < length h' \<and> h' ! k = kv \<and> h' ! v = vv) v ?h3"
      then have y: "y = y'" and k: "length h \<le> k" "k < length ?h3" "?h3 ! k = kp"
        and va: "length h \<le> va" "va < length ?h3" "?h3 ! va = vp"
        by (simp_all add: r v)
      have refs3: "\<forall>c \<in> set cache. key_ref c < length ?h3 \<and> value_ref c < length ?h3"
        using Cons.prems(1) by auto
      have acc3: "\<forall>a \<in> set (k_caches @ [k]) \<union> set (v_caches @ [va]). n \<le> a \<and> a < length ?h3"
        using Cons.prems(2,3) k va by (auto simp: ball_Un dest: bspec)
      have n3: "n \<le> length ?h3" using Cons.prems(3) by simp
      have d: "deref_cache ?h3 cache = deref_cache h cache"
        using deref_cache_append [OF Cons.prems(1), of "[?kv, ?vv] @ c"] by simp
      have mk: "map ((!) ?h3) (k_caches @ [k]) = map ((!) h) k_caches @ [kp]"
        using map_nth_append [of k_caches h "[?kv, ?vv] @ c"] Cons.prems(2) k by simp
      have mv: "map ((!) ?h3) (v_caches @ [va]) = map ((!) h) v_caches @ [vp]"
        using map_nth_append [of v_caches h "[?kv, ?vv] @ c"] Cons.prems(2) va by simp
      from Cons.IH [OF refs3 acc3 n3, of "Suc layer_idx" y]
      show "sim ?h3
             (case r of (x, k_cache, v_cache) \<Rightarrow>
                Model_layers_st rest (Suc layer_idx) use_cache x position_ids attn_mask cache
                  (k_caches @ [k_cache]) (v_caches @ [v_cache]))
             (case v of (x, k_cache, v_cache) \<Rightarrow>
                Model_layers rest (Suc layer_idx) use_cache x position_ids attn_mask (deref_cache h cache)
                  (map ((!) h) k_caches @ [k_cache]) (map ((!) h) v_caches @ [v_cache]))
             (\<lambda>(y, ks, vs) (y', kp, vp) h'.
                y = y' \<and> kp = map ((!) h') ks \<and> vp = map ((!) h') vs \<and>
                (\<forall>a \<in> set ks \<union> set vs. n \<le> a \<and> a < length h'))"
        unfolding r v prod.case d mk mv y .
    qed
    have "sim h (sbind (op1 (\<lambda>t. t) (key_ref (cache ! layer_idx))) (\<lambda>k_cache.
                 sbind (op1 (\<lambda>t. t) (value_ref (cache ! layer_idx))) (\<lambda>v_cache.
                 sbind (TransformerLayer_forward_st layer use_cache x position_ids attn_mask k_cache v_cache)
                   (\<lambda>(x, k_cache, v_cache).
                      Model_layers_st rest (Suc layer_idx) use_cache x position_ids attn_mask cache
                        (k_caches @ [k_cache]) (v_caches @ [v_cache])))))
             (rbind (TransformerLayer_forward layer use_cache x position_ids attn_mask ?kv ?vv)
                (\<lambda>(x, k_cache, v_cache).
                   Model_layers rest (Suc layer_idx) use_cache x position_ids attn_mask (deref_cache h cache)
                     (map ((!) h) k_caches @ [k_cache]) (map ((!) h) v_caches @ [v_cache])))
             (\<lambda>(y, ks, vs) (y', kp, vp) h'.
                y = y' \<and> kp = map ((!) h') ks \<and> vp = map ((!) h') vs \<and>
                (\<forall>a \<in> set ks \<union> set vs. n \<le> a \<and> a < length h'))"
      apply (rule sim_bind_op1 [OF kr])
      apply (rule sim_bind_op1)
       apply (use vr in simp)
      unfolding h2 using step by (simp add: nth_append)
    with False idx show ?thesis
      by (simp add: Let_def deref_cache_def)
  qed
qed


lemma sim_Model_forward:
  assumes refs: "\<forall>c \<in> set cache. key_ref c < length h \<and> value_ref c < length h"
  shows "sim h (Model_forward_st self use_cache tokens position_ids attn_mask cache)
           (Model_forward self use_cache tokens position_ids attn_mask (deref_cache h cache))
           (\<lambda>(y, ks, vs) (y', kp, vp) h'.
              y = y' \<and> kp = map ((!) h') ks \<and> vp = map ((!) h') vs \<and>
              (\<forall>a \<in> set ks \<union> set vs. length h \<le> a \<and> a < length h'))"
proof -
  have layers: "sim h (Model_layers_st (layers self) 0 use_cache x position_ids attn_mask cache [] [])
           (Model_layers (layers self) 0 use_cache x position_ids attn_mask (deref_cache h cache) [] [])
           (\<lambda>(y, ks, vs) (y', kp, vp) h'.
              y = y' \<and> kp = map ((!) h') ks \<and> vp = map ((!) h') vs \<and>
              (\<forall>a \<in> set ks \<union> set vs. length h \<le> a \<and> a < length h'))" for x
    using sim_Model_layers [OF refs, of "[]" "[]" "length h" "layers self" 0 use_cache x position_ids attn_mask]
    by simp
  show ?thesis
    unfolding Model_forward_st_def Model_forward_def
    apply (rule sim_bind_lift)
    apply (rule sim_bind [OF layers])
    apply (simp only: split_paired_all prod.case)
    apply (elim conjE)
    apply hypsubst
    apply (rule sim_bind_lift)
    apply (rule sim_return)
    apply simp
    done
qed

lemma interleave_nth:
  "map f (concat (map (\<lambda>(k, v). [k, v]) (zip ks vs))) =
   concat (map (\<lambda>(k, v). [k, v]) (zip (map f ks) (map f vs)))"
  by (simp add: zip_map_map map_concat comp_def case_prod_beta)

lemma interleave_subset:
  "set (concat (map (\<lambda>(k, v). [k, v]) (zip ks vs))) \<subseteq> set ks \<union> set vs"
  by (auto dest: set_zip_leftD set_zip_rightD)

lemma sim_forward_common:
  assumes refs: "\<forall>c \<in> set cache. key_ref c < length h \<and> value_ref c < length h"
  shows "sim h (forward_common_st self use_cache tokens position_ids attn_mask cache)
           (forward_common self use_cache tokens position_ids attn_mask (deref_cache h cache))
           (\<lambda>(logits, outs) (logits', outs') h'.
              logits = logits' \<and> outs' = map ((!) h') outs \<and>
              list_all (\<lambda>a. length h \<le> a \<and> a < length h') outs)"
  unfolding forward_common_st_def forward_common_def
  apply (rule sim_bind [OF sim_Model_forward [OF refs]])
  apply (simp only: split_paired_all prod.case)
  apply (elim conjE)
  apply hypsubst
  apply (rule sim_bind_lift)
  apply (rule sim_return)
  apply (simp only: prod.case)
  apply (intro conjI)
    apply (rule refl)
  subgoal by (simp only: interleave_nth)
  subgoal using interleave_subset by (fastforce simp: list_all_iff)
  done

text \<open>
  Claim C4. A forward call leaves every tensor object that existed before the call, in
  particular every key and value tensor of the caller's cache, with the value it had: the final
  store is the initial store followed by new cells. The call fails exactly when the forward pass
  on the values fails; otherwise the returned cache tensors are objects created during the call
  and hold the extended caches computed by the forward pass on the values.
\<close>

theorem forward_preserves_cache:
  assumes "list_all (\<lambda>c. key_ref c < length h \<and> value_ref c < length h) cache"
  shows "\<exists>cells.
           snd (forward_common_st self use_cache tokens position_ids attn_mask cache h) = h @ cells \<and>
           deref_cache (h @ cells) cache = deref_cache h cache \<and>
           (case fst (forward_common_st self use_cache tokens position_ids attn_mask cache h) of
              Inl e \<Rightarrow>
                forward_common self use_cache tokens position_ids attn_mask (deref_cache h cache) = Inl e
            | Inr (logits, outs) \<Rightarrow>
                list_all (\<lambda>a. length h \<le> a \<and> a < length (h @ cells)) outs \<and>
                forward_common self use_cache tokens position_ids attn_mask (deref_cache h cache) =
                  Inr (logits, map ((!) (h @ cells)) outs))"
proof -
  from assms have refs: "\<forall>c \<in> set cache. key_ref c < length h \<and> value_ref c < length h"
    by (simp add: list_all_iff)
  from sim_forward_common [OF refs, of self use_cache tokens position_ids attn_mask]
  obtain cells where
    s: "snd (forward_common_st self use_cache tokens position_ids attn_mask cache h) = h @ cells"
    and r: "case fst (forward_common_st self use_cache tokens position_ids attn_mask cache h) of
              Inl e \<Rightarrow>
                forward_common self use_cache tokens position_ids attn_mask (deref_cache h cache) = Inl e
            | Inr r \<Rightarrow>
                (\<exists>v. forward_common self use_cache tokens position_ids attn_mask (deref_cache h cache) = Inr v \<and>
                   (case r of (logits, outs) \<Rightarrow> \<lambda>(logits', outs') h'.
                      logits = logits' \<and> outs' = map ((!) h') outs \<and>
                      list_all (\<lambda>a. length h \<le> a \<and> a < length h') outs) v (h @ cells))"
    unfolding sim_def by blast
  show ?thesis
  proof (intro exI [of _ cells] conjI)
    show "snd (forward_common_st self use_cache tokens position_ids attn_mask cache h) = h @ cells"
      by (rule s)
    show "deref_cache (h @ cells) cache = deref_cache h cache"
      by (rule deref_cache_append [OF refs])
    show "case fst (forward_common_st self use_cache tokens position_ids attn_mask cache h) of
              Inl e \<Rightarrow>
                forward_common self use_cache tokens position_ids attn_mask (deref_cache h cache) = Inl e
            | Inr (logits, outs) \<Rightarrow>
                list_all (\<lambda>a. length h \<le> a \<and> a < length (h @ cells)) outs \<and>
                forward_common self use_cache tokens position_ids attn_mask (deref_cache h cache) =
                  Inr (logits, map ((!) (h @ cells)) outs)"
      using r by (auto split: sum.splits prod.splits)
  qed
qed

theorem forward_preserves_cache_witness:
  "list_all (\<lambda>c. key_ref c < length [[[[]]], [[[]]] :: tensor4] \<and>
                  value_ref c < length [[[[]]], [[[]]] :: tensor4])
     [\<lparr>key_ref = 0, value_ref = 1\<rparr>] \<and>
   (\<exists>logits outs cells.
      forward_common_st (projr toy_model) False [[0]] [[0]] [[1]] [\<lparr>key_ref = 0, value_ref = 1\<rparr>]
        [[[[]]], [[[]]]] = (Inr (logits, outs), [[[[]]], [[[]]]] @ cells) \<and>
      length outs = 2 \<and> list_all (\<lambda>a. 2 \<le> a \<and> a < 2 + length cells) outs)"
proof -
  let ?h = "[[[[]]], [[[]]]] :: tensor4 list"
  let ?cache = "[\<lparr>key_ref = 0, value_ref = 1\<rparr>]"
  let ?run = "forward_common_st (projr toy_model) False [[0]] [[0]] [[1]] ?cache ?h"
  have refs: "list_all (\<lambda>c. key_ref c < length ?h \<and> value_ref c < length ?h) ?cache"
    by simp
  have d: "deref_cache ?h ?cache = [\<lparr>cache_key = [[[]]], cache_value = [[[]]]\<rparr>]"
    by (simp add: deref_cache_def)
  have c: "valid_cache (length (layers (model (projr toy_model)))) 1 1 0 1 (deref_cache ?h ?cache)"
    unfolding d
    by (simp add: toy_model_layers valid_cache_def is_tensor4_def is_tensor3_def is_tensor2_def)
  have t: "valid_tokens 1 1 1 [[0]]" "valid_position_ids 1 1 [[0]]" "is_tensor2 1 (0 + 1) [[1 :: real]]"
    by (simp_all add: valid_tokens_def valid_position_ids_def is_tensor2_def)
  from forward_common_ex [OF toy_model_wf _ _ t c, of False]
  obtain logits' outs' where
    p: "forward_common (projr toy_model) False [[0]] [[0]] [[1]] (deref_cache ?h ?cache) = Inr (logits', outs')"
    and l: "length outs' = 2"
    by (auto simp: toy_model_layers)
  from forward_preserves_cache [OF refs, of "projr toy_model" False "[[0]]" "[[0]]" "[[1]]"]
  obtain cells where s: "snd ?run = ?h @ cells"
    and r: "case fst ?run of
              Inl e \<Rightarrow> forward_common (projr toy_model) False [[0]] [[0]] [[1]] (deref_cache ?h ?cache) = Inl e
            | Inr (logits, outs) \<Rightarrow>
                list_all (\<lambda>a. length ?h \<le> a \<and> a < length (?h @ cells)) outs \<and>
                forward_common (projr toy_model) False [[0]] [[0]] [[1]] (deref_cache ?h ?cache) =
                  Inr (logits, map ((!) (?h @ cells)) outs)"
    by blast
  from r p obtain logits outs where f: "fst ?run = Inr (logits, outs)"
    and a: "list_all (\<lambda>a. length ?h \<le> a \<and> a < length (?h @ cells)) outs"
    and o: "outs' = map ((!) (?h @ cells)) outs"
    by (cases "fst ?run") (auto split: prod.splits)
  from o l have lo: "length outs = 2" by simp
  from f s have "?run = (Inr (logits, outs), ?h @ cells)" by (simp add: prod_eq_iff)
  with lo a refs show ?thesis by (auto simp: numeral_2_eq_2)
qed

end
